theory Spec2Isabelle
  imports Complex_Main "HOL-Library.Word"
begin

unbundle bit_operations_syntax

section \<open>Numeric model\<close>

text \<open>
  The C++ sources compute in \<open>float\<close>. A \<open>float\<close> is modelled as a real number:
  the model covers finite, non-NaN values and ignores rounding. Where the source stores
  \<open>+infinity\<close> on purpose (the virtual ring's end distances) the value is a constructor
  of its own. Unsigned machine integers are words; \<open>std::size_t\<close> counters and indices
  are natural numbers.
\<close>

type_synonym vec2 = "real \<times> real"

text \<open>\<open>std::clamp(v, lo, hi)\<close>: \<open>(v < lo) ? lo : (hi < v) ? hi : v\<close>.\<close>

definition std_clamp :: "real \<Rightarrow> real \<Rightarrow> real \<Rightarrow> real" where
  "std_clamp v lo hi = (if v < lo then lo else if hi < v then hi else v)"

definition std_clamp_int :: "int \<Rightarrow> int \<Rightarrow> int \<Rightarrow> int" where
  "std_clamp_int v lo hi = (if v < lo then lo else if hi < v then hi else v)"

text \<open>\<open>utility::clamp(value, minValue, maxValue)\<close> of \<open>utility/math_utils.hpp\<close>.\<close>

definition utility_clamp :: "real \<Rightarrow> real \<Rightarrow> real \<Rightarrow> real" where
  "utility_clamp v minValue maxValue = min maxValue (max minValue v)"

definition squared :: "real \<Rightarrow> real" where
  "squared v = v * v"

text \<open>
  \<open>std::fmod(x, y)\<close>: the remainder of the division truncated towards zero; it has the
  sign of \<open>x\<close>.
\<close>

definition trunc_real :: "real \<Rightarrow> int" where
  "trunc_real x = (if 0 \<le> x then \<lfloor>x\<rfloor> else \<lceil>x\<rceil>)"

definition fmod :: "real \<Rightarrow> real \<Rightarrow> real" where
  "fmod x y = x - y * of_int (trunc_real (x / y))"

text \<open>
  \<open>std::atan2(y, x)\<close> for finite arguments, with values in \<open>(-pi, pi]\<close> and
  \<open>atan2(0, 0) = 0\<close>.
\<close>

definition atan2 :: "real \<Rightarrow> real \<Rightarrow> real" where
  "atan2 y x =
     (if 0 < x then arctan (y / x)
      else if x < 0 then (if 0 \<le> y then arctan (y / x) + pi else arctan (y / x) - pi)
      else if 0 < y then pi / 2
      else if y < 0 then - (pi / 2)
      else 0)"

text \<open>\<open>std::erf\<close>, by its power series.\<close>

definition erf :: "real \<Rightarrow> real" where
  "erf x = 2 / sqrt pi * (\<Sum>n. (- 1) ^ n * x ^ (2 * n + 1) / (fact n * real (2 * n + 1)))"

definition vec_length :: "vec2 \<Rightarrow> real" where
  "vec_length v = sqrt (fst v * fst v + snd v * snd v)"

definition vec_sub :: "vec2 \<Rightarrow> vec2 \<Rightarrow> vec2" where
  "vec_sub a b = (fst a - fst b, snd a - snd b)"

definition vec_add :: "vec2 \<Rightarrow> vec2 \<Rightarrow> vec2" where
  "vec_add a b = (fst a + fst b, snd a + snd b)"

definition vec_scale :: "vec2 \<Rightarrow> real \<Rightarrow> vec2" where
  "vec_scale a k = (fst a * k, snd a * k)"

definition vec_dot :: "vec2 \<Rightarrow> vec2 \<Rightarrow> real" where
  "vec_dot a b = fst a * fst b + snd a * snd b"

section \<open>Radar types (\<open>utility/radar_types.hpp\<close>)\<close>

datatype SensorIndex = FrontLeft | FrontRight | RearLeft | RearRight | FrontShort | FrontLong

definition kCornerReturnCount :: nat where
  "kCornerReturnCount = 64"

definition kFrontReturnCount :: nat where
  "kFrontReturnCount = 128"

definition kTrackCount :: nat where
  "kTrackCount = 96"

text \<open>\<open>TrackStatus\<close> and \<open>TrackObjectClass\<close> are carried by their numeric values.\<close>

definition TrackStatus_Invalid :: "8 word" where
  "TrackStatus_Invalid = 0"

definition TrackStatus_Updated :: "8 word" where
  "TrackStatus_Updated = 5"

definition TrackObjectClass_Car :: "16 word" where
  "TrackObjectClass_Car = 1"

definition TrackObjectClass_Motorcycle :: "16 word" where
  "TrackObjectClass_Motorcycle = 2"

definition TrackObjectClass_Truck :: "16 word" where
  "TrackObjectClass_Truck = 3"

definition TrackObjectClass_Bicycle :: "16 word" where
  "TrackObjectClass_Bicycle = 9"

definition DetectionFlag_Valid :: "8 word" where
  "DetectionFlag_Valid = 1"

definition DetectionFlag_SuperResolution :: "8 word" where
  "DetectionFlag_SuperResolution = 2"

definition packDetectionFlags ::
  "8 word \<Rightarrow> 8 word \<Rightarrow> 8 word \<Rightarrow> 8 word \<Rightarrow> 8 word \<Rightarrow> 8 word" where
  "packDetectionFlags radarValid superResolution nearTarget hostVehicleClutter multibounce =
     radarValid + push_bit 1 superResolution + push_bit 2 nearTarget +
     push_bit 3 hostVehicleClutter + push_bit 4 multibounce"

record RadarPose =
  pose_longitudinal_m :: real
  pose_lateral_m :: real
  pose_height_m :: real
  pose_orientation_rad :: real

record RadarCalibration =
  vcs :: RadarPose
  iso :: RadarPose
  polarity :: real
  rangeRateAccuracy_mps :: real
  azimuthAccuracy_rad :: real
  cal_horizontalFov_rad :: real

record VehicleParameters =
  distRearAxleToFrontBumper_m :: real
  cornerHardwareDelay_s :: real
  frontCenterHardwareDelay_s :: real
  radarCalibrations :: "SensorIndex \<Rightarrow> RadarCalibration"
  contourIso :: "vec2 list"

record RawDetectionsHeader =
  hdr_timestamp_us :: "64 word"
  hdr_horizontalFov_rad :: real
  hdr_maximumRange_m :: real
  hdr_azimuthPolarity :: real
  hdr_boresightAngle_rad :: real
  hdr_sensorLongitudinal_m :: real
  hdr_sensorLateral_m :: real

text \<open>
  The parallel \<open>std::array\<close>s of a raw frame, each a function of the index. A corner
  frame reads the indices below 64, a front frame those below 128.
\<close>

record RawReturns =
  raw_range_m :: "nat \<Rightarrow> real"
  raw_rangeRate_ms :: "nat \<Rightarrow> real"
  raw_rangeRateRaw_ms :: "nat \<Rightarrow> real"
  raw_azimuthRaw_rad :: "nat \<Rightarrow> real"
  raw_azimuth_rad :: "nat \<Rightarrow> real"
  raw_amplitude_dBsm :: "nat \<Rightarrow> real"
  raw_longitudinalOffset_m :: "nat \<Rightarrow> real"
  raw_lateralOffset_m :: "nat \<Rightarrow> real"
  raw_motionStatus :: "nat \<Rightarrow> int"
  raw_radarValidReturn :: "nat \<Rightarrow> 8 word"
  raw_superResolutionDetection :: "nat \<Rightarrow> 8 word"
  raw_nearTargetDetection :: "nat \<Rightarrow> 8 word"
  raw_hostVehicleClutter :: "nat \<Rightarrow> 8 word"
  raw_multibounceDetection :: "nat \<Rightarrow> 8 word"

record RawCornerDetections =
  rc_sensor :: SensorIndex
  rc_header :: RawDetectionsHeader
  rc_returns :: RawReturns

record RawFrontDetections =
  rf_header :: RawDetectionsHeader
  rf_returns :: RawReturns

record RawTrackFusion =
  rt_timestamp_us :: "64 word"
  rt_vcsLongitudinalPosition :: "nat \<Rightarrow> real"
  rt_vcsLateralPosition :: "nat \<Rightarrow> real"
  rt_length :: "nat \<Rightarrow> real"
  rt_width :: "nat \<Rightarrow> real"
  rt_height :: "nat \<Rightarrow> real"
  rt_probabilityOfDetection :: "nat \<Rightarrow> real"
  rt_id :: "nat \<Rightarrow> int"
  rt_objectClassification :: "nat \<Rightarrow> 16 word"
  rt_objectClassificationConfidence :: "nat \<Rightarrow> 8 word"
  rt_status :: "nat \<Rightarrow> 8 word"
  rt_vcsLateralVelocity :: "nat \<Rightarrow> real"
  rt_vcsLongitudinalVelocity :: "nat \<Rightarrow> real"
  rt_vcsLateralAcceleration :: "nat \<Rightarrow> real"
  rt_vcsLongitudinalAcceleration :: "nat \<Rightarrow> real"
  rt_vcsHeading :: "nat \<Rightarrow> real"
  rt_vcsHeadingRate :: "nat \<Rightarrow> real"
  rt_movingFlag :: "nat \<Rightarrow> 8 word"
  rt_stationaryFlag :: "nat \<Rightarrow> 8 word"
  rt_moveableFlag :: "nat \<Rightarrow> 8 word"
  rt_vehicleFlag :: "nat \<Rightarrow> 8 word"

record EnhancedDetection =
  range_m :: real
  rangeRate_ms :: real
  rangeRateRaw_ms :: real
  azimuthRaw_rad :: real
  azimuth_rad :: real
  amplitude_dBsm :: real
  longitudinalOffset_m :: real
  lateralOffset_m :: real
  motionStatus :: int
  flags :: "8 word"
  fusedTrackIndex :: int
  isStationary :: "8 word"
  isMoveable :: "8 word"
  isStatic :: "8 word"
  stationaryProbability :: real
  elevationRaw_m :: real

record EnhancedDetections =
  header :: RawDetectionsHeader
  detections :: "EnhancedDetection list"

record EnhancedTrack =
  et_vcsLongitudinalPosition :: real
  et_vcsLateralPosition :: real
  et_vcsLateralVelocity :: real
  et_vcsLongitudinalVelocity :: real
  et_vcsLateralAcceleration :: real
  et_vcsLongitudinalAcceleration :: real
  et_vcsHeading :: real
  et_vcsHeadingRate :: real
  et_length :: real
  et_width :: real
  et_height :: real
  et_probabilityOfDetection :: real
  et_id :: int
  et_objectClassification :: "16 word"
  et_objectClassificationConfidence :: "8 word"
  et_isMoving :: bool
  et_isStationary :: bool
  et_isMoveable :: bool
  et_isVehicle :: bool
  et_status :: "8 word"

record EnhancedTracks =
  ets_timestamp_us :: "64 word"
  ets_tracks :: "EnhancedTrack list"

record VehicleMotionState =
  vLon_mps :: real
  vLat_mps :: real
  yawRate_rps :: real
  vLonVariance :: real
  vLatVariance :: real
  yawRateVariance :: real

record OdometryEstimate =
  oe_timestamp_us :: "64 word"
  oe_vLon_mps :: real
  oe_vLat_mps :: real
  oe_yawRate_rps :: real
  oe_covariance :: "real list"
  oe_inlierCount :: nat
  oe_valid :: bool

text \<open>The default-initialised values of the structs.\<close>

definition default_EnhancedDetection :: EnhancedDetection where
  "default_EnhancedDetection =
     \<lparr>range_m = 0, rangeRate_ms = 0, rangeRateRaw_ms = 0, azimuthRaw_rad = 0, azimuth_rad = 0,
      amplitude_dBsm = 0, longitudinalOffset_m = 0, lateralOffset_m = 0, motionStatus = - 1,
      flags = 0, fusedTrackIndex = - 1, isStationary = 0, isMoveable = 0, isStatic = 0,
      stationaryProbability = 0, elevationRaw_m = 0\<rparr>"

definition default_OdometryEstimate :: OdometryEstimate where
  "default_OdometryEstimate =
     \<lparr>oe_timestamp_us = 0, oe_vLon_mps = 0, oe_vLat_mps = 0, oe_yawRate_rps = 0,
      oe_covariance = replicate 9 0, oe_inlierCount = 0, oe_valid = False\<rparr>"

definition default_VehicleMotionState :: VehicleMotionState where
  "default_VehicleMotionState =
     \<lparr>vLon_mps = 0, vLat_mps = 0, yawRate_rps = 0,
      vLonVariance = 1 / 10, vLatVariance = 1 / 10, yawRateVariance = 1 / 10\<rparr>"

text \<open>\<open>utility/math_utils.hpp\<close>: conversions between seconds and microseconds.\<close>

definition secondsToMicroseconds :: "real \<Rightarrow> 64 word" where
  "secondsToMicroseconds seconds = word_of_int (trunc_real (seconds * 1000000))"

definition microsecondsToSeconds :: "64 word \<Rightarrow> real" where
  "microsecondsToSeconds micros = real (unat micros) * (1 / 1000000)"


section \<open>Odometry estimator (\<open>radar_core/odometry_estimator.cpp\<close>)\<close>

record OdometrySettings =
  maxIterations :: int
  inlierThreshold_mps :: real
  minInliers :: int

record Sample =
  cosAngle :: real
  sinAngle :: real
  rangeRate :: real

record RadarOdometryEstimator =
  est_settings :: OdometrySettings
  m_lastEstimate :: OdometryEstimate

definition default_OdometrySettings :: OdometrySettings where
  "default_OdometrySettings =
     \<lparr>maxIterations = 120, inlierThreshold_mps = 35 / 100, minInliers = 6\<rparr>"

definition validMask :: "8 word" where
  "validMask = DetectionFlag_Valid OR DetectionFlag_SuperResolution"

definition predictedRangeRate :: "Sample \<Rightarrow> real \<Rightarrow> real \<Rightarrow> real" where
  "predictedRangeRate sample vLon vLat = - (vLon * cosAngle sample + vLat * sinAngle sample)"

text \<open>\<open>solvePair\<close>: \<open>None\<close> is the \<open>false\<close> return, which leaves the outputs alone.\<close>

definition solvePair :: "Sample \<Rightarrow> Sample \<Rightarrow> (real \<times> real) option" where
  "solvePair a b =
     (let a11 = - cosAngle a; a12 = - sinAngle a; a21 = - cosAngle b; a22 = - sinAngle b;
          det = a11 * a22 - a12 * a21
      in if \<bar>det\<bar> < 1 / 10000 then None
         else Some ((rangeRate a * a22 - a12 * rangeRate b) / det,
                    (a11 * rangeRate b - rangeRate a * a21) / det))"

definition RadarOdometryEstimator_new :: "OdometrySettings \<Rightarrow> RadarOdometryEstimator" where
  "RadarOdometryEstimator_new settings =
     \<lparr>est_settings = settings, m_lastEstimate = default_OdometryEstimate\<rparr>"

text \<open>
  The sample loop of \<open>processDetections\<close>. A range rate is a real number here, so the
  \<open>std::isfinite\<close> test never skips.
\<close>

definition sampleOf :: "RadarCalibration \<Rightarrow> EnhancedDetection \<Rightarrow> Sample" where
  "sampleOf calibration det =
     (let angle = (- azimuthRaw_rad det * polarity calibration) + pose_orientation_rad (iso calibration)
      in \<lparr>cosAngle = cos angle, sinAngle = sin angle, rangeRate = rangeRate_ms det\<rparr>)"

definition collectSamples :: "RadarCalibration \<Rightarrow> EnhancedDetection list \<Rightarrow> Sample list" where
  "collectSamples calibration dets =
     map (sampleOf calibration) (filter (\<lambda>det. flags det AND validMask \<noteq> 0) dets)"

definition isInlier :: "real \<Rightarrow> real \<Rightarrow> real \<Rightarrow> Sample \<Rightarrow> bool" where
  "isInlier vLon vLat threshold sample =
     (\<bar>predictedRangeRate sample vLon vLat - rangeRate sample\<bar> \<le> threshold)"

definition countInliers :: "Sample list \<Rightarrow> real \<Rightarrow> real \<Rightarrow> real \<Rightarrow> nat" where
  "countInliers samples vLon vLat threshold = length (filter (isInlier vLon vLat threshold) samples)"

text \<open>
  The random source. \<open>std::mt19937 rng(42)\<close> and the
  \<open>std::uniform_int_distribution\<close> over \<open>0 .. n - 1\<close> belong to the standard library;
  the model takes the sequence of values that \<open>dist(rng)\<close> returns as a parameter
  \<open>draws\<close>, read at a cursor. The library returns values below \<open>n\<close>.

  \<open>while (j == i) j = dist(rng)\<close> may in principle run forever; not returning is \<open>None\<close>.
\<close>

partial_function (option) drawDistinct :: "(nat \<Rightarrow> nat) \<Rightarrow> nat \<Rightarrow> nat \<Rightarrow> (nat \<times> nat) option" where
  "drawDistinct draws i k =
     (if draws k = i then drawDistinct draws i (Suc k) else Some (draws k, Suc k))"

text \<open>
  The RANSAC loop: the first argument counts the iterations left, \<open>k\<close> is the cursor
  into the random sequence, \<open>best\<close> is \<open>(bestVLon, bestVLat, bestInliers)\<close>.
\<close>

fun ransacLoop ::
  "nat \<Rightarrow> (nat \<Rightarrow> nat) \<Rightarrow> Sample list \<Rightarrow> real \<Rightarrow> nat \<Rightarrow> real \<times> real \<times> nat
     \<Rightarrow> (real \<times> real \<times> nat) option" where
  "ransacLoop 0 draws samples threshold k best = Some best"
| "ransacLoop (Suc n) draws samples threshold k best =
     (let i = draws k in
      case (if length samples > 1 then drawDistinct draws i (Suc k)
            else Some (draws (Suc k), Suc (Suc k))) of
        None \<Rightarrow> None
      | Some (j, k') \<Rightarrow>
          (case solvePair (samples ! i) (samples ! j) of
             None \<Rightarrow> ransacLoop n draws samples threshold k' best
           | Some (vLon, vLat) \<Rightarrow>
               (let inliers = countInliers samples vLon vLat threshold
                in ransacLoop n draws samples threshold k'
                     (if inliers > snd (snd best) then (vLon, vLat, inliers) else best))))"

text \<open>
  \<open>A.colPivHouseholderQr().solve(b)\<close> is Eigen's; the model takes it as the parameter
  \<open>solve\<close>, applied to the rows of \<open>A\<close> and to \<open>b\<close>. \<open>qrSolveExact\<close> is that solver in
  exact arithmetic: the least-squares solution, and for a rank-deficient \<open>A\<close> the basic
  solution on the pivot column (the column of larger norm).
\<close>

type_synonym qr_solver = "(real \<times> real) list \<Rightarrow> real list \<Rightarrow> real \<times> real"

definition qrSolveExact :: qr_solver where
  "qrSolveExact A b =
     (let s11 = (\<Sum>r\<leftarrow>A. fst r * fst r);
          s12 = (\<Sum>r\<leftarrow>A. fst r * snd r);
          s22 = (\<Sum>r\<leftarrow>A. snd r * snd r);
          t1 = (\<Sum>(r, y)\<leftarrow>zip A b. fst r * y);
          t2 = (\<Sum>(r, y)\<leftarrow>zip A b. snd r * y);
          d = s11 * s22 - s12 * s12
      in if d \<noteq> 0 then ((s22 * t1 - s12 * t2) / d, (s11 * t2 - s12 * t1) / d)
         else if s11 = 0 \<and> s22 = 0 then (0, 0)
         else if s22 \<le> s11 then (t1 / s11, 0)
         else (0, t2 / s22))"

text \<open>The rows of \<open>A\<close> and the entries of \<open>b\<close> that the fit builds from its samples.\<close>

definition fitRows :: "Sample list \<Rightarrow> (real \<times> real) list" where
  "fitRows fitSamples = map (\<lambda>s. (- cosAngle s, - sinAngle s)) fitSamples"

definition fitRhs :: "Sample list \<Rightarrow> real list" where
  "fitRhs fitSamples = map rangeRate fitSamples"

definition refitEstimate ::
  "qr_solver \<Rightarrow> 64 word \<Rightarrow> bool \<Rightarrow> nat \<Rightarrow> Sample list \<Rightarrow> OdometryEstimate" where
  "refitEstimate solve timestamp useInliers bestInliers fitSamples =
     (let solution = solve (fitRows fitSamples) (fitRhs fitSamples);
          c0 = (if useInliers then 1 / real (length fitSamples) else 1)
      in \<lparr>oe_timestamp_us = timestamp,
          oe_vLon_mps = fst solution,
          oe_vLat_mps = snd solution,
          oe_yawRate_rps = 0,
          oe_covariance = [c0, 0, 0, 0, c0, 0, 0, 0, 1],
          oe_inlierCount = (if useInliers then length fitSamples else bestInliers),
          oe_valid = useInliers\<rparr>)"

text \<open>
  The part of \<open>processDetections\<close> after the RANSAC loop. \<open>minInliers\<close> is an \<open>int\<close>
  cast to \<open>std::uint32_t\<close> for the comparison.
\<close>

definition minInliersOf :: "RadarOdometryEstimator \<Rightarrow> nat" where
  "minInliersOf est = nat (minInliers (est_settings est) mod 2 ^ 32)"

definition finishEstimate ::
  "qr_solver \<Rightarrow> RadarOdometryEstimator \<Rightarrow> 64 word \<Rightarrow> Sample list \<Rightarrow> real \<Rightarrow> real \<times> real \<times> nat
     \<Rightarrow> bool \<times> RadarOdometryEstimator" where
  "finishEstimate solve est timestamp samples threshold best =
     (let bestVLon = fst best; bestVLat = fst (snd best); bestInliers = snd (snd best);
          useInliers = (bestInliers \<ge> minInliersOf est);
          inlierSamples = (if useInliers then filter (isInlier bestVLon bestVLat threshold) samples else []);
          fitSamples = (if useInliers then inlierSamples else samples)
      in if length fitSamples < 2 then (False, est)
         else (useInliers,
               est\<lparr>m_lastEstimate := refitEstimate solve timestamp useInliers bestInliers fitSamples\<rparr>))"

definition thresholdOf :: "RadarOdometryEstimator \<Rightarrow> real" where
  "thresholdOf est = max (5 / 100) (inlierThreshold_mps (est_settings est))"

text \<open>
  The RANSAC loop as \<open>processDetections\<close> runs it: \<open>max(1, maxIterations)\<close> iterations,
  the random source freshly seeded, the best triple starting at \<open>(0, 0, 0)\<close>.
\<close>

definition runRansac ::
  "(nat \<Rightarrow> nat \<Rightarrow> nat) \<Rightarrow> RadarOdometryEstimator \<Rightarrow> Sample list \<Rightarrow> (real \<times> real \<times> nat) option" where
  "runRansac rng est samples =
     ransacLoop (nat (max 1 (maxIterations (est_settings est)))) (rng (length samples)) samples
       (thresholdOf est) 0 (0, 0, 0)"

definition processDetections ::
  "(nat \<Rightarrow> nat \<Rightarrow> nat) \<Rightarrow> qr_solver \<Rightarrow> RadarOdometryEstimator \<Rightarrow> RadarCalibration
     \<Rightarrow> EnhancedDetections \<Rightarrow> (bool \<times> RadarOdometryEstimator) option" where
  "processDetections rng solve est calibration dets =
     (let samples = collectSamples calibration (detections dets) in
      if length samples < 2 then Some (False, est)
      else
        (case runRansac rng est samples of
           None \<Rightarrow> None
         | Some best \<Rightarrow>
             Some (finishEstimate solve est (hdr_timestamp_us (header dets)) samples
                     (thresholdOf est) best)))"

definition latestEstimate :: "RadarOdometryEstimator \<Rightarrow> bool \<times> OdometryEstimate" where
  "latestEstimate est = (oe_valid (m_lastEstimate est), m_lastEstimate est)"


section \<open>Processing pipeline (\<open>radar_core/processing_pipeline.cpp\<close>)\<close>

record DetectionAssociationSettings =
  boundingBoxScale :: real
  rangeRateSigma :: real
  velocityVariance :: real
  headingRateVariance :: real

record StationaryClassificationSettings =
  nSigma :: real

record ProcessingSettings =
  association :: DetectionAssociationSettings
  stationary :: StationaryClassificationSettings
  odometry :: OdometrySettings

definition default_ProcessingSettings :: ProcessingSettings where
  "default_ProcessingSettings =
     \<lparr>association = \<lparr>boundingBoxScale = 11 / 10, rangeRateSigma = 3,
                      velocityVariance = 5 / 100, headingRateVariance = 5 / 100\<rparr>,
      stationary = \<lparr>nSigma = 3\<rparr>,
      odometry = default_OdometrySettings\<rparr>"

record SensorUpdateState =
  initialized :: bool
  sus_timestamp_us :: "64 word"
  numConsecutiveInvalid :: "32 word"

record TrackState =
  position :: vec2
  velocity :: vec2
  acceleration :: vec2
  ts_length :: real
  ts_width :: real
  ts_height :: real
  heading :: real
  headingRate :: real
  ts_isStationary :: bool
  ts_isMoveable :: bool
  movingVotes :: real

text \<open>
  The pipeline object. \<open>m_parameters\<close> is a pointer in the source: \<open>None\<close> is
  \<open>nullptr\<close>. \<open>m_sensorStates\<close> is an array indexed by the six sensors.
\<close>

record RadarProcessingPipeline =
  m_settings :: ProcessingSettings
  m_parameters :: "VehicleParameters option"
  m_sensorStates :: "SensorIndex \<Rightarrow> SensorUpdateState"
  m_tracks :: "TrackState list"
  m_tracksTimestamp_us :: "64 word"
  m_motionState :: VehicleMotionState
  m_hasExternalMotionState :: bool
  m_odometry :: RadarOdometryEstimator
  m_lastOdometry :: OdometryEstimate

definition RadarProcessingPipeline_new :: "ProcessingSettings \<Rightarrow> RadarProcessingPipeline" where
  "RadarProcessingPipeline_new settings =
     \<lparr>m_settings = settings,
      m_parameters = None,
      m_sensorStates = (\<lambda>_. \<lparr>initialized = False, sus_timestamp_us = 0, numConsecutiveInvalid = 0\<rparr>),
      m_tracks = [],
      m_tracksTimestamp_us = 0,
      m_motionState = default_VehicleMotionState,
      m_hasExternalMotionState = False,
      m_odometry = RadarOdometryEstimator_new (odometry settings),
      m_lastOdometry = default_OdometryEstimate\<rparr>"

definition initialize :: "VehicleParameters \<Rightarrow> RadarProcessingPipeline \<Rightarrow> RadarProcessingPipeline" where
  "initialize parameters st = st\<lparr>m_parameters := Some parameters\<rparr>"

definition updateVehicleState :: "VehicleMotionState \<Rightarrow> RadarProcessingPipeline \<Rightarrow> RadarProcessingPipeline" where
  "updateVehicleState state st = st\<lparr>m_motionState := state, m_hasExternalMotionState := True\<rparr>"

subsection \<open>Sensor liveness\<close>

definition updateSensorState :: "SensorUpdateState \<Rightarrow> 64 word \<Rightarrow> bool \<times> SensorUpdateState" where
  "updateSensorState state timestamp_us =
     (if \<not> initialized state then
        (True, state\<lparr>initialized := True, sus_timestamp_us := timestamp_us, numConsecutiveInvalid := 0\<rparr>)
      else if timestamp_us > sus_timestamp_us state then
        (True, state\<lparr>sus_timestamp_us := timestamp_us, numConsecutiveInvalid := 0\<rparr>)
      else
        (False, state\<lparr>numConsecutiveInvalid := numConsecutiveInvalid state + 1\<rparr>))"

definition updateSensorStatus ::
  "SensorIndex \<Rightarrow> 64 word \<Rightarrow> RadarProcessingPipeline \<Rightarrow> bool \<times> RadarProcessingPipeline" where
  "updateSensorStatus sensor timestamp_us st =
     (let r = updateSensorState (m_sensorStates st sensor) timestamp_us
      in (fst r, st\<lparr>m_sensorStates := (m_sensorStates st)(sensor := snd r)\<rparr>))"

subsection \<open>Raw to enhanced\<close>

text \<open>\<open>std::vector::resize(n)\<close>: truncate, or pad with default-initialised elements.\<close>

definition resize_detections :: "nat \<Rightarrow> EnhancedDetection list \<Rightarrow> EnhancedDetection list" where
  "resize_detections n xs = take n xs @ replicate (n - length xs) default_EnhancedDetection"

definition mapReturn :: "RawReturns \<Rightarrow> nat \<Rightarrow> EnhancedDetection \<Rightarrow> EnhancedDetection" where
  "mapReturn input i det =
     det\<lparr>range_m := raw_range_m input i,
         rangeRate_ms := raw_rangeRate_ms input i,
         rangeRateRaw_ms := raw_rangeRateRaw_ms input i,
         azimuthRaw_rad := raw_azimuthRaw_rad input i,
         azimuth_rad := raw_azimuth_rad input i,
         amplitude_dBsm := raw_amplitude_dBsm input i,
         longitudinalOffset_m := raw_longitudinalOffset_m input i,
         lateralOffset_m := raw_lateralOffset_m input i,
         motionStatus := raw_motionStatus input i,
         flags := packDetectionFlags (raw_radarValidReturn input i)
                    (raw_superResolutionDetection input i)
                    (raw_nearTargetDetection input i)
                    (raw_hostVehicleClutter input i)
                    (raw_multibounceDetection input i)\<rparr>"

definition mapCornerDetections :: "RawCornerDetections \<Rightarrow> EnhancedDetections \<Rightarrow> EnhancedDetections" where
  "mapCornerDetections input output =
     (let resized = resize_detections kCornerReturnCount (detections output)
      in output\<lparr>header := rc_header input,
                detections := map (\<lambda>i. mapReturn (rc_returns input) i (resized ! i))
                                [0..<kCornerReturnCount]\<rparr>)"

definition mapFrontDetections ::
  "RawFrontDetections \<Rightarrow> EnhancedDetections \<Rightarrow> EnhancedDetections
     \<Rightarrow> EnhancedDetections \<times> EnhancedDetections" where
  "mapFrontDetections input outputShort outputLong =
     (let resizedShort = resize_detections kCornerReturnCount (detections outputShort);
          resizedLong = resize_detections kCornerReturnCount (detections outputLong)
      in (outputShort\<lparr>header := rf_header input,
                      detections := map (\<lambda>i. mapReturn (rf_returns input) i (resizedShort ! i))
                                      [0..<kCornerReturnCount]\<rparr>,
          outputLong\<lparr>header := rf_header input,
                     detections := map (\<lambda>i. mapReturn (rf_returns input) i
                                               (resizedLong ! (i - kCornerReturnCount)))
                                     [kCornerReturnCount..<kFrontReturnCount]\<rparr>))"

subsection \<open>Stationarity classification\<close>

definition stationaryProbabilityFromDistance :: "real \<Rightarrow> real" where
  "stationaryProbabilityFromDistance mDist = 1 - erf (mDist / sqrt 2)"

definition detectionAngleRad :: "EnhancedDetection \<Rightarrow> RadarCalibration \<Rightarrow> real" where
  "detectionAngleRad det calibration =
     (- azimuthRaw_rad det * polarity calibration) + pose_orientation_rad (iso calibration)"

definition yawCompensation :: "VehicleMotionState \<Rightarrow> RadarCalibration \<Rightarrow> real \<Rightarrow> real" where
  "yawCompensation state calibration detAngle =
     yawRate_rps state *
       ((pose_longitudinal_m (iso calibration) * sin detAngle) -
        (pose_lateral_m (iso calibration) * cos detAngle))"

definition rangeRateVarOf :: "RadarCalibration \<Rightarrow> real" where
  "rangeRateVarOf calibration =
     (let sigmaRangeRate = rangeRateAccuracy_mps calibration / 3
      in squared (max (1 / 100) sigmaRangeRate))"

definition classifyDetection ::
  "ProcessingSettings \<Rightarrow> VehicleMotionState \<Rightarrow> RadarCalibration \<Rightarrow> EnhancedDetection
     \<Rightarrow> EnhancedDetection" where
  "classifyDetection settings motion calibration det =
     (let rangeRateVar = rangeRateVarOf calibration;
          detAngle = detectionAngleRad det calibration;
          yawTerm = yawCompensation motion calibration detAngle;
          compensatedRangeRate = rangeRate_ms det + yawTerm;
          predicted = - (vLon_mps motion * cos detAngle + vLat_mps motion * sin detAngle);
          mDist = \<bar>compensatedRangeRate - predicted\<bar> / sqrt (max rangeRateVar (1 / 10000));
          stat = (if mDist \<le> nSigma (stationary settings) then 1 else 0)
      in det\<lparr>fusedTrackIndex := - 1,
             isMoveable := 0,
             isStationary := stat,
             stationaryProbability := std_clamp (stationaryProbabilityFromDistance mDist) 0 1,
             isStatic := stat\<rparr>)"

definition classifyDetections ::
  "RadarProcessingPipeline \<Rightarrow> VehicleParameters \<Rightarrow> SensorIndex \<Rightarrow> EnhancedDetections
     \<Rightarrow> EnhancedDetections" where
  "classifyDetections st parameters sensor dets =
     dets\<lparr>detections :=
            map (classifyDetection (m_settings st) (m_motionState st) (radarCalibrations parameters sensor))
              (detections dets)\<rparr>"

subsection \<open>Track association\<close>

record OrientedBox =
  center :: vec2
  halfLength :: real
  halfWidth :: real
  box_heading :: real

definition contains :: "OrientedBox \<Rightarrow> vec2 \<Rightarrow> bool" where
  "contains box point =
     (let delta = vec_sub point (center box);
          cosH = cos (- box_heading box);
          sinH = sin (- box_heading box);
          localX = fst delta * cosH - snd delta * sinH;
          localY = fst delta * sinH + snd delta * cosH
      in \<bar>localX\<bar> \<le> halfLength box \<and> \<bar>localY\<bar> \<le> halfWidth box)"

definition detectionPositionVcs :: "EnhancedDetection \<Rightarrow> RadarCalibration \<Rightarrow> vec2" where
  "detectionPositionVcs det calibration =
     (let lon0 = longitudinalOffset_m det;
          lat0 = lateralOffset_m det;
          first = (lon0 = 0 \<and> lat0 = 0 \<and> range_m det > 0);
          lon1 = (if first then range_m det * cos (azimuth_rad det) else lon0);
          lat1 = (if first then range_m det * sin (azimuth_rad det) else lat0);
          detAngle = (- azimuthRaw_rad det * polarity calibration) + pose_orientation_rad (vcs calibration);
          second = (lon1 = 0 \<and> lat1 = 0 \<and> range_m det > 0);
          lon2 = (if second then range_m det * cos detAngle else lon1);
          lat2 = (if second then range_m det * sin detAngle else lat1)
      in (lon2 + pose_longitudinal_m (vcs calibration), lat2 + pose_lateral_m (vcs calibration)))"

definition FLT_MAX :: real where
  "FLT_MAX = (2 - 1 / 2 ^ 23) * 2 ^ 127"

definition trackBox :: "ProcessingSettings \<Rightarrow> real \<Rightarrow> TrackState \<Rightarrow> OrientedBox" where
  "trackBox settings dt_s track =
     \<lparr>center = vec_add (vec_add (position track) (vec_scale (velocity track) dt_s))
                 (vec_scale (acceleration track) ((1 / 2) * dt_s * dt_s)),
      halfLength = max (ts_length track) (1 / 10) * (1 / 2) * boundingBoxScale (association settings),
      halfWidth = max (ts_width track) (1 / 10) * (1 / 2) * boundingBoxScale (association settings),
      box_heading = heading track + headingRate track * dt_s\<rparr>"

text \<open>
  The inner loop over the boxes: \<open>acc\<close> is \<open>(bestDistance, bestIndex)\<close>, \<open>i\<close> the
  index of the first box of the list.
\<close>

fun bestBox ::
  "real \<Rightarrow> VehicleMotionState \<Rightarrow> real \<Rightarrow> EnhancedDetection \<Rightarrow> vec2 \<Rightarrow> real \<Rightarrow> real
     \<Rightarrow> nat \<Rightarrow> (OrientedBox \<times> TrackState) list \<Rightarrow> real \<times> nat \<Rightarrow> real \<times> nat" where
  "bestBox sigma motion rangeRateVar det detPos modelX modelY i [] acc = acc"
| "bestBox sigma motion rangeRateVar det detPos modelX modelY i ((box, track) # rest) acc =
     (if \<not> contains box detPos then
        bestBox sigma motion rangeRateVar det detPos modelX modelY (Suc i) rest acc
      else
        (let relativeVelocity = vec_sub (vLon_mps motion, vLat_mps motion) (velocity track);
             predicted = fst relativeVelocity * modelX + snd relativeVelocity * modelY;
             mDist = \<bar>rangeRate_ms det - predicted\<bar> / sqrt (max rangeRateVar (1 / 10000))
         in bestBox sigma motion rangeRateVar det detPos modelX modelY (Suc i) rest
              (if mDist \<le> sigma \<and> mDist < fst acc then (mDist, i) else acc)))"

text \<open>
  The body of the detection loop of \<open>associateDetections\<close>: it returns the detection
  and the track list, both as updated. \<open>static_cast<std::int8_t>(bestIndex)\<close> keeps the
  low eight bits, read as a signed value.
\<close>

definition voteTrack :: "EnhancedDetection \<Rightarrow> TrackState \<Rightarrow> 8 word \<times> TrackState" where
  "voteTrack det track =
     (if ts_isMoveable track then (1, track)
      else
        (let vote = (if isStationary det \<noteq> 0 then - stationaryProbability det
                     else 1 - stationaryProbability det);
             votes = utility_clamp (movingVotes track + vote) (- 100) 100
         in (if votes > 0 then 1 else 0, track\<lparr>movingVotes := votes\<rparr>)))"

definition associateDetection ::
  "ProcessingSettings \<Rightarrow> VehicleMotionState \<Rightarrow> RadarCalibration \<Rightarrow> OrientedBox list
     \<Rightarrow> EnhancedDetection \<Rightarrow> TrackState list \<Rightarrow> EnhancedDetection \<times> TrackState list" where
  "associateDetection settings motion calibration boxes det tracks =
     (if flags det AND validMask = 0 then (det, tracks)
      else
        (let detPos = detectionPositionVcs det calibration;
             detAngle = detectionAngleRad det calibration;
             best = bestBox (rangeRateSigma (association settings)) motion (rangeRateVarOf calibration)
                      det detPos (- cos detAngle) (- sin detAngle) 0 (zip boxes tracks)
                      (FLT_MAX, length boxes);
             bestIndex = snd best
         in if bestIndex < length boxes then
              (let r = voteTrack det (tracks ! bestIndex);
                   moveable = fst r
               in (det\<lparr>isMoveable := moveable,
                       isStatic := (if isStationary det \<noteq> 0 \<and> moveable = 0 then 1 else 0),
                       fusedTrackIndex := sint (word_of_nat bestIndex :: 8 word)\<rparr>,
                   tracks[bestIndex := snd r]))
            else (det, tracks)))"

fun associateLoop ::
  "ProcessingSettings \<Rightarrow> VehicleMotionState \<Rightarrow> RadarCalibration \<Rightarrow> OrientedBox list
     \<Rightarrow> EnhancedDetection list \<Rightarrow> TrackState list \<Rightarrow> EnhancedDetection list \<times> TrackState list" where
  "associateLoop settings motion calibration boxes [] tracks = ([], tracks)"
| "associateLoop settings motion calibration boxes (det # rest) tracks =
     (let r = associateDetection settings motion calibration boxes det tracks;
          rs = associateLoop settings motion calibration boxes rest (snd r)
      in (fst r # fst rs, snd rs))"

definition associateDetections ::
  "RadarProcessingPipeline \<Rightarrow> VehicleParameters \<Rightarrow> SensorIndex \<Rightarrow> 64 word \<Rightarrow> EnhancedDetections
     \<Rightarrow> EnhancedDetections \<times> RadarProcessingPipeline" where
  "associateDetections st parameters sensor timestamp_us dets =
     (if m_tracks st = [] then (dets, st)
      else
        (let calibration = radarCalibrations parameters sensor;
             dt_s = microsecondsToSeconds
                      (if timestamp_us > m_tracksTimestamp_us st
                       then timestamp_us - m_tracksTimestamp_us st else 0);
             boxes = map (trackBox (m_settings st) dt_s) (m_tracks st);
             r = associateLoop (m_settings st) (m_motionState st) calibration boxes
                   (detections dets) (m_tracks st)
         in (dets\<lparr>detections := fst r\<rparr>, st\<lparr>m_tracks := snd r\<rparr>)))"


subsection \<open>Track frames\<close>

definition enhancedTrackOf :: "RawTrackFusion \<Rightarrow> nat \<Rightarrow> EnhancedTrack" where
  "enhancedTrackOf input i =
     \<lparr>et_vcsLongitudinalPosition = rt_vcsLongitudinalPosition input i,
      et_vcsLateralPosition = rt_vcsLateralPosition input i,
      et_vcsLateralVelocity = rt_vcsLateralVelocity input i,
      et_vcsLongitudinalVelocity = rt_vcsLongitudinalVelocity input i,
      et_vcsLateralAcceleration = rt_vcsLateralAcceleration input i,
      et_vcsLongitudinalAcceleration = rt_vcsLongitudinalAcceleration input i,
      et_vcsHeading = rt_vcsHeading input i,
      et_vcsHeadingRate = rt_vcsHeadingRate input i,
      et_length = rt_length input i,
      et_width = rt_width input i,
      et_height = rt_height input i,
      et_probabilityOfDetection = rt_probabilityOfDetection input i,
      et_id = rt_id input i,
      et_objectClassification = rt_objectClassification input i,
      et_objectClassificationConfidence = rt_objectClassificationConfidence input i,
      et_isMoving = (rt_movingFlag input i \<noteq> 0),
      et_isStationary = (rt_stationaryFlag input i \<noteq> 0),
      et_isMoveable = (rt_moveableFlag input i \<noteq> 0),
      et_isVehicle = (rt_vehicleFlag input i \<noteq> 0),
      et_status = rt_status input i\<rparr>"

definition trackStateOf :: "EnhancedTrack \<Rightarrow> TrackState" where
  "trackStateOf track =
     \<lparr>position = (et_vcsLongitudinalPosition track, et_vcsLateralPosition track),
      velocity = (et_vcsLongitudinalVelocity track, et_vcsLateralVelocity track),
      acceleration = (et_vcsLongitudinalAcceleration track, et_vcsLateralAcceleration track),
      ts_length = et_length track,
      ts_width = et_width track,
      ts_height = et_height track,
      heading = et_vcsHeading track,
      headingRate = et_vcsHeadingRate track,
      ts_isStationary = et_isStationary track,
      ts_isMoveable = et_isMoveable track,
      movingVotes = 0\<rparr>"

text \<open>The indices that the loop of \<open>processTrackFusion\<close> does not skip.\<close>

definition validTrackIndices :: "RawTrackFusion \<Rightarrow> nat list" where
  "validTrackIndices input = filter (\<lambda>i. rt_status input i \<noteq> TrackStatus_Invalid) [0..<kTrackCount]"

definition processTrackFusion ::
  "64 word \<Rightarrow> RawTrackFusion \<Rightarrow> EnhancedTracks \<Rightarrow> RadarProcessingPipeline
     \<Rightarrow> EnhancedTracks \<times> RadarProcessingPipeline" where
  "processTrackFusion timestamp_us input output st =
     (let tracks = map (enhancedTrackOf input) (validTrackIndices input)
      in (output\<lparr>ets_timestamp_us := timestamp_us, ets_tracks := tracks\<rparr>,
          st\<lparr>m_tracks := map trackStateOf tracks, m_tracksTimestamp_us := timestamp_us\<rparr>))"

subsection \<open>Detection frames\<close>

text \<open>
  The odometry feedback shared by both detection methods: run the estimator on the
  enhanced detections and, when it succeeds, copy its estimate into the pipeline.
\<close>

definition feedOdometry ::
  "(nat \<Rightarrow> nat \<Rightarrow> nat) \<Rightarrow> qr_solver \<Rightarrow> RadarCalibration \<Rightarrow> EnhancedDetections
     \<Rightarrow> RadarProcessingPipeline \<Rightarrow> RadarProcessingPipeline option" where
  "feedOdometry rng solve calibration dets st =
     (if m_hasExternalMotionState st then Some st
      else
        (case processDetections rng solve (m_odometry st) calibration dets of
           None \<Rightarrow> None
         | Some (ok, est) \<Rightarrow>
             (let st1 = st\<lparr>m_odometry := est\<rparr> in
              if ok then
                (let last = snd (latestEstimate est)
                 in Some (st1\<lparr>m_lastOdometry := last,
                              m_motionState := (m_motionState st1)
                                \<lparr>vLon_mps := oe_vLon_mps last,
                                 vLat_mps := oe_vLat_mps last,
                                 yawRate_rps := oe_yawRate_rps last\<rparr>\<rparr>))
              else Some st1)))"

definition observationTimeOf :: "64 word \<Rightarrow> real \<Rightarrow> 64 word" where
  "observationTimeOf timestamp_us delay_s =
     (let delayUs = secondsToMicroseconds delay_s
      in if timestamp_us > delayUs then timestamp_us - delayUs else 0)"

text \<open>
  \<open>processCornerDetections\<close>: the result is the returned flag, the output argument
  and the pipeline, all as the call leaves them; \<open>None\<close> when the call does not return.
\<close>

definition processCornerDetections ::
  "(nat \<Rightarrow> nat \<Rightarrow> nat) \<Rightarrow> qr_solver \<Rightarrow> SensorIndex \<Rightarrow> 64 word \<Rightarrow> RawCornerDetections
     \<Rightarrow> EnhancedDetections \<Rightarrow> RadarProcessingPipeline
     \<Rightarrow> (bool \<times> EnhancedDetections \<times> RadarProcessingPipeline) option" where
  "processCornerDetections rng solve sensor timestamp_us input output st =
     (case m_parameters st of
        None \<Rightarrow> Some (False, output, st)
      | Some parameters \<Rightarrow>
          (let u = updateSensorStatus sensor (hdr_timestamp_us (rc_header input)) st;
               updateValid = fst u;
               st1 = snd u;
               out1 = mapCornerDetections input output;
               observationTime = observationTimeOf timestamp_us (cornerHardwareDelay_s parameters);
               out2 = classifyDetections st1 parameters sensor out1;
               a = associateDetections st1 parameters sensor observationTime out2;
               out3 = fst a;
               st2 = snd a
           in case feedOdometry rng solve (radarCalibrations parameters sensor) out3 st2 of
                None \<Rightarrow> None
              | Some st3 \<Rightarrow>
                  Some ((if updateValid then oe_valid (m_lastOdometry st3) else False), out3, st3)))"

definition processFrontDetections ::
  "(nat \<Rightarrow> nat \<Rightarrow> nat) \<Rightarrow> qr_solver \<Rightarrow> 64 word \<Rightarrow> RawFrontDetections
     \<Rightarrow> EnhancedDetections \<Rightarrow> EnhancedDetections \<Rightarrow> RadarProcessingPipeline
     \<Rightarrow> (bool \<times> EnhancedDetections \<times> EnhancedDetections \<times> RadarProcessingPipeline) option" where
  "processFrontDetections rng solve timestamp_us input outputShort outputLong st =
     (case m_parameters st of
        None \<Rightarrow> Some (False, outputShort, outputLong, st)
      | Some parameters \<Rightarrow>
          (let uS = updateSensorStatus FrontShort (hdr_timestamp_us (rf_header input)) st;
               updateShort = fst uS;
               uL = updateSensorStatus FrontLong (hdr_timestamp_us (rf_header input)) (snd uS);
               updateLong = fst uL;
               st1 = snd uL;
               m = mapFrontDetections input outputShort outputLong;
               observationTime = observationTimeOf timestamp_us (frontCenterHardwareDelay_s parameters);
               short1 = classifyDetections st1 parameters FrontShort (fst m);
               aS = associateDetections st1 parameters FrontShort observationTime short1;
               long1 = classifyDetections (snd aS) parameters FrontLong (snd m);
               aL = associateDetections (snd aS) parameters FrontLong observationTime long1;
               st2 = snd aL
           in case feedOdometry rng solve (radarCalibrations parameters FrontShort) (fst aS) st2 of
                None \<Rightarrow> None
              | Some st3 \<Rightarrow>
                  Some ((if updateShort \<and> updateLong then oe_valid (m_lastOdometry st3) else False),
                        fst aS, fst aL, st3)))"

definition latestOdometry :: "RadarProcessingPipeline \<Rightarrow> bool \<times> OdometryEstimate" where
  "latestOdometry st = (oe_valid (m_lastOdometry st), m_lastOdometry st)"

section \<open>Playback tracks (\<open>appendTracks\<close> of \<open>radar/src/processing/RadarPlayback.cpp\<close>)\<close>

record RadarTrack =
  isoPosition :: vec2
  isoVelocity :: vec2
  tk_length :: real
  tk_width :: real
  tk_height :: real
  headingRad :: real
  tk_headingRate :: real
  tk_probabilityOfDetection :: real
  tk_id :: int
  tk_objectClassification :: "16 word"
  tk_objectClassificationConfidence :: "8 word"
  tk_isMoving :: bool
  tk_isStationary :: bool
  tk_isMoveable :: bool
  tk_isVehicle :: bool

definition kMinTrackExtent :: real where
  "kMinTrackExtent = 25 / 100"

definition imputedHeight :: "16 word \<Rightarrow> real" where
  "imputedHeight classId =
     (if classId = TrackObjectClass_Car \<or> classId = TrackObjectClass_Motorcycle
         \<or> classId = TrackObjectClass_Bicycle then 18 / 10
      else if classId = TrackObjectClass_Truck then 38 / 10
      else 5 / 100)"

definition radarTrackOf :: "EnhancedTrack \<Rightarrow> RadarTrack" where
  "radarTrackOf track =
     \<lparr>isoPosition = (et_vcsLongitudinalPosition track, et_vcsLateralPosition track),
      isoVelocity = (et_vcsLongitudinalVelocity track, et_vcsLateralVelocity track),
      tk_length = max (et_length track) kMinTrackExtent,
      tk_width = max (et_width track) kMinTrackExtent,
      tk_height = (if et_height track = 0 then imputedHeight (et_objectClassification track)
                   else et_height track),
      headingRad = et_vcsHeading track,
      tk_headingRate = et_vcsHeadingRate track,
      tk_probabilityOfDetection = et_probabilityOfDetection track,
      tk_id = et_id track,
      tk_objectClassification = et_objectClassification track,
      tk_objectClassificationConfidence = et_objectClassificationConfidence track,
      tk_isMoving = et_isMoving track,
      tk_isStationary = et_isStationary track,
      tk_isMoveable = et_isMoveable track,
      tk_isVehicle = et_isVehicle track\<rparr>"

definition appendTracks :: "EnhancedTracks \<Rightarrow> RadarTrack list \<Rightarrow> RadarTrack list" where
  "appendTracks data tracks =
     tracks @ map radarTrackOf (filter (\<lambda>t. et_status t \<noteq> TrackStatus_Invalid) (ets_tracks data))"

section \<open>Virtual ring (\<open>radar/src/mapping/RadarVirtualSensorMapping.cpp\<close>)\<close>

text \<open>
  An end distance is a \<open>float\<close> that is \<open>+infinity\<close> while the segment has no obstacle.
\<close>

datatype dist = Finite real | Infinity

fun dist_less :: "real \<Rightarrow> dist \<Rightarrow> bool" where
  "dist_less d (Finite e) = (d < e)"
| "dist_less d Infinity = True"

fun dist_min :: "dist \<Rightarrow> real \<Rightarrow> dist" where
  "dist_min (Finite e) t = Finite (min e t)"
| "dist_min Infinity t = Finite t"

record RadarVirtualSensorMapping =
  m_vehicleContour :: "vec2 list"
  m_vehicleCenter :: vec2
  m_segmentCount :: nat
  m_segmentDirections :: "vec2 list"
  m_segmentStartDist :: "real list"
  m_segmentEndDist :: "dist list"
  m_ready :: bool

definition kEpsilon :: real where
  "kEpsilon = 1 / 100000"

definition kDefaultSegmentCount :: nat where
  "kDefaultSegmentCount = 72"

definition cross2 :: "vec2 \<Rightarrow> vec2 \<Rightarrow> real" where
  "cross2 a b = fst a * snd b - snd a * fst b"

text \<open>\<open>raySegmentIntersection\<close>: \<open>Some t\<close> is the \<open>true\<close> return with \<open>tOut = t\<close>.\<close>

definition raySegmentIntersection :: "vec2 \<Rightarrow> vec2 \<Rightarrow> vec2 \<Rightarrow> vec2 \<Rightarrow> real option" where
  "raySegmentIntersection origin direction a b =
     (let edge = vec_sub b a;
          denom = cross2 direction edge
      in if \<bar>denom\<bar> < kEpsilon then None
         else
           (let delta = vec_sub a origin;
                t = cross2 delta edge / denom;
                u = cross2 delta direction / denom
            in if t \<ge> 0 \<and> u \<ge> 0 \<and> u \<le> 1 then Some t else None))"

text \<open>
  The edge loops of \<open>contourRayDistance\<close> and \<open>polygonRayDistance\<close>: \<open>best\<close> starts at
  infinity and takes the minimum over the edges that the ray hits.
\<close>

definition edgeStep :: "vec2 \<Rightarrow> vec2 \<Rightarrow> (nat \<Rightarrow> vec2) \<Rightarrow> nat \<Rightarrow> nat \<Rightarrow> dist \<Rightarrow> dist" where
  "edgeStep origin direction vertex count i best =
     (case raySegmentIntersection origin direction (vertex i) (vertex ((i + 1) mod count)) of
        None \<Rightarrow> best
      | Some t \<Rightarrow> dist_min best t)"

definition contourRayDistance :: "vec2 list \<Rightarrow> vec2 \<Rightarrow> vec2 \<Rightarrow> real" where
  "contourRayDistance contour origin direction =
     (if length contour < 3 then 0
      else
        (case fold (edgeStep origin direction (\<lambda>i. contour ! i) (length contour))
                [0..<length contour] Infinity of
           Infinity \<Rightarrow> 0
         | Finite best \<Rightarrow> best))"

text \<open>A track footprint is a \<open>std::array\<close> of four points, read at the indices 0 to 3.\<close>

definition polygonRayDistance :: "vec2 \<Rightarrow> vec2 \<Rightarrow> (nat \<Rightarrow> vec2) \<Rightarrow> dist" where
  "polygonRayDistance origin direction polygon =
     fold (edgeStep origin direction polygon 4) [0..<4] Infinity"

definition rebuildStep :: "real \<Rightarrow> nat \<Rightarrow> RadarVirtualSensorMapping \<Rightarrow> RadarVirtualSensorMapping" where
  "rebuildStep delta i st =
     (let angle = (real i + 1 / 2) * delta
      in st\<lparr>m_segmentDirections := (m_segmentDirections st)[i := (cos angle, sin angle)],
            m_segmentStartDist := (m_segmentStartDist st)[i := 0]\<rparr>)"

definition rebuildSegments :: "RadarVirtualSensorMapping \<Rightarrow> RadarVirtualSensorMapping" where
  "rebuildSegments st =
     (if m_segmentCount st = 0 then st
      else fold (rebuildStep (2 * pi / real (m_segmentCount st))) [0..<m_segmentCount st] st)"

definition resetSegments :: "RadarVirtualSensorMapping \<Rightarrow> RadarVirtualSensorMapping" where
  "resetSegments st = st\<lparr>m_segmentEndDist := map (\<lambda>_. Infinity) (m_segmentEndDist st)\<rparr>"

definition contourCenter :: "vec2 list \<Rightarrow> vec2" where
  "contourCenter contour =
     (let total = fold (\<lambda>point c. vec_add c point) contour (0, 0)
      in (fst total / real (length contour), snd total / real (length contour)))"

definition startDistStep :: "nat \<Rightarrow> RadarVirtualSensorMapping \<Rightarrow> RadarVirtualSensorMapping" where
  "startDistStep i st =
     (let distance = contourRayDistance (m_vehicleContour st) (m_vehicleCenter st)
                       (m_segmentDirections st ! i)
      in st\<lparr>m_segmentStartDist := (m_segmentStartDist st)[i := max 0 distance]\<rparr>)"

definition setVehicleContour :: "vec2 list \<Rightarrow> RadarVirtualSensorMapping \<Rightarrow> RadarVirtualSensorMapping" where
  "setVehicleContour contour st =
     (if length contour < 3 then st
      else
        (let st1 = st\<lparr>m_vehicleContour := contour, m_vehicleCenter := contourCenter contour\<rparr>;
             st2 = fold startDistStep [0..<m_segmentCount st1] st1
         in st2\<lparr>m_ready := True\<rparr>))"

definition setSegmentCount :: "nat \<Rightarrow> RadarVirtualSensorMapping \<Rightarrow> bool \<times> RadarVirtualSensorMapping" where
  "setSegmentCount count st =
     (let clamped = max 3 count in
      if clamped = m_segmentCount st \<and> m_segmentDirections st \<noteq> [] then (False, st)
      else
        (let st1 = st\<lparr>m_segmentCount := clamped,
                      m_segmentDirections := replicate clamped (0, 0),
                      m_segmentStartDist := replicate clamped 0,
                      m_segmentEndDist := replicate clamped Infinity\<rparr>;
             st2 = rebuildSegments st1
         in (True,
             if length (m_vehicleContour st2) \<ge> 3 then setVehicleContour (m_vehicleContour st2) st2
             else st2\<lparr>m_ready := False\<rparr>)))"

definition segmentCount :: "RadarVirtualSensorMapping \<Rightarrow> nat" where
  "segmentCount st = m_segmentCount st"

text \<open>The constructor: the member initialisers, then \<open>setSegmentCount(kDefaultSegmentCount)\<close>.\<close>

definition RadarVirtualSensorMapping_new :: RadarVirtualSensorMapping where
  "RadarVirtualSensorMapping_new =
     snd (setSegmentCount kDefaultSegmentCount
            \<lparr>m_vehicleContour = [], m_vehicleCenter = (0, 0), m_segmentCount = kDefaultSegmentCount,
             m_segmentDirections = [], m_segmentStartDist = [], m_segmentEndDist = [],
             m_ready = False\<rparr>)"

definition normalizeAngle :: "real \<Rightarrow> real" where
  "normalizeAngle angle =
     (let normalized = fmod angle (2 * pi)
      in if normalized < 0 then normalized + 2 * pi else normalized)"

text \<open>
  \<open>segmentIndex\<close>: the cast of the scaled angle to \<open>std::size_t\<close> truncates; the value is
  not negative.
\<close>

definition segmentIndex :: "RadarVirtualSensorMapping \<Rightarrow> real \<Rightarrow> nat" where
  "segmentIndex st angle =
     (if m_segmentCount st = 0 then 0
      else
        (let normalized = normalizeAngle angle;
             scale = normalized / (2 * pi);
             idx = nat (trunc_real (scale * real (m_segmentCount st)))
         in min idx (m_segmentCount st - 1)))"

text \<open>
  The two loops of \<open>update\<close>. A distance is a real number here, so the \<open>std::isfinite\<close>
  test of the detection loop never skips; in the footprint loop it skips \<open>Infinity\<close>.
\<close>

definition detectionStep :: "vec2 \<Rightarrow> RadarVirtualSensorMapping \<Rightarrow> RadarVirtualSensorMapping" where
  "detectionStep point st =
     (let delta = vec_sub point (m_vehicleCenter st);
          distance = vec_length delta
      in if distance \<le> kEpsilon then st
         else
           (let idx = segmentIndex st (atan2 (snd delta) (fst delta))
            in if distance \<le> m_segmentStartDist st ! idx + kEpsilon then st
               else if dist_less distance (m_segmentEndDist st ! idx)
                 then st\<lparr>m_segmentEndDist := (m_segmentEndDist st)[idx := Finite distance]\<rparr>
               else st))"

definition footprintStep :: "(nat \<Rightarrow> vec2) \<Rightarrow> nat \<Rightarrow> RadarVirtualSensorMapping \<Rightarrow> RadarVirtualSensorMapping" where
  "footprintStep footprint i st =
     (case polygonRayDistance (m_vehicleCenter st) (m_segmentDirections st ! i) footprint of
        Infinity \<Rightarrow> st
      | Finite distance \<Rightarrow>
          if distance \<le> kEpsilon then st
          else if distance \<le> m_segmentStartDist st ! i + kEpsilon then st
          else if dist_less distance (m_segmentEndDist st ! i)
            then st\<lparr>m_segmentEndDist := (m_segmentEndDist st)[i := Finite distance]\<rparr>
          else st)"

definition ring_update ::
  "vec2 list \<Rightarrow> (nat \<Rightarrow> vec2) list \<Rightarrow> RadarVirtualSensorMapping \<Rightarrow> RadarVirtualSensorMapping" where
  "ring_update dets trackFootprints st =
     (let st1 = resetSegments st in
      if \<not> m_ready st1 then st1
      else
        (let st2 = fold detectionStep dets st1
         in fold (\<lambda>footprint s. fold (footprintStep footprint) [0..<m_segmentCount s] s)
              trackFootprints st2))"

definition ring_reset :: "RadarVirtualSensorMapping \<Rightarrow> RadarVirtualSensorMapping" where
  "ring_reset st = resetSegments st"

fun dist_min_real :: "dist \<Rightarrow> real \<Rightarrow> real" where
  "dist_min_real (Finite e) fallback = min e fallback"
| "dist_min_real Infinity fallback = fallback"

definition ring :: "real \<Rightarrow> RadarVirtualSensorMapping \<Rightarrow> vec2 list" where
  "ring fallbackRange st =
     (if \<not> m_ready st \<or> fallbackRange \<le> 0 then []
      else map (\<lambda>i. let len = max (dist_min_real (m_segmentEndDist st ! i) fallbackRange)
                                 (m_segmentStartDist st ! i)
                     in vec_add (m_vehicleCenter st) (vec_scale (m_segmentDirections st ! i) len))
             [0..<m_segmentCount st])"

definition segments :: "real \<Rightarrow> RadarVirtualSensorMapping \<Rightarrow> (vec2 \<times> vec2) list" where
  "segments fallbackRange st =
     (if \<not> m_ready st \<or> fallbackRange \<le> 0 then []
      else map (\<lambda>i. let len = max (dist_min_real (m_segmentEndDist st ! i) fallbackRange)
                                 (m_segmentStartDist st ! i)
                     in (vec_add (m_vehicleCenter st)
                           (vec_scale (m_segmentDirections st ! i) (m_segmentStartDist st ! i)),
                         vec_add (m_vehicleCenter st) (vec_scale (m_segmentDirections st ! i) len)))
             [0..<m_segmentCount st])"

section \<open>Occupancy grid (\<open>radar/src/mapping/FusedRadarMapping.cpp\<close>)\<close>

datatype RadarModel = Gaussian | Hits

datatype PlausibilityCombinationMethod = Average | Product | Minimum | Custom

record Settings =
  cellSize :: real
  hitIncrement :: real
  missDecrement :: real
  maxLogOdds :: real
  minLogOdds :: real
  occupiedThreshold :: real
  mapRadius :: real
  radarModel :: RadarModel
  enableOccupied :: bool
  enableFreespace :: bool
  alwaysMapDynamicDetections :: bool
  enablePlausibilityScaling :: bool
  maxAdditiveProbability :: real
  maxFreeSpaceRange_m :: real
  minRange_m :: real
  minPlausibility :: real
  freespaceAngleAccuracy_rad :: real
  freespaceRangeSigmaFactor :: real
  srrRangeAccuracy_m :: real
  srrAngleAccuracy_deg :: real
  mrrRangeAccuracy_m :: real
  mrrAngleAccuracy_deg :: real
  plausibilityMethod :: PlausibilityCombinationMethod
  customCombinationRangeThreshold :: real
  plausibilityRangeMidpoint :: real
  plausibilityRangeBandwidth :: real
  plausibilityAzimuthMidpoint :: real
  plausibilityAzimuthBandwidth :: real
  plausibilityAmplitudeMidpoint :: real
  plausibilityAmplitudeBandwidth :: real

definition default_Settings :: Settings where
  "default_Settings =
     \<lparr>cellSize = 1 / 2, hitIncrement = 1 / 2, missDecrement = 1 / 10, maxLogOdds = 5,
      minLogOdds = - 5, occupiedThreshold = 2 / 10, mapRadius = 60, radarModel = Gaussian,
      enableOccupied = True, enableFreespace = True, alwaysMapDynamicDetections = False,
      enablePlausibilityScaling = True, maxAdditiveProbability = 275 / 1000,
      maxFreeSpaceRange_m = 100, minRange_m = 1 / 1000000, minPlausibility = 1 / 100,
      freespaceAngleAccuracy_rad = 174532925 / 10000000000, freespaceRangeSigmaFactor = 4,
      srrRangeAccuracy_m = 1 / 100, srrAngleAccuracy_deg = 1 / 10,
      mrrRangeAccuracy_m = 25 / 100, mrrAngleAccuracy_deg = 1 / 2,
      plausibilityMethod = Custom, customCombinationRangeThreshold = 10,
      plausibilityRangeMidpoint = 7, plausibilityRangeBandwidth = 105 / 10,
      plausibilityAzimuthMidpoint = 65, plausibilityAzimuthBandwidth = 1465 / 100,
      plausibilityAmplitudeMidpoint = - 22, plausibilityAmplitudeBandwidth = 879 / 100\<rparr>"

text \<open>\<open>RadarPoint\<close> of \<open>sensors/BaseRadarSensor.hpp\<close>.\<close>

record RadarPoint =
  pt_x :: real
  pt_y :: real
  pt_z :: real
  pt_intensity :: real
  pt_range_m :: real
  pt_rangeRate_ms :: real
  pt_rangeRateRaw_ms :: real
  pt_azimuthRaw_rad :: real
  pt_azimuth_rad :: real
  pt_amplitude_dBsm :: real
  pt_longitudinalOffset_m :: real
  pt_lateralOffset_m :: real
  pt_motionStatus :: int
  pt_radarValid :: "8 word"
  pt_superResolution :: "8 word"
  pt_nearTarget :: "8 word"
  pt_hostVehicleClutter :: "8 word"
  pt_multibounce :: "8 word"
  pt_sensorIndex :: int
  pt_horizontalFov_rad :: real
  pt_maximumRange_m :: real
  pt_azimuthPolarity :: real
  pt_boresightAngle_rad :: real
  pt_sensorLongitudinal_m :: real
  pt_sensorLateral_m :: real
  pt_elevationRaw_rad :: real
  pt_fusedTrackIndex :: int
  pt_isStationary :: "8 word"
  pt_isMoveable :: "8 word"
  pt_isStatic :: "8 word"
  pt_stationaryProbability :: real

definition default_RadarPoint :: RadarPoint where
  "default_RadarPoint =
     \<lparr>pt_x = 0, pt_y = 0, pt_z = 0, pt_intensity = 0, pt_range_m = 0, pt_rangeRate_ms = 0,
      pt_rangeRateRaw_ms = 0, pt_azimuthRaw_rad = 0, pt_azimuth_rad = 0, pt_amplitude_dBsm = 0,
      pt_longitudinalOffset_m = 0, pt_lateralOffset_m = 0, pt_motionStatus = - 1,
      pt_radarValid = 0, pt_superResolution = 0, pt_nearTarget = 0, pt_hostVehicleClutter = 0,
      pt_multibounce = 0, pt_sensorIndex = - 1, pt_horizontalFov_rad = 0, pt_maximumRange_m = 0,
      pt_azimuthPolarity = 0, pt_boresightAngle_rad = 0, pt_sensorLongitudinal_m = 0,
      pt_sensorLateral_m = 0, pt_elevationRaw_rad = 0, pt_fusedTrackIndex = - 1,
      pt_isStationary = 0, pt_isMoveable = 0, pt_isStatic = 0, pt_stationaryProbability = 0\<rparr>"

text \<open>
  The mapper object. The \<open>float\<close> values are modelled as reals: finite, and computed
  without rounding, overflow or underflow. \<open>m_gridSize\<close> and the cell indices are 32-bit
  \<open>int\<close>s in the code and unbounded integers here; the model follows the code as long as
  the values converted to \<open>int\<close> are within its range and \<open>m_gridSize * m_gridSize\<close> does
  not overflow. A division by zero, which yields an infinity or a NaN in the code, has
  the value 0 here; the cell size is the only divisor of the grid arithmetic that the
  settings can make zero (see \<open>gridSettingsOk\<close>).
\<close>

record FusedRadarMapping =
  fm_settings :: Settings
  m_gridSize :: int
  m_gridCenter :: real
  m_logOdds :: "real list"
  m_rangeGrowthRate :: real
  m_azimuthGrowthRate :: real
  m_amplitudeGrowthRate :: real

definition kDegToRad :: real where
  "kDegToRad = 174532925 / 10000000000"

definition kRadToDeg :: real where
  "kRadToDeg = 572957795 / 10000000"

definition kMinProbability :: real where
  "kMinProbability = 1 / 1000"

definition kMaxProbability :: real where
  "kMaxProbability = 1 - kMinProbability"

definition wrapTo180 :: "real \<Rightarrow> real" where
  "wrapTo180 degrees =
     (let wrapped = fmod (degrees + 180) 360
      in (if wrapped < 0 then wrapped + 360 else wrapped) - 180)"

definition computeGrowthRate :: "real \<Rightarrow> real" where
  "computeGrowthRate bandwidth = (if bandwidth \<le> 0 then 0 else (439444915 / 100000000) / bandwidth)"

definition computeIndividualPlausibility :: "real \<Rightarrow> real \<Rightarrow> real \<Rightarrow> real" where
  "computeIndividualPlausibility v growthRate midpoint =
     1 / (1 + exp (- growthRate * (v - midpoint)))"

definition isMrrSensorIndex :: "int \<Rightarrow> bool" where
  "isMrrSensorIndex sensorIndex = (sensorIndex = 4 \<or> sensorIndex = 5)"

definition updatePlausibilityCache :: "FusedRadarMapping \<Rightarrow> FusedRadarMapping" where
  "updatePlausibilityCache st =
     st\<lparr>m_rangeGrowthRate := - computeGrowthRate (plausibilityRangeBandwidth (fm_settings st)),
        m_azimuthGrowthRate := - computeGrowthRate (plausibilityAzimuthBandwidth (fm_settings st)),
        m_amplitudeGrowthRate := computeGrowthRate (plausibilityAmplitudeBandwidth (fm_settings st))\<rparr>"

text \<open>
  \<open>initializeGrid\<close>: \<open>static_cast<int>(std::ceil(2 * mapRadius / cellSize))\<close>, at least 3. The
  cast is defined for a quotient that is finite and within the range of an \<open>int\<close>.
\<close>

definition initializeGrid :: "FusedRadarMapping \<Rightarrow> FusedRadarMapping" where
  "initializeGrid st =
     (let n = max 3 \<lceil>(mapRadius (fm_settings st) * 2) / cellSize (fm_settings st)\<rceil>
      in st\<lparr>m_gridSize := n,
            m_gridCenter := (real_of_int n - 1) * (1 / 2),
            m_logOdds := replicate (nat (n * n)) 0\<rparr>)"

definition FusedRadarMapping_new :: "Settings \<Rightarrow> FusedRadarMapping" where
  "FusedRadarMapping_new settings =
     initializeGrid (updatePlausibilityCache
       \<lparr>fm_settings = settings, m_gridSize = 0, m_gridCenter = 0, m_logOdds = [],
        m_rangeGrowthRate = 0, m_azimuthGrowthRate = 0, m_amplitudeGrowthRate = 0\<rparr>)"

definition fm_reset :: "FusedRadarMapping \<Rightarrow> FusedRadarMapping" where
  "fm_reset st = st\<lparr>m_logOdds := map (\<lambda>_. 0) (m_logOdds st)\<rparr>"

definition applySettings :: "Settings \<Rightarrow> FusedRadarMapping \<Rightarrow> FusedRadarMapping" where
  "applySettings settings st = initializeGrid (updatePlausibilityCache (st\<lparr>fm_settings := settings\<rparr>))"

definition cellCenter :: "FusedRadarMapping \<Rightarrow> int \<Rightarrow> int \<Rightarrow> vec2" where
  "cellCenter st ix iy =
     (let cs = cellSize (fm_settings st)
      in ((real_of_int ix - m_gridCenter st) * cs + (cs * (1 / 2)),
          (real_of_int iy - m_gridCenter st) * cs + (cs * (1 / 2))))"

definition occupiedCells :: "FusedRadarMapping \<Rightarrow> vec2 list" where
  "occupiedCells st =
     concat (map (\<lambda>iy. map (\<lambda>ix. cellCenter st ix iy)
                          (filter (\<lambda>ix. m_logOdds st ! nat (iy * m_gridSize st + ix)
                                          \<ge> occupiedThreshold (fm_settings st))
                             [0..m_gridSize st - 1]))
               [0..m_gridSize st - 1])"

text \<open>\<open>worldToCell\<close>: the cell indices, and whether they lie in the grid.\<close>

definition worldToCell :: "FusedRadarMapping \<Rightarrow> vec2 \<Rightarrow> bool \<times> int \<times> int" where
  "worldToCell st pos =
     (let scaledX = fst pos / cellSize (fm_settings st) + m_gridCenter st;
          scaledY = snd pos / cellSize (fm_settings st) + m_gridCenter st;
          ix = \<lfloor>scaledX\<rfloor>;
          iy = \<lfloor>scaledY\<rfloor>
      in (ix \<ge> 0 \<and> ix < m_gridSize st \<and> iy \<ge> 0 \<and> iy < m_gridSize st, ix, iy))"

definition computePlausibility :: "FusedRadarMapping \<Rightarrow> real \<Rightarrow> real \<Rightarrow> real \<Rightarrow> real" where
  "computePlausibility st rangeM azimuth amplitude =
     (if \<not> enablePlausibilityScaling (fm_settings st) then 1
      else
        (let rangeComponent =
               computeIndividualPlausibility rangeM (m_rangeGrowthRate st)
                 (plausibilityRangeMidpoint (fm_settings st));
             azimuthDeg = \<bar>wrapTo180 (azimuth * kRadToDeg)\<bar>;
             azimuthComponent =
               computeIndividualPlausibility azimuthDeg (m_azimuthGrowthRate st)
                 (plausibilityAzimuthMidpoint (fm_settings st));
             amplitudeComponent =
               computeIndividualPlausibility amplitude (m_amplitudeGrowthRate st)
                 (plausibilityAmplitudeMidpoint (fm_settings st));
             combined =
               (case plausibilityMethod (fm_settings st) of
                  Average \<Rightarrow> (rangeComponent + azimuthComponent + amplitudeComponent) / 3
                | Product \<Rightarrow> rangeComponent * azimuthComponent * amplitudeComponent
                | Minimum \<Rightarrow> min rangeComponent (min azimuthComponent amplitudeComponent)
                | Custom \<Rightarrow>
                    (if rangeM > customCombinationRangeThreshold (fm_settings st)
                     then min rangeComponent azimuthComponent * amplitudeComponent
                     else rangeComponent * amplitudeComponent))
         in std_clamp combined 0 1))"

text \<open>\<open>computeSensorAccuracies\<close>: the range accuracy and the angle accuracy in radians.\<close>

definition computeSensorAccuracies :: "FusedRadarMapping \<Rightarrow> RadarPoint \<Rightarrow> real \<times> real" where
  "computeSensorAccuracies st point =
     (if isMrrSensorIndex (pt_sensorIndex point)
      then (mrrRangeAccuracy_m (fm_settings st), mrrAngleAccuracy_deg (fm_settings st) * kDegToRad)
      else (srrRangeAccuracy_m (fm_settings st), srrAngleAccuracy_deg (fm_settings st) * kDegToRad))"

definition updateCell :: "int \<Rightarrow> int \<Rightarrow> real \<Rightarrow> FusedRadarMapping \<Rightarrow> FusedRadarMapping" where
  "updateCell ix iy delta st =
     (let k = nat (iy * m_gridSize st + ix);
          current = m_logOdds st ! k;
          next = std_clamp (current + delta) (minLogOdds (fm_settings st)) (maxLogOdds (fm_settings st))
      in st\<lparr>m_logOdds := (m_logOdds st)[k := next]\<rparr>)"

text \<open>
  The index window of \<open>addGaussian\<close> and \<open>addFreespaceCone\<close>:
  \<open>floor\<close> of the lower bound, \<open>ceil\<close> of the upper one, both clamped to the grid.
\<close>

definition toIndex :: "FusedRadarMapping \<Rightarrow> real \<Rightarrow> real" where
  "toIndex st v = v / cellSize (fm_settings st) + m_gridCenter st"

definition indexWindow :: "FusedRadarMapping \<Rightarrow> real \<Rightarrow> real \<Rightarrow> int \<times> int" where
  "indexWindow st lo hi =
     (std_clamp_int \<lfloor>toIndex st lo\<rfloor> 0 (m_gridSize st - 1),
      std_clamp_int \<lceil>toIndex st hi\<rceil> 0 (m_gridSize st - 1))"

definition vec_normalize :: "vec2 \<Rightarrow> vec2" where
  "vec_normalize v = (fst v / vec_length v, snd v / vec_length v)"

definition gaussianCell ::
  "vec2 \<Rightarrow> vec2 \<Rightarrow> vec2 \<Rightarrow> real \<Rightarrow> real \<Rightarrow> real \<Rightarrow> int \<Rightarrow> int \<Rightarrow> FusedRadarMapping
     \<Rightarrow> FusedRadarMapping" where
  "gaussianCell detectionPosition forward right invSigmaLon2 invSigmaLat2 scale iy ix st =
     (let cell = cellCenter st ix iy;
          delta = vec_sub cell detectionPosition;
          longitudinal = vec_dot delta forward;
          lateral = vec_dot delta right;
          exponent = - (1 / 2) * ((longitudinal * longitudinal) * invSigmaLon2 +
                                   (lateral * lateral) * invSigmaLat2);
          gaussian = exp exponent;
          probability = std_clamp (1 / 2 + (scale * gaussian)) kMinProbability kMaxProbability;
          logOdds = ln (probability / (1 - probability))
      in updateCell ix iy logOdds st)"

text \<open>
  \<open>addGaussian\<close>. Both sigmas are at least half the cell size, so that for a positive cell
  size the inverse variances \<open>1 / (sigma * sigma)\<close> are finite.
\<close>

definition addGaussian ::
  "vec2 \<Rightarrow> vec2 \<Rightarrow> real \<Rightarrow> real \<Rightarrow> real \<Rightarrow> real \<Rightarrow> real \<Rightarrow> FusedRadarMapping \<Rightarrow> FusedRadarMapping" where
  "addGaussian detectionPosition relativeVector rangeM azimuth rangeAccuracy angleAccuracy plausibility st =
     (if maxAdditiveProbability (fm_settings st) \<le> 0 then st
      else
        (let cs = cellSize (fm_settings st);
             sigmaLat = max (rangeM * tan angleAccuracy) (cs * (1 / 2));
             sigmaLon = max rangeAccuracy (cs * (1 / 2));
             maxSigma = max sigmaLat sigmaLon;
             radius = max cs (3 * maxSigma);
             invSigmaLon2 = 1 / (sigmaLon * sigmaLon);
             invSigmaLat2 = 1 / (sigmaLat * sigmaLat);
             scale = maxAdditiveProbability (fm_settings st) * plausibility;
             forward = (if vec_length relativeVector > 1 / 1000 then vec_normalize relativeVector
                        else (sin azimuth, cos azimuth));
             right = (snd forward, - fst forward);
             wx = indexWindow st (fst detectionPosition - radius) (fst detectionPosition + radius);
             wy = indexWindow st (snd detectionPosition - radius) (snd detectionPosition + radius)
         in fold (\<lambda>iy s. fold (gaussianCell detectionPosition forward right invSigmaLon2
                                   invSigmaLat2 scale iy) [fst wx..snd wx] s)
              [fst wy..snd wy] st))"

definition addHit :: "vec2 \<Rightarrow> real \<Rightarrow> FusedRadarMapping \<Rightarrow> FusedRadarMapping" where
  "addHit detectionPosition plausibility st =
     (let c = worldToCell st detectionPosition
      in if \<not> fst c then st
         else updateCell (fst (snd c)) (snd (snd c)) (hitIncrement (fm_settings st) * plausibility) st)"

definition triangleSign :: "vec2 \<Rightarrow> vec2 \<Rightarrow> vec2 \<Rightarrow> real" where
  "triangleSign p1 p2 p3 =
     (fst p1 - fst p3) * (snd p2 - snd p3) - (fst p2 - fst p3) * (snd p1 - snd p3)"

definition pointInTriangle :: "vec2 \<Rightarrow> vec2 \<Rightarrow> vec2 \<Rightarrow> vec2 \<Rightarrow> bool" where
  "pointInTriangle p a b c =
     (let d1 = triangleSign p a b;
          d2 = triangleSign p b c;
          d3 = triangleSign p c a;
          hasNeg = (d1 < 0 \<or> d2 < 0 \<or> d3 < 0);
          hasPos = (d1 > 0 \<or> d2 > 0 \<or> d3 > 0)
      in \<not> (hasNeg \<and> hasPos))"

definition freespaceCell ::
  "vec2 \<Rightarrow> vec2 \<Rightarrow> vec2 \<Rightarrow> real \<Rightarrow> int \<Rightarrow> int \<Rightarrow> FusedRadarMapping \<Rightarrow> FusedRadarMapping" where
  "freespaceCell sensorPosition left right delta iy ix st =
     (if pointInTriangle (cellCenter st ix iy) sensorPosition left right
      then updateCell ix iy delta st else st)"

definition addFreespaceCone ::
  "vec2 \<Rightarrow> real \<Rightarrow> real \<Rightarrow> real \<Rightarrow> real \<Rightarrow> FusedRadarMapping \<Rightarrow> FusedRadarMapping" where
  "addFreespaceCone sensorPosition azimuth rangeM rangeAccuracy amplitude st =
     (if rangeM > maxFreeSpaceRange_m (fm_settings st) then st
      else
        (let freeSpaceRange = rangeM - (freespaceRangeSigmaFactor (fm_settings st) * max 0 rangeAccuracy)
         in if freeSpaceRange \<le> 0 then st
            else
              (let freeSpacePlausibility = computePlausibility st (min freeSpaceRange 15) azimuth amplitude
               in if freeSpacePlausibility < minPlausibility (fm_settings st) then st
                  else
                    (let angle = freespaceAngleAccuracy_rad (fm_settings st);
                         angleLeft = azimuth - angle;
                         angleRight = azimuth + angle;
                         left = vec_add sensorPosition
                                  (vec_scale (sin angleLeft, cos angleLeft) freeSpaceRange);
                         right = vec_add sensorPosition
                                   (vec_scale (sin angleRight, cos angleRight) freeSpaceRange);
                         delta = - \<bar>missDecrement (fm_settings st)\<bar> * freeSpacePlausibility;
                         minX = min (fst sensorPosition) (min (fst left) (fst right));
                         maxX = max (fst sensorPosition) (max (fst left) (fst right));
                         minY = min (snd sensorPosition) (min (snd left) (snd right));
                         maxY = max (snd sensorPosition) (max (snd left) (snd right));
                         wx = indexWindow st minX maxX;
                         wy = indexWindow st minY maxY
                     in fold (\<lambda>iy s. fold (freespaceCell sensorPosition left right delta iy)
                                        [fst wx..snd wx] s)
                          [fst wy..snd wy] st))))"

text \<open>The body of the point loop of \<open>update\<close>.\<close>

definition updatePoint :: "RadarPoint \<Rightarrow> FusedRadarMapping \<Rightarrow> FusedRadarMapping" where
  "updatePoint point st =
     (if \<not> (pt_radarValid point \<noteq> 0 \<or> pt_superResolution point \<noteq> 0) then st
      else
        (let detectionPosition = (pt_x point, pt_y point);
             sensorPosition = (pt_sensorLateral_m point, pt_sensorLongitudinal_m point);
             relativeVector = vec_sub detectionPosition sensorPosition;
             relativeNorm = vec_length relativeVector;
             rangeM = (if pt_range_m point > 0 then pt_range_m point else relativeNorm)
         in if rangeM \<le> minRange_m (fm_settings st) then st
            else
              (let azimuth =
                     (if relativeNorm > 1 / 1000 then atan2 (fst relativeVector) (snd relativeVector)
                      else
                        (let pol = (if pt_azimuthPolarity point = 0 then 1 else pt_azimuthPolarity point)
                         in - pt_azimuthRaw_rad point * pol + pt_boresightAngle_rad point));
                   acc = computeSensorAccuracies st point;
                   plausibility = computePlausibility st rangeM azimuth (pt_amplitude_dBsm point);
                   stationaryPoint = (pt_isStationary point \<noteq> 0 \<or> pt_isStatic point \<noteq> 0
                                        \<or> pt_motionStatus point = 0);
                   st1 = (if enableOccupied (fm_settings st)
                             \<and> plausibility \<ge> minPlausibility (fm_settings st)
                             \<and> (stationaryPoint \<or> alwaysMapDynamicDetections (fm_settings st))
                          then (if radarModel (fm_settings st) = Gaussian
                                then addGaussian detectionPosition relativeVector rangeM azimuth
                                       (fst acc) (snd acc) plausibility st
                                else addHit detectionPosition plausibility st)
                          else st)
               in if enableFreespace (fm_settings st1)
                  then addFreespaceCone sensorPosition azimuth rangeM (fst acc) (pt_amplitude_dBsm point) st1
                  else st1)))"

definition fm_update :: "RadarPoint list \<Rightarrow> FusedRadarMapping \<Rightarrow> FusedRadarMapping" where
  "fm_update points st = fold updatePoint points st"

section \<open>Example inputs\<close>

text \<open>
  The fixtures of \<open>test/radar_core_pipeline_test.cpp\<close> and \<open>test/radar_mapping_test.cpp\<close>,
  used to run the definitions on concrete inputs.
\<close>

definition freshPipeline :: RadarProcessingPipeline where
  "freshPipeline = RadarProcessingPipeline_new default_ProcessingSettings"

definition zeroHeader :: RawDetectionsHeader where
  "zeroHeader =
     \<lparr>hdr_timestamp_us = 0, hdr_horizontalFov_rad = 0, hdr_maximumRange_m = 0,
      hdr_azimuthPolarity = 0, hdr_boresightAngle_rad = 0,
      hdr_sensorLongitudinal_m = 0, hdr_sensorLateral_m = 0\<rparr>"

definition emptyDetections :: EnhancedDetections where
  "emptyDetections = \<lparr>header = zeroHeader, detections = []\<rparr>"

definition emptyTracks :: EnhancedTracks where
  "emptyTracks = \<lparr>ets_timestamp_us = 0, ets_tracks = []\<rparr>"

definition exampleCalibration :: RadarCalibration where
  "exampleCalibration =
     \<lparr>vcs = \<lparr>pose_longitudinal_m = 0, pose_lateral_m = 0, pose_height_m = 0, pose_orientation_rad = 0\<rparr>,
      iso = \<lparr>pose_longitudinal_m = 1, pose_lateral_m = 0, pose_height_m = 0, pose_orientation_rad = 0\<rparr>,
      polarity = 1, rangeRateAccuracy_mps = 3 / 2, azimuthAccuracy_rad = 0, cal_horizontalFov_rad = 0\<rparr>"

definition exampleParameters :: VehicleParameters where
  "exampleParameters =
     \<lparr>distRearAxleToFrontBumper_m = 1, cornerHardwareDelay_s = 0, frontCenterHardwareDelay_s = 0,
      radarCalibrations = (\<lambda>_. exampleCalibration), contourIso = []\<rparr>"

text \<open>One valid return at index 0, at the offsets \<open>(1, 1)\<close>, with range rate 0.\<close>

definition exampleReturns :: RawReturns where
  "exampleReturns =
     \<lparr>raw_range_m = (\<lambda>i. if i = 0 then 10 else 0),
      raw_rangeRate_ms = (\<lambda>_. 0),
      raw_rangeRateRaw_ms = (\<lambda>_. 0),
      raw_azimuthRaw_rad = (\<lambda>_. 0),
      raw_azimuth_rad = (\<lambda>_. 0),
      raw_amplitude_dBsm = (\<lambda>_. 0),
      raw_longitudinalOffset_m = (\<lambda>i. if i = 0 then 1 else 0),
      raw_lateralOffset_m = (\<lambda>i. if i = 0 then 1 else 0),
      raw_motionStatus = (\<lambda>_. 0),
      raw_radarValidReturn = (\<lambda>i. if i = 0 then 1 else 0),
      raw_superResolutionDetection = (\<lambda>_. 0),
      raw_nearTargetDetection = (\<lambda>_. 0),
      raw_hostVehicleClutter = (\<lambda>_. 0),
      raw_multibounceDetection = (\<lambda>_. 0)\<rparr>"

definition exampleCornerFrame :: RawCornerDetections where
  "exampleCornerFrame =
     \<lparr>rc_sensor = FrontLeft, rc_header = zeroHeader\<lparr>hdr_timestamp_us := 1000, hdr_azimuthPolarity := 1\<rparr>,
      rc_returns = exampleReturns\<rparr>"

definition exampleFrontFrame :: RawFrontDetections where
  "exampleFrontFrame =
     \<lparr>rf_header = zeroHeader\<lparr>hdr_timestamp_us := 2000, hdr_azimuthPolarity := 1\<rparr>,
      rf_returns = exampleReturns\<rparr>"

text \<open>
  One track with status \<open>Updated\<close> at \<open>(1, 1)\<close>, a car of extent 4 by 2 whose height
  is reported as 0 and whose moveable flag is clear.
\<close>

definition exampleTrackFrame :: RawTrackFusion where
  "exampleTrackFrame =
     \<lparr>rt_timestamp_us = 900,
      rt_vcsLongitudinalPosition = (\<lambda>i. if i = 0 then 1 else 0),
      rt_vcsLateralPosition = (\<lambda>i. if i = 0 then 1 else 0),
      rt_length = (\<lambda>i. if i = 0 then 4 else 0),
      rt_width = (\<lambda>i. if i = 0 then 2 else 0),
      rt_height = (\<lambda>_. 0),
      rt_probabilityOfDetection = (\<lambda>_. 0),
      rt_id = (\<lambda>i. if i = 0 then 42 else 0),
      rt_objectClassification = (\<lambda>i. if i = 0 then TrackObjectClass_Car else 0),
      rt_objectClassificationConfidence = (\<lambda>_. 0),
      rt_status = (\<lambda>i. if i = 0 then TrackStatus_Updated else TrackStatus_Invalid),
      rt_vcsLateralVelocity = (\<lambda>_. 0),
      rt_vcsLongitudinalVelocity = (\<lambda>_. 0),
      rt_vcsLateralAcceleration = (\<lambda>_. 0),
      rt_vcsLongitudinalAcceleration = (\<lambda>_. 0),
      rt_vcsHeading = (\<lambda>_. 0),
      rt_vcsHeadingRate = (\<lambda>_. 0),
      rt_movingFlag = (\<lambda>_. 0),
      rt_stationaryFlag = (\<lambda>_. 0),
      rt_moveableFlag = (\<lambda>_. 0),
      rt_vehicleFlag = (\<lambda>_. 0)\<rparr>"

text \<open>The same track, reported with length and width 0.\<close>

definition thinTrackFrame :: RawTrackFusion where
  "thinTrackFrame = exampleTrackFrame\<lparr>rt_length := (\<lambda>_. 0), rt_width := (\<lambda>_. 0)\<rparr>"

text \<open>
  A pipeline that was initialised, was given an external motion state of zero velocity,
  and has processed \<open>exampleTrackFrame\<close>.
\<close>

definition trackedPipeline :: RadarProcessingPipeline where
  "trackedPipeline =
     snd (processTrackFusion 900 exampleTrackFrame emptyTracks
            (updateVehicleState default_VehicleMotionState (initialize exampleParameters freshPipeline)))"

text \<open>
  The same track with its moveable flag set, and the pipeline that has processed that
  frame instead.
\<close>

definition moveableTrackFrame :: RawTrackFusion where
  "moveableTrackFrame = exampleTrackFrame\<lparr>rt_moveableFlag := (\<lambda>i. if i = 0 then 1 else 0)\<rparr>"

definition moveablePipeline :: RadarProcessingPipeline where
  "moveablePipeline =
     snd (processTrackFusion 900 moveableTrackFrame emptyTracks
            (updateVehicleState default_VehicleMotionState (initialize exampleParameters freshPipeline)))"

text \<open>A random source for the examples: the draws cycle through the indices.\<close>

definition cyclingDraws :: "nat \<Rightarrow> nat \<Rightarrow> nat" where
  "cyclingDraws n k = k mod n"

text \<open>
  The ring of \<open>test/radar_mapping_test.cpp\<close>, with three segments: the square contour
  around the origin, and one detection at \<open>(-5, 0)\<close>.
\<close>

definition squareContour :: "vec2 list" where
  "squareContour = [(- 1, - 1), (1, - 1), (1, 1), (- 1, 1)]"

definition ringBase :: RadarVirtualSensorMapping where
  "ringBase = snd (setSegmentCount 3 RadarVirtualSensorMapping_new)"

definition ringSquare :: RadarVirtualSensorMapping where
  "ringSquare = setVehicleContour squareContour ringBase"

definition ringHit :: RadarVirtualSensorMapping where
  "ringHit = ring_update [(- 5, 0)] [] ringSquare"


text \<open>
  The hit-model grid of \<open>test/radar_mapping_test.cpp\<close> (cell size 0.5, map radius 2,
  plausibility scaling and free space off), with the lower log-odds bound as a parameter,
  and one valid stationary point at the origin.
\<close>

definition hitSettings :: "real \<Rightarrow> Settings" where
  "hitSettings lo =
     default_Settings\<lparr>cellSize := 1 / 2, mapRadius := 2, radarModel := Hits,
       enablePlausibilityScaling := False, minPlausibility := 0, occupiedThreshold := 0,
       enableFreespace := False, minLogOdds := lo\<rparr>"

definition hitPoint :: RadarPoint where
  "hitPoint =
     default_RadarPoint\<lparr>pt_range_m := 8 / 10, pt_radarValid := 1, pt_sensorIndex := 4,
       pt_amplitude_dBsm := 50, pt_isStationary := 1\<rparr>"


text \<open>
  Three valid detections for the estimator: at azimuth 0 with range rate \<open>-5\<close>, at
  azimuth \<open>pi / 2\<close> with range rate 2, and at azimuth 0 with range rate \<open>-7\<close>; the
  samples they yield under \<open>exampleCalibration\<close>; and two estimators, one with the
  default settings and one with \<open>minInliers = 2\<close>.
\<close>

definition oddDetections :: EnhancedDetections where
  "oddDetections =
     \<lparr>header = zeroHeader\<lparr>hdr_timestamp_us := 1234\<rparr>,
      detections =
        [default_EnhancedDetection\<lparr>azimuthRaw_rad := 0, rangeRate_ms := - 5, flags := 1\<rparr>,
         default_EnhancedDetection\<lparr>azimuthRaw_rad := pi / 2, rangeRate_ms := 2, flags := 1\<rparr>,
         default_EnhancedDetection\<lparr>azimuthRaw_rad := 0, rangeRate_ms := - 7, flags := 1\<rparr>]\<rparr>"

definition oddSamples :: "Sample list" where
  "oddSamples =
     [\<lparr>cosAngle = 1, sinAngle = 0, rangeRate = - 5\<rparr>,
      \<lparr>cosAngle = 0, sinAngle = - 1, rangeRate = 2\<rparr>,
      \<lparr>cosAngle = 1, sinAngle = 0, rangeRate = - 7\<rparr>]"

definition odometryTwo :: RadarOdometryEstimator where
  "odometryTwo = RadarOdometryEstimator_new (default_OdometrySettings\<lparr>minInliers := 2\<rparr>)"

definition odometryDefault :: RadarOdometryEstimator where
  "odometryDefault = RadarOdometryEstimator_new default_OdometrySettings"


section \<open>Predicates used in the statements\<close>

text \<open>
  Two track lists agree except for the vote accumulators: they have the same length
  and, entry by entry, the same position, velocity, acceleration, extents, heading,
  heading rate and flags.
\<close>

definition forgetVotes :: "TrackState \<Rightarrow> TrackState" where
  "forgetVotes track = track\<lparr>movingVotes := 0\<rparr>"

definition sameExceptVotes :: "TrackState list \<Rightarrow> TrackState list \<Rightarrow> bool" where
  "sameExceptVotes old new = (map forgetVotes new = map forgetVotes old)"

text \<open>
  The vote rule, read off the detections that a detection frame hands back. The vote of
  a detection is minus its stationary probability when it is classified stationary, and
  one minus that probability otherwise. A track whose moveable flag is set is not voted
  on; to any other track the vote is added, and the sum is kept within \<open>[-100, 100]\<close>.
  A detection whose \<open>fusedTrackIndex\<close> is a valid index votes on the track at that
  index, any other detection on none; the detections of a frame vote in order.
\<close>

definition voteOf :: "EnhancedDetection \<Rightarrow> real" where
  "voteOf det = (if isStationary det \<noteq> 0 then - stationaryProbability det
                 else 1 - stationaryProbability det)"

definition votedTrack :: "EnhancedDetection \<Rightarrow> TrackState \<Rightarrow> TrackState" where
  "votedTrack det track =
     (if ts_isMoveable track then track
      else track\<lparr>movingVotes := max (- 100) (min 100 (movingVotes track + voteOf det))\<rparr>)"

definition applyVote :: "EnhancedDetection \<Rightarrow> TrackState list \<Rightarrow> TrackState list" where
  "applyVote det tracks =
     (if 0 \<le> fusedTrackIndex det \<and> nat (fusedTrackIndex det) < length tracks
      then tracks[nat (fusedTrackIndex det) := votedTrack det (tracks ! nat (fusedTrackIndex det))]
      else tracks)"

definition applyVotes :: "EnhancedDetection list \<Rightarrow> TrackState list \<Rightarrow> TrackState list" where
  "applyVotes dets tracks = fold applyVote dets tracks"

text \<open>
  The ring states that the public operations produce, starting from the constructor, and
  the sizes that the arrays of such a state have.
\<close>

inductive ringReachable :: "RadarVirtualSensorMapping \<Rightarrow> bool" where
  ring_new: "ringReachable RadarVirtualSensorMapping_new"
| ring_setSegmentCount: "ringReachable st \<Longrightarrow> ringReachable (snd (setSegmentCount n st))"
| ring_setVehicleContour: "ringReachable st \<Longrightarrow> ringReachable (setVehicleContour contour st)"
| ring_update: "ringReachable st \<Longrightarrow> ringReachable (ring_update dets footprints st)"
| ring_reset: "ringReachable st \<Longrightarrow> ringReachable (ring_reset st)"

definition ringSized :: "RadarVirtualSensorMapping \<Rightarrow> bool" where
  "ringSized st =
     (3 \<le> m_segmentCount st \<and>
      length (m_segmentDirections st) = m_segmentCount st \<and>
      length (m_segmentStartDist st) = m_segmentCount st \<and>
      length (m_segmentEndDist st) = m_segmentCount st)"

text \<open>
  The grid states that the public operations produce.
\<close>

inductive gridReachable :: "FusedRadarMapping \<Rightarrow> bool" where
  grid_new: "gridReachable (FusedRadarMapping_new settings)"
| grid_update: "gridReachable st \<Longrightarrow> gridReachable (fm_update points st)"
| grid_reset: "gridReachable st \<Longrightarrow> gridReachable (fm_reset st)"
| grid_applySettings: "gridReachable st \<Longrightarrow> gridReachable (applySettings settings st)"

text \<open>
  The settings for which the grid arithmetic of the code is defined and the real-number
  model follows it: the cell size is positive, so that nothing is divided by zero (the
  cell indices \<open>value / cellSize\<close>, and \<open>1 / (sigma * sigma)\<close> in \<open>addGaussian\<close>, whose
  sigmas are at least half a cell), and the grid side \<open>ceil(2 * mapRadius / cellSize)\<close>
  is within the range of a 32-bit \<open>int\<close> and at most 46340, so that
  \<open>m_gridSize * m_gridSize\<close> does not overflow.
\<close>

definition gridSettingsOk :: "Settings \<Rightarrow> bool" where
  "gridSettingsOk settings =
     (0 < cellSize settings \<and>
      - 2147483648 \<le> \<lceil>(mapRadius settings * 2) / cellSize settings\<rceil> \<and>
      \<lceil>(mapRadius settings * 2) / cellSize settings\<rceil> \<le> 46340)"

text \<open>
  The invariant of the reachable grids: the cached growth rates and the grid size are
  those of the settings in force, the cell array has one entry per cell, and, when the
  lower log-odds bound does not exceed the upper one, every cell is 0 or lies between the
  bounds.
\<close>

definition cellOk :: "Settings \<Rightarrow> real \<Rightarrow> bool" where
  "cellOk settings c = (c = 0 \<or> (minLogOdds settings \<le> c \<and> c \<le> maxLogOdds settings))"

definition gridInv :: "FusedRadarMapping \<Rightarrow> bool" where
  "gridInv st =
     (m_rangeGrowthRate st = - computeGrowthRate (plausibilityRangeBandwidth (fm_settings st)) \<and>
      m_azimuthGrowthRate st = - computeGrowthRate (plausibilityAzimuthBandwidth (fm_settings st)) \<and>
      m_amplitudeGrowthRate st = computeGrowthRate (plausibilityAmplitudeBandwidth (fm_settings st)) \<and>
      m_gridSize st = max 3 \<lceil>(mapRadius (fm_settings st) * 2) / cellSize (fm_settings st)\<rceil> \<and>
      length (m_logOdds st) = nat (m_gridSize st * m_gridSize st) \<and>
      (minLogOdds (fm_settings st) \<le> maxLogOdds (fm_settings st) \<longrightarrow>
         list_all (cellOk (fm_settings st)) (m_logOdds st)))"


text \<open>
  The plausibility of the specification, in its words. The growth rate of an axis is
  \<open>4.39444915 / bandwidth\<close>, and 0 for a bandwidth that is not positive; the sigmoid of an
  axis is \<open>1 / (1 + exp(-g * (value - midpoint)))\<close>, with the growth rate negated for range
  and azimuth. \<open>wrapDegTo180\<close> takes an angle in degrees to the angle in \<open>[-180, 180)\<close>
  that differs from it by a multiple of 360, and \<open>rad2deg\<close> is the number of degrees in a
  radian, \<open>180 / pi\<close>, written with the nine significant digits that single precision
  can hold. The Custom combination at the range threshold of 10 is clamped to \<open>[0, 1]\<close>.
\<close>

definition spec_growthRate :: "real \<Rightarrow> real" where
  "spec_growthRate bandwidth = (if bandwidth \<le> 0 then 0 else (439444915 / 100000000) / bandwidth)"

definition spec_sigmoid :: "real \<Rightarrow> real \<Rightarrow> real \<Rightarrow> real" where
  "spec_sigmoid g v midpoint = 1 / (1 + exp (- g * (v - midpoint)))"

definition spec_wrapDegTo180 :: "real \<Rightarrow> real" where
  "spec_wrapDegTo180 d = d - 360 * of_int \<lfloor>(d + 180) / 360\<rfloor>"

definition spec_rad2deg :: real where
  "spec_rad2deg = 572957795 / 10000000"

definition spec_sigma_range :: "Settings \<Rightarrow> real \<Rightarrow> real" where
  "spec_sigma_range settings r =
     spec_sigmoid (- spec_growthRate (plausibilityRangeBandwidth settings)) r
       (plausibilityRangeMidpoint settings)"

definition spec_sigma_azimuth :: "Settings \<Rightarrow> real \<Rightarrow> real" where
  "spec_sigma_azimuth settings azimuth =
     spec_sigmoid (- spec_growthRate (plausibilityAzimuthBandwidth settings))
       \<bar>spec_wrapDegTo180 (azimuth * spec_rad2deg)\<bar> (plausibilityAzimuthMidpoint settings)"

definition spec_sigma_amplitude :: "Settings \<Rightarrow> real \<Rightarrow> real" where
  "spec_sigma_amplitude settings amplitude =
     spec_sigmoid (spec_growthRate (plausibilityAmplitudeBandwidth settings)) amplitude
       (plausibilityAmplitudeMidpoint settings)"

definition spec_clamp01 :: "real \<Rightarrow> real" where
  "spec_clamp01 x = max 0 (min 1 x)"

definition spec_plausibility_custom :: "Settings \<Rightarrow> real \<Rightarrow> real \<Rightarrow> real \<Rightarrow> real" where
  "spec_plausibility_custom settings r azimuth amplitude =
     spec_clamp01
       ((if r > 10 then min (spec_sigma_range settings r) (spec_sigma_azimuth settings azimuth)
         else spec_sigma_range settings r) * spec_sigma_amplitude settings amplitude)"


text \<open>
  The random sequence never stays at one value for ever: the condition under which the
  rejection loop \<open>while (j == i)\<close> ends.
\<close>

definition drawsVary :: "(nat \<Rightarrow> nat) \<Rightarrow> bool" where
  "drawsVary draws = (\<forall>i k. \<exists>j\<ge>k. draws j \<noteq> i)"


section \<open>Properties of the processing pipeline\<close>

subsection \<open>Sensor liveness\<close>

text \<open>
  Claim C7. The liveness update of one sensor: the sensor is initialised afterwards and
  the other sensors are untouched. On the first frame (the sensor not yet initialised)
  the frame is live, the timestamp is stored and the invalid count is 0. On a later frame
  with a timestamp strictly greater than the stored one the frame is live, the timestamp
  is replaced and the invalid count is reset to 0. On a later frame with a timestamp less
  than or equal to the stored one the frame is not live, the stored timestamp is kept and
  the invalid count is incremented (a 32-bit counter).
\<close>

theorem sensor_liveness:
  "updateSensorStatus sensor t st = (live, st') \<Longrightarrow>
   (\<forall>other. other \<noteq> sensor \<longrightarrow> m_sensorStates st' other = m_sensorStates st other) \<and>
   initialized (m_sensorStates st' sensor) \<and>
   (\<not> initialized (m_sensorStates st sensor) \<longrightarrow>
      live \<and> sus_timestamp_us (m_sensorStates st' sensor) = t
           \<and> numConsecutiveInvalid (m_sensorStates st' sensor) = 0) \<and>
   (initialized (m_sensorStates st sensor) \<and> sus_timestamp_us (m_sensorStates st sensor) < t \<longrightarrow>
      live \<and> sus_timestamp_us (m_sensorStates st' sensor) = t
           \<and> numConsecutiveInvalid (m_sensorStates st' sensor) = 0) \<and>
   (initialized (m_sensorStates st sensor) \<and> t \<le> sus_timestamp_us (m_sensorStates st sensor) \<longrightarrow>
      \<not> live \<and> sus_timestamp_us (m_sensorStates st' sensor) = sus_timestamp_us (m_sensorStates st sensor)
             \<and> numConsecutiveInvalid (m_sensorStates st' sensor)
                 = numConsecutiveInvalid (m_sensorStates st sensor) + 1)"
  by (auto simp: updateSensorStatus_def updateSensorState_def Let_def split: if_splits)

text \<open>
  The scenario of the specification: two frames at \<open>t = 1000\<close> and \<open>t = 900\<close> on a
  fresh pipeline.
\<close>

theorem sensor_liveness_witness:
  "let first = updateSensorStatus FrontLeft 1000 freshPipeline;
       second = updateSensorStatus FrontLeft 900 (snd first)
   in \<not> initialized (m_sensorStates freshPipeline FrontLeft) \<and>
      fst first \<and> \<not> fst second \<and>
      sus_timestamp_us (m_sensorStates (snd second) FrontLeft) = 1000 \<and>
      numConsecutiveInvalid (m_sensorStates (snd second) FrontLeft) = 1"
  using sensor_liveness [of FrontLeft 1000 freshPipeline
      "fst (updateSensorStatus FrontLeft 1000 freshPipeline)"
      "snd (updateSensorStatus FrontLeft 1000 freshPipeline)"]
    sensor_liveness [of FrontLeft 900 "snd (updateSensorStatus FrontLeft 1000 freshPipeline)"
      "fst (updateSensorStatus FrontLeft 900 (snd (updateSensorStatus FrontLeft 1000 freshPipeline)))"
      "snd (updateSensorStatus FrontLeft 900 (snd (updateSensorStatus FrontLeft 1000 freshPipeline)))"]
  by (simp add: freshPipeline_def RadarProcessingPipeline_new_def Let_def)

subsection \<open>Detection frames before \<open>initialize\<close>\<close>

text \<open>
  Claim C6. While the pipeline has no vehicle parameters (\<open>initialize\<close> was not called),
  \<open>processCornerDetections\<close> and \<open>processFrontDetections\<close> return \<open>false\<close>, and leave the
  output arguments and the pipeline as they were.
\<close>

theorem uninitialized_pipeline_fails:
  "m_parameters st = None \<Longrightarrow>
     processCornerDetections rng solve sensor t cornerInput output st = Some (False, output, st) \<and>
     processFrontDetections rng solve t frontInput outputShort outputLong st
       = Some (False, outputShort, outputLong, st)"
  by (simp add: processCornerDetections_def processFrontDetections_def)

theorem uninitialized_pipeline_fails_witness:
  "m_parameters freshPipeline = None \<and>
   processCornerDetections cyclingDraws qrSolveExact FrontLeft 0 exampleCornerFrame emptyDetections
     freshPipeline = Some (False, emptyDetections, freshPipeline) \<and>
   processFrontDetections cyclingDraws qrSolveExact 0 exampleFrontFrame emptyDetections emptyDetections
     freshPipeline = Some (False, emptyDetections, emptyDetections, freshPipeline)"
proof -
  have fresh: "m_parameters freshPipeline = None"
    by (simp add: freshPipeline_def RadarProcessingPipeline_new_def)
  show ?thesis
    using fresh uninitialized_pipeline_fails [OF fresh] by simp
qed

subsection \<open>Enhanced tracks and playback tracks\<close>

lemma validTrackIndices_example: "validTrackIndices exampleTrackFrame = [0]"
  by code_simp

lemma validTrackIndices_thin: "validTrackIndices thinTrackFrame = [0]"
  by code_simp

text \<open>
  Claim C3, as stated, fails: \<open>processTrackFusion\<close> copies height, length and width
  into the \<open>EnhancedTrack\<close> as they come. For a car with status \<open>Updated\<close> reported
  with height, length and width 0, the one emitted \<open>EnhancedTrack\<close> has height 0 (not
  1.8) and length and width 0 (below 0.25).
\<close>

theorem enhanced_track_not_imputed:
  "rt_status thinTrackFrame 0 = TrackStatus_Updated \<and>
   rt_objectClassification thinTrackFrame 0 = TrackObjectClass_Car \<and>
   rt_height thinTrackFrame 0 = 0 \<and>
   map et_height (ets_tracks (fst (processTrackFusion 900 thinTrackFrame emptyTracks freshPipeline))) = [0] \<and>
   map et_length (ets_tracks (fst (processTrackFusion 900 thinTrackFrame emptyTracks freshPipeline))) = [0] \<and>
   map et_width (ets_tracks (fst (processTrackFusion 900 thinTrackFrame emptyTracks freshPipeline))) = [0]"
proof -
  have "ets_tracks (fst (processTrackFusion 900 thinTrackFrame emptyTracks freshPipeline))
      = [enhancedTrackOf thinTrackFrame 0]"
    by (simp add: processTrackFusion_def validTrackIndices_thin Let_def)
  then show ?thesis
    by (simp add: enhancedTrackOf_def thinTrackFrame_def exampleTrackFrame_def)
qed

text \<open>
  Claim C3, amended. A track frame emits one \<open>EnhancedTrack\<close> per entry whose status is
  not \<open>Invalid\<close>, with the height, length and width of the input. The imputation and the
  clamp are in \<open>appendTracks\<close>: it turns each emitted \<open>EnhancedTrack\<close> into one playback
  \<open>RadarTrack\<close> whose height, when the input height is 0, is 1.8 for Car, Motorcycle and
  Bicycle, 3.8 for Truck and 0.05 otherwise (and the input height when that is not 0), and
  whose length and width are the input's, raised to at least 0.25.
\<close>

theorem playback_track_imputed:
  "ets_tracks (fst (processTrackFusion t input output st))
     = map (enhancedTrackOf input) (validTrackIndices input) \<and>
   set (validTrackIndices input) = {i. i < kTrackCount \<and> rt_status input i \<noteq> TrackStatus_Invalid} \<and>
   appendTracks (fst (processTrackFusion t input output st)) []
     = map (\<lambda>i. radarTrackOf (enhancedTrackOf input i)) (validTrackIndices input) \<and>
   et_height (enhancedTrackOf input i) = rt_height input i \<and>
   et_length (enhancedTrackOf input i) = rt_length input i \<and>
   et_width (enhancedTrackOf input i) = rt_width input i \<and>
   tk_height (radarTrackOf (enhancedTrackOf input i)) =
     (if rt_height input i = 0 then
        (if rt_objectClassification input i = TrackObjectClass_Car
            \<or> rt_objectClassification input i = TrackObjectClass_Motorcycle
            \<or> rt_objectClassification input i = TrackObjectClass_Bicycle then 18 / 10
         else if rt_objectClassification input i = TrackObjectClass_Truck then 38 / 10
         else 5 / 100)
      else rt_height input i) \<and>
   tk_length (radarTrackOf (enhancedTrackOf input i)) = max (rt_length input i) (25 / 100) \<and>
   tk_width (radarTrackOf (enhancedTrackOf input i)) = max (rt_width input i) (25 / 100) \<and>
   25 / 100 \<le> tk_length (radarTrackOf (enhancedTrackOf input i)) \<and>
   25 / 100 \<le> tk_width (radarTrackOf (enhancedTrackOf input i))"
proof -
  have emitted: "ets_tracks (fst (processTrackFusion t input output st))
      = map (enhancedTrackOf input) (validTrackIndices input)"
    by (simp add: processTrackFusion_def Let_def)
  have valid: "set (validTrackIndices input)
      = {i. i < kTrackCount \<and> rt_status input i \<noteq> TrackStatus_Invalid}"
    by (auto simp: validTrackIndices_def)
  have keep: "filter (\<lambda>t. et_status t \<noteq> TrackStatus_Invalid)
        (map (enhancedTrackOf input) (validTrackIndices input))
      = map (enhancedTrackOf input) (validTrackIndices input)"
    by (simp add: filter_map comp_def enhancedTrackOf_def validTrackIndices_def)
  have playback: "appendTracks (fst (processTrackFusion t input output st)) []
      = map (\<lambda>i. radarTrackOf (enhancedTrackOf input i)) (validTrackIndices input)"
    by (simp add: appendTracks_def emitted keep comp_def)
  have fields: "et_height (enhancedTrackOf input i) = rt_height input i"
    "et_length (enhancedTrackOf input i) = rt_length input i"
    "et_width (enhancedTrackOf input i) = rt_width input i"
    by (simp_all add: enhancedTrackOf_def)
  have height: "tk_height (radarTrackOf (enhancedTrackOf input i)) =
     (if rt_height input i = 0 then
        (if rt_objectClassification input i = TrackObjectClass_Car
            \<or> rt_objectClassification input i = TrackObjectClass_Motorcycle
            \<or> rt_objectClassification input i = TrackObjectClass_Bicycle then 18 / 10
         else if rt_objectClassification input i = TrackObjectClass_Truck then 38 / 10
         else 5 / 100)
      else rt_height input i)"
    by (simp add: radarTrackOf_def enhancedTrackOf_def imputedHeight_def)
  have extent: "tk_length (radarTrackOf (enhancedTrackOf input i)) = max (rt_length input i) (25 / 100)"
    "tk_width (radarTrackOf (enhancedTrackOf input i)) = max (rt_width input i) (25 / 100)"
    by (simp_all add: radarTrackOf_def enhancedTrackOf_def kMinTrackExtent_def)
  have bound: "25 / 100 \<le> tk_length (radarTrackOf (enhancedTrackOf input i))"
    "25 / 100 \<le> tk_width (radarTrackOf (enhancedTrackOf input i))"
    unfolding extent by simp_all
  show ?thesis
    using emitted valid playback fields height extent bound by blast
qed

text \<open>The thin car of the counterexample: its playback track is 1.8 high and 0.25 by 0.25.\<close>

theorem playback_track_imputed_witness:
  "map tk_height (appendTracks (fst (processTrackFusion 900 thinTrackFrame emptyTracks freshPipeline)) [])
     = [18 / 10] \<and>
   map tk_length (appendTracks (fst (processTrackFusion 900 thinTrackFrame emptyTracks freshPipeline)) [])
     = [25 / 100] \<and>
   map tk_width (appendTracks (fst (processTrackFusion 900 thinTrackFrame emptyTracks freshPipeline)) [])
     = [25 / 100]"
proof -
  note imputed = playback_track_imputed [of 900 thinTrackFrame emptyTracks freshPipeline 0]
  have input: "rt_height thinTrackFrame 0 = 0" "rt_length thinTrackFrame 0 = 0"
    "rt_width thinTrackFrame 0 = 0" "rt_objectClassification thinTrackFrame 0 = TrackObjectClass_Car"
    by (simp_all add: thinTrackFrame_def exampleTrackFrame_def)
  have "appendTracks (fst (processTrackFusion 900 thinTrackFrame emptyTracks freshPipeline)) []
      = [radarTrackOf (enhancedTrackOf thinTrackFrame 0)]"
    using imputed by (simp only: validTrackIndices_thin list.map)
  moreover have "tk_height (radarTrackOf (enhancedTrackOf thinTrackFrame 0)) = 18 / 10"
    "tk_length (radarTrackOf (enhancedTrackOf thinTrackFrame 0)) = 25 / 100"
    "tk_width (radarTrackOf (enhancedTrackOf thinTrackFrame 0)) = 25 / 100"
    using imputed by (simp_all only: input if_True max_def) simp_all
  ultimately show ?thesis
    by simp
qed

subsection \<open>The track snapshot across detection frames\<close>

lemma voteTrack_frame: "forgetVotes (snd (voteTrack det track)) = forgetVotes track"
  by (simp add: voteTrack_def forgetVotes_def Let_def)

lemma associateDetection_frame:
  "map forgetVotes (snd (associateDetection settings motion calibration boxes det tracks))
     = map forgetVotes tracks"
proof -
  have upd: "map forgetVotes (tracks[i := snd (voteTrack det (tracks ! i))]) = map forgetVotes tracks" for i
  proof (cases "i < length tracks")
    case True
    then show ?thesis
      by (simp add: map_update voteTrack_frame list_update_same_conv)
  next
    case False
    then have "tracks[i := snd (voteTrack det (tracks ! i))] = tracks"
      by (intro list_update_beyond) simp
    then show ?thesis by simp
  qed
  show ?thesis
    by (simp add: associateDetection_def Let_def upd)
qed

lemma associateLoop_frame:
  "map forgetVotes (snd (associateLoop settings motion calibration boxes dets tracks))
     = map forgetVotes tracks"
proof (induction dets arbitrary: tracks)
  case Nil
  show ?case by simp
next
  case (Cons det rest)
  show ?case
    by (simp add: Let_def Cons.IH associateDetection_frame)
qed

lemma associateDetections_frame:
  "sameExceptVotes (m_tracks st) (m_tracks (snd (associateDetections st parameters sensor t dets)))"
  "m_tracksTimestamp_us (snd (associateDetections st parameters sensor t dets)) = m_tracksTimestamp_us st"
  by (simp_all add: associateDetections_def Let_def sameExceptVotes_def associateLoop_frame)

lemma updateSensorStatus_tracks:
  "m_tracks (snd (updateSensorStatus sensor t st)) = m_tracks st"
  "m_tracksTimestamp_us (snd (updateSensorStatus sensor t st)) = m_tracksTimestamp_us st"
  by (simp_all add: updateSensorStatus_def Let_def)

lemma feedOdometry_tracks:
  "feedOdometry rng solve calibration dets st = Some st' \<Longrightarrow>
     m_tracks st' = m_tracks st \<and> m_tracksTimestamp_us st' = m_tracksTimestamp_us st"
  by (auto simp: feedOdometry_def Let_def split: if_splits option.splits prod.splits)

lemma sameExceptVotes_trans:
  "sameExceptVotes a b \<Longrightarrow> sameExceptVotes b c \<Longrightarrow> sameExceptVotes a c"
  by (simp add: sameExceptVotes_def)

lemma erf_zero: "erf 0 = 0"
  by (simp add: erf_def)

lemma associateLoop_skip:
  "list_all (\<lambda>d. flags d AND validMask = 0) dets \<Longrightarrow>
     snd (associateLoop settings motion calibration boxes dets tracks) = tracks"
  by (induction dets arbitrary: tracks) (simp_all add: Let_def associateDetection_def)

lemma classifyDetection_flags:
  "flags (classifyDetection settings motion calibration det) = flags det"
  by (simp add: classifyDetection_def Let_def)

lemma trackedPipeline_tracks:
  "m_tracks trackedPipeline =
     [\<lparr>position = (1, 1), velocity = (0, 0), acceleration = (0, 0), ts_length = 4, ts_width = 2,
       ts_height = 0, heading = 0, headingRate = 0, ts_isStationary = False, ts_isMoveable = False,
       movingVotes = 0\<rparr>]"
proof -
  have "m_tracks trackedPipeline = [trackStateOf (enhancedTrackOf exampleTrackFrame 0)]"
    by (simp add: trackedPipeline_def processTrackFusion_def validTrackIndices_example Let_def)
  then show ?thesis
    by (simp add: trackStateOf_def enhancedTrackOf_def exampleTrackFrame_def)
qed

lemma trackedPipeline_fields:
  "m_parameters trackedPipeline = Some exampleParameters"
  "m_hasExternalMotionState trackedPipeline"
  "m_motionState trackedPipeline = default_VehicleMotionState"
  "m_settings trackedPipeline = default_ProcessingSettings"
  "m_tracksTimestamp_us trackedPipeline = 900"
  by (simp_all add: trackedPipeline_def processTrackFusion_def Let_def updateVehicleState_def
      initialize_def freshPipeline_def RadarProcessingPipeline_new_def)

lemma exampleFrame_rest_flags:
  "list_all (\<lambda>d. flags d AND validMask = 0)
     (map (\<lambda>i. classifyDetection settings motion calibration (mapReturn exampleReturns i (resized ! i)))
        [Suc 0..<kCornerReturnCount])"
  by (simp add: list_all_iff classifyDetection_flags mapReturn_def exampleReturns_def
      packDetectionFlags_def)

lemma classify_first:
  "classifyDetection default_ProcessingSettings default_VehicleMotionState exampleCalibration
     (mapReturn exampleReturns 0 default_EnhancedDetection)
   = default_EnhancedDetection
       \<lparr>range_m := 10, longitudinalOffset_m := 1, lateralOffset_m := 1, motionStatus := 0,
        flags := 1, fusedTrackIndex := - 1, isMoveable := 0, isStationary := 1,
        stationaryProbability := 1, isStatic := 1\<rparr>"
  by (simp add: classifyDetection_def mapReturn_def exampleReturns_def Let_def
      detectionAngleRad_def exampleCalibration_def yawCompensation_def default_VehicleMotionState_def
      stationaryProbabilityFromDistance_def erf_zero std_clamp_def default_ProcessingSettings_def
      packDetectionFlags_def default_EnhancedDetection_def)


lemma associate_first:
  "snd (associateDetection default_ProcessingSettings default_VehicleMotionState exampleCalibration
          (map (trackBox default_ProcessingSettings dt) (m_tracks trackedPipeline))
          (default_EnhancedDetection
             \<lparr>range_m := 10, longitudinalOffset_m := 1, lateralOffset_m := 1, motionStatus := 0,
              flags := 1, fusedTrackIndex := - 1, isMoveable := 0, isStationary := 1,
              stationaryProbability := 1, isStatic := 1\<rparr>)
          (m_tracks trackedPipeline))
   = [(hd (m_tracks trackedPipeline))\<lparr>movingVotes := - 1\<rparr>]"
  by (simp add: trackedPipeline_tracks associateDetection_def default_EnhancedDetection_def
      validMask_def DetectionFlag_Valid_def DetectionFlag_SuperResolution_def Let_def
      detectionPositionVcs_def exampleCalibration_def detectionAngleRad_def trackBox_def
      default_ProcessingSettings_def vec_add_def vec_scale_def vec_sub_def contains_def
      default_VehicleMotionState_def rangeRateVarOf_def FLT_MAX_def voteTrack_def utility_clamp_def)

lemma corner_frame_tracks:
  "map_option (\<lambda>r. m_tracks (snd (snd r)))
     (processCornerDetections rng solve FrontLeft 1000 exampleCornerFrame emptyDetections trackedPipeline)
   = Some [(hd (m_tracks trackedPipeline))\<lparr>movingVotes := - 1\<rparr>]"
proof -
  define st1 where "st1 = snd (updateSensorStatus FrontLeft 1000 trackedPipeline)"
  have st1: "m_tracks st1 = m_tracks trackedPipeline" "m_settings st1 = default_ProcessingSettings"
    "m_motionState st1 = default_VehicleMotionState" "m_hasExternalMotionState st1"
    "m_tracksTimestamp_us st1 = 900"
    by (simp_all add: st1_def updateSensorStatus_def Let_def trackedPipeline_fields)
  define out2 where "out2 = classifyDetections st1 exampleParameters FrontLeft
      (mapCornerDetections exampleCornerFrame emptyDetections)"
  define resized where "resized = resize_detections kCornerReturnCount []"
  have r0: "resized ! 0 = default_EnhancedDetection"
    by (simp add: resized_def resize_detections_def kCornerReturnCount_def)
  have idx: "[0..<kCornerReturnCount] = 0 # [Suc 0..<kCornerReturnCount]"
    by (simp add: kCornerReturnCount_def upt_conv_Cons)
  have dets: "detections out2 =
      classifyDetection default_ProcessingSettings default_VehicleMotionState exampleCalibration
        (mapReturn exampleReturns 0 default_EnhancedDetection)
      # map (\<lambda>i. classifyDetection default_ProcessingSettings default_VehicleMotionState exampleCalibration
                  (mapReturn exampleReturns i (resized ! i))) [Suc 0..<kCornerReturnCount]"
    unfolding out2_def classifyDetections_def mapCornerDetections_def Let_def
    by (subst idx) (simp add: st1 exampleParameters_def exampleCornerFrame_def emptyDetections_def
        resized_def [symmetric] r0 comp_def)
  define a where "a = associateDetections st1 exampleParameters FrontLeft
      (observationTimeOf 1000 (cornerHardwareDelay_s exampleParameters)) out2"
  have tr: "m_tracks (snd a) = [(hd (m_tracks trackedPipeline))\<lparr>movingVotes := - 1\<rparr>]"
    unfolding a_def associateDetections_def Let_def
    by (simp add: st1 dets classify_first associateLoop_skip exampleFrame_rest_flags associate_first
        exampleParameters_def trackedPipeline_tracks [THEN arg_cong, of "\<lambda>xs. xs = []"])
  have ext: "m_hasExternalMotionState (snd a)"
    by (simp add: a_def associateDetections_def Let_def st1)
  have "processCornerDetections rng solve FrontLeft 1000 exampleCornerFrame emptyDetections trackedPipeline
      = Some ((if fst (updateSensorStatus FrontLeft 1000 trackedPipeline)
               then oe_valid (m_lastOdometry (snd a)) else False), fst a, snd a)"
    using ext
    by (simp add: processCornerDetections_def trackedPipeline_fields Let_def feedOdometry_def
        a_def out2_def st1_def exampleCornerFrame_def zeroHeader_def)
  then show ?thesis
    by (simp add: tr)
qed


text \<open>
  Claim C2, as stated, fails: a detection frame that associates a detection with a track
  whose moveable flag is clear changes that track's vote accumulator. After
  \<open>exampleTrackFrame\<close> the one cached track has 0 votes; after \<open>exampleCornerFrame\<close>,
  whose first return lies in the track's box and is classified stationary, it has \<open>-1\<close>.
\<close>

theorem detection_frame_changes_votes:
  "map movingVotes (m_tracks trackedPipeline) = [0] \<and>
   map_option (\<lambda>r. map movingVotes (m_tracks (snd (snd r))))
     (processCornerDetections cyclingDraws qrSolveExact FrontLeft 1000
        exampleCornerFrame emptyDetections trackedPipeline) = Some [- 1]"
proof -
  obtain r where r: "processCornerDetections cyclingDraws qrSolveExact FrontLeft 1000
        exampleCornerFrame emptyDetections trackedPipeline = Some r"
    and tr: "m_tracks (snd (snd r)) = [(hd (m_tracks trackedPipeline))\<lparr>movingVotes := - 1\<rparr>]"
    using corner_frame_tracks [of cyclingDraws qrSolveExact] by (auto simp: map_option_eq_Some)
  show ?thesis
    by (simp add: r tr trackedPipeline_tracks)
qed


lemma corner_frame:
  assumes "processCornerDetections rng solve sensor t input output st = Some (ok, output', st')"
  shows "sameExceptVotes (m_tracks st) (m_tracks st') \<and> m_tracksTimestamp_us st' = m_tracksTimestamp_us st"
proof (cases "m_parameters st")
  case None
  with assms show ?thesis
    by (simp add: processCornerDetections_def sameExceptVotes_def)
next
  case (Some parameters)
  define st1 where "st1 = snd (updateSensorStatus sensor (hdr_timestamp_us (rc_header input)) st)"
  define out2 where "out2 = classifyDetections st1 parameters sensor (mapCornerDetections input output)"
  define a where "a = associateDetections st1 parameters sensor
      (observationTimeOf t (cornerHardwareDelay_s parameters)) out2"
  from assms Some have "feedOdometry rng solve (radarCalibrations parameters sensor) (fst a) (snd a) = Some st'"
    by (auto simp: processCornerDetections_def Let_def st1_def out2_def a_def split: option.splits)
  then have "m_tracks st' = m_tracks (snd a)" "m_tracksTimestamp_us st' = m_tracksTimestamp_us (snd a)"
    using feedOdometry_tracks by blast+
  moreover have "sameExceptVotes (m_tracks st1) (m_tracks (snd a))"
    "m_tracksTimestamp_us (snd a) = m_tracksTimestamp_us st1"
    unfolding a_def by (rule associateDetections_frame)+
  ultimately show ?thesis
    by (simp add: st1_def updateSensorStatus_tracks)
qed

lemma front_frame:
  assumes "processFrontDetections rng solve t input outputShort outputLong st
             = Some (ok, short', long', st')"
  shows "sameExceptVotes (m_tracks st) (m_tracks st') \<and> m_tracksTimestamp_us st' = m_tracksTimestamp_us st"
proof (cases "m_parameters st")
  case None
  with assms show ?thesis
    by (simp add: processFrontDetections_def sameExceptVotes_def)
next
  case (Some parameters)
  define st1 where "st1 = snd (updateSensorStatus FrontLong (hdr_timestamp_us (rf_header input))
      (snd (updateSensorStatus FrontShort (hdr_timestamp_us (rf_header input)) st)))"
  define m where "m = mapFrontDetections input outputShort outputLong"
  define obs where "obs = observationTimeOf t (frontCenterHardwareDelay_s parameters)"
  define aS where "aS = associateDetections st1 parameters FrontShort obs
      (classifyDetections st1 parameters FrontShort (fst m))"
  define aL where "aL = associateDetections (snd aS) parameters FrontLong obs
      (classifyDetections (snd aS) parameters FrontLong (snd m))"
  from assms Some have "feedOdometry rng solve (radarCalibrations parameters FrontShort) (fst aS) (snd aL) = Some st'"
    by (auto simp: processFrontDetections_def Let_def st1_def m_def obs_def aS_def aL_def
        split: option.splits)
  then have "m_tracks st' = m_tracks (snd aL)" "m_tracksTimestamp_us st' = m_tracksTimestamp_us (snd aL)"
    using feedOdometry_tracks by blast+
  moreover have "sameExceptVotes (m_tracks (snd aS)) (m_tracks (snd aL))"
    "m_tracksTimestamp_us (snd aL) = m_tracksTimestamp_us (snd aS)"
    unfolding aL_def by (rule associateDetections_frame)+
  moreover have "sameExceptVotes (m_tracks st1) (m_tracks (snd aS))"
    "m_tracksTimestamp_us (snd aS) = m_tracksTimestamp_us st1"
    unfolding aS_def by (rule associateDetections_frame)+
  ultimately show ?thesis
    using sameExceptVotes_trans by (simp add: st1_def updateSensorStatus_tracks)
qed


subsection \<open>The vote rule\<close>

lemma sint_index: "k < 128 \<Longrightarrow> sint (word_of_nat k :: 8 word) = int k"
proof -
  assume k: "k < 128"
  have "signed_take_bit 7 (int k) = int k"
    using k by (intro signed_take_bit_int_eq_self) simp_all
  then show ?thesis by (simp add: signed_of_nat)
qed

lemma voteTrack_voted: "snd (voteTrack det track) = votedTrack (det\<lparr>isMoveable := a, isStatic := b, fusedTrackIndex := c\<rparr>) track"
  by (simp add: voteTrack_def votedTrack_def voteOf_def utility_clamp_def Let_def min_def max_def)

lemma associateDetection_length:
  "length (snd (associateDetection settings motion calibration boxes det tracks)) = length tracks"
  by (simp add: associateDetection_def Let_def)

lemma associateDetection_vote:
  assumes "fusedTrackIndex det = - 1" "length boxes = length tracks" "length tracks \<le> 128"
  shows "snd (associateDetection settings motion calibration boxes det tracks)
           = applyVote (fst (associateDetection settings motion calibration boxes det tracks)) tracks"
proof (cases "flags det AND validMask = 0")
  case True
  then show ?thesis using assms by (simp add: associateDetection_def applyVote_def)
next
  case False
  define k where "k = snd (bestBox (rangeRateSigma (association settings)) motion (rangeRateVarOf calibration)
                      det (detectionPositionVcs det calibration) (- cos (detectionAngleRad det calibration))
                      (- sin (detectionAngleRad det calibration)) 0 (zip boxes tracks)
                      (FLT_MAX, length boxes))"
  show ?thesis
  proof (cases "k < length boxes")
    case True
    then have "k < 128" using assms by simp
    then have idx: "sint (word_of_nat k :: 8 word) = int k" by (rule sint_index)
    have klt: "k < length tracks" using True assms by simp
    have r: "associateDetection settings motion calibration boxes det tracks
        = (det\<lparr>isMoveable := fst (voteTrack det (tracks ! k)),
               isStatic := (if isStationary det \<noteq> 0 \<and> fst (voteTrack det (tracks ! k)) = 0 then 1 else 0),
               fusedTrackIndex := int k\<rparr>,
           tracks[k := snd (voteTrack det (tracks ! k))])"
      using False True
      by (simp add: associateDetection_def Let_def k_def [symmetric] idx)
    show ?thesis
      unfolding r using klt
      by (simp add: applyVote_def voteTrack_voted [symmetric])
  next
    case nope: False
    have r: "associateDetection settings motion calibration boxes det tracks = (det, tracks)"
      using False nope by (simp add: associateDetection_def Let_def k_def [symmetric])
    show ?thesis
      unfolding r using assms(1) by (simp add: applyVote_def)
  qed
qed

lemma associateLoop_vote:
  assumes "list_all (\<lambda>d. fusedTrackIndex d = - 1) dets" "length boxes = length tracks"
    "length tracks \<le> 128"
  shows "snd (associateLoop settings motion calibration boxes dets tracks)
           = applyVotes (fst (associateLoop settings motion calibration boxes dets tracks)) tracks"
  using assms
proof (induction dets arbitrary: tracks)
  case Nil
  show ?case by (simp add: applyVotes_def)
next
  case (Cons det rest)
  define r where "r = associateDetection settings motion calibration boxes det tracks"
  have len: "length (snd r) = length tracks"
    by (simp add: r_def associateDetection_length)
  have step: "snd r = applyVote (fst r) tracks"
    unfolding r_def using Cons.prems by (intro associateDetection_vote) simp_all
  have rest: "snd (associateLoop settings motion calibration boxes rest (snd r))
           = applyVotes (fst (associateLoop settings motion calibration boxes rest (snd r))) (snd r)"
    using Cons.prems len by (intro Cons.IH) simp_all
  show ?case
    by (simp add: Let_def r_def [symmetric] rest applyVotes_def step [symmetric])
qed

lemma applyVotes_empty: "applyVotes dets [] = []"
  by (induction dets) (simp_all add: applyVotes_def applyVote_def)

lemma classifyDetections_index:
  "list_all (\<lambda>d. fusedTrackIndex d = - 1) (detections (classifyDetections st parameters sensor dets))"
  by (simp add: classifyDetections_def list_all_iff classifyDetection_def Let_def)

lemma associateDetections_vote:
  assumes "length (m_tracks st) \<le> 128"
  shows "m_tracks (snd (associateDetections st parameters sensor t (classifyDetections st0 parameters0 sensor0 dets)))
      = applyVotes (detections (fst (associateDetections st parameters sensor t
            (classifyDetections st0 parameters0 sensor0 dets)))) (m_tracks st)"
proof (cases "m_tracks st = []")
  case True
  then show ?thesis by (simp add: associateDetections_def applyVotes_empty)
next
  case False
  then show ?thesis
    using assms
    by (simp add: associateDetections_def Let_def associateLoop_vote classifyDetections_index)
qed

lemma associateDetections_length:
  "length (m_tracks (snd (associateDetections st parameters sensor t dets))) = length (m_tracks st)"
  using associateDetections_frame(1) [of st parameters sensor t dets]
  by (auto simp: sameExceptVotes_def dest: arg_cong [where f = length])

lemma corner_votes:
  assumes "processCornerDetections rng solve sensor t input output st = Some (ok, output', st')"
    "m_parameters st \<noteq> None" "length (m_tracks st) \<le> 128"
  shows "m_tracks st' = applyVotes (detections output') (m_tracks st)"
proof -
  obtain parameters where Some: "m_parameters st = Some parameters"
    using assms(2) by auto
  define st1 where "st1 = snd (updateSensorStatus sensor (hdr_timestamp_us (rc_header input)) st)"
  define out2 where "out2 = classifyDetections st1 parameters sensor (mapCornerDetections input output)"
  define a where "a = associateDetections st1 parameters sensor
      (observationTimeOf t (cornerHardwareDelay_s parameters)) out2"
  from assms Some have fed: "feedOdometry rng solve (radarCalibrations parameters sensor) (fst a) (snd a) = Some st'"
    and out: "output' = fst a"
    by (auto simp: processCornerDetections_def Let_def st1_def out2_def a_def split: option.splits)
  have "m_tracks st' = m_tracks (snd a)"
    using fed feedOdometry_tracks by blast
  moreover have "m_tracks (snd a) = applyVotes (detections (fst a)) (m_tracks st1)"
    unfolding a_def out2_def
    using assms(3) by (intro associateDetections_vote) (simp add: st1_def updateSensorStatus_tracks)
  ultimately show ?thesis
    by (simp add: out st1_def updateSensorStatus_tracks)
qed

lemma front_votes:
  assumes "processFrontDetections rng solve t input outputShort outputLong st
             = Some (ok, short', long', st')"
    "m_parameters st \<noteq> None" "length (m_tracks st) \<le> 128"
  shows "m_tracks st' = applyVotes (detections long') (applyVotes (detections short') (m_tracks st))"
proof -
  obtain parameters where Some: "m_parameters st = Some parameters"
    using assms(2) by auto
  define st1 where "st1 = snd (updateSensorStatus FrontLong (hdr_timestamp_us (rf_header input))
      (snd (updateSensorStatus FrontShort (hdr_timestamp_us (rf_header input)) st)))"
  define m where "m = mapFrontDetections input outputShort outputLong"
  define obs where "obs = observationTimeOf t (frontCenterHardwareDelay_s parameters)"
  define aS where "aS = associateDetections st1 parameters FrontShort obs
      (classifyDetections st1 parameters FrontShort (fst m))"
  define aL where "aL = associateDetections (snd aS) parameters FrontLong obs
      (classifyDetections (snd aS) parameters FrontLong (snd m))"
  from assms Some have fed: "feedOdometry rng solve (radarCalibrations parameters FrontShort) (fst aS) (snd aL) = Some st'"
    and out: "short' = fst aS" "long' = fst aL"
    by (auto simp: processFrontDetections_def Let_def st1_def m_def obs_def aS_def aL_def
        split: option.splits)
  have t1: "m_tracks st1 = m_tracks st"
    by (simp add: st1_def updateSensorStatus_tracks)
  have "m_tracks st' = m_tracks (snd aL)"
    using fed feedOdometry_tracks by blast
  moreover have s: "m_tracks (snd aS) = applyVotes (detections (fst aS)) (m_tracks st1)"
    unfolding aS_def using assms(3) by (intro associateDetections_vote) (simp add: t1)
  moreover have "length (m_tracks (snd aS)) \<le> 128"
    unfolding aS_def using assms(3) by (simp add: associateDetections_length t1)
  then have "m_tracks (snd aL) = applyVotes (detections (fst aL)) (m_tracks (snd aS))"
    unfolding aL_def by (intro associateDetections_vote)
  ultimately show ?thesis
    by (simp add: out t1)
qed

lemma applyVote_moveable:
  "list_all ts_isMoveable tracks \<Longrightarrow> applyVote det tracks = tracks"
  by (simp add: applyVote_def votedTrack_def list_all_length)

lemma applyVotes_moveable:
  "list_all ts_isMoveable tracks \<Longrightarrow> applyVotes dets tracks = tracks"
  by (induction dets) (simp_all add: applyVotes_def applyVote_moveable)

lemma validTrackIndices_length: "length (validTrackIndices input) \<le> 96"
proof -
  have "length (validTrackIndices input) \<le> length [0..<kTrackCount]"
    unfolding validTrackIndices_def by (rule length_filter_le)
  then show ?thesis by (simp add: kTrackCount_def)
qed

lemma validTrackIndices_moveable: "validTrackIndices moveableTrackFrame = [0]"
  by code_simp

lemma moveablePipeline_tracks:
  "m_tracks moveablePipeline =
     [\<lparr>position = (1, 1), velocity = (0, 0), acceleration = (0, 0), ts_length = 4, ts_width = 2,
       ts_height = 0, heading = 0, headingRate = 0, ts_isStationary = False, ts_isMoveable = True,
       movingVotes = 0\<rparr>]"
proof -
  have "m_tracks moveablePipeline = [trackStateOf (enhancedTrackOf moveableTrackFrame 0)]"
    by (simp add: moveablePipeline_def processTrackFusion_def validTrackIndices_moveable Let_def)
  then show ?thesis
    by (simp add: trackStateOf_def enhancedTrackOf_def moveableTrackFrame_def exampleTrackFrame_def)
qed

lemma moveablePipeline_fields:
  "m_parameters moveablePipeline = Some exampleParameters"
  "m_hasExternalMotionState moveablePipeline"
  "m_motionState moveablePipeline = default_VehicleMotionState"
  "m_settings moveablePipeline = default_ProcessingSettings"
  "m_tracksTimestamp_us moveablePipeline = 900"
  by (simp_all add: moveablePipeline_def processTrackFusion_def Let_def updateVehicleState_def
      initialize_def freshPipeline_def RadarProcessingPipeline_new_def)

lemma associate_first_moveable:
  "fusedTrackIndex (fst (associateDetection default_ProcessingSettings default_VehicleMotionState exampleCalibration
          (map (trackBox default_ProcessingSettings dt) (m_tracks moveablePipeline))
          (default_EnhancedDetection
             \<lparr>range_m := 10, longitudinalOffset_m := 1, lateralOffset_m := 1, motionStatus := 0,
              flags := 1, fusedTrackIndex := - 1, isMoveable := 0, isStationary := 1,
              stationaryProbability := 1, isStatic := 1\<rparr>)
          (m_tracks moveablePipeline))) = 0"
  by (simp add: moveablePipeline_tracks associateDetection_def default_EnhancedDetection_def
      validMask_def DetectionFlag_Valid_def DetectionFlag_SuperResolution_def Let_def
      detectionPositionVcs_def exampleCalibration_def detectionAngleRad_def trackBox_def
      default_ProcessingSettings_def vec_add_def vec_scale_def vec_sub_def contains_def
      default_VehicleMotionState_def rangeRateVarOf_def FLT_MAX_def voteTrack_def utility_clamp_def)

lemma corner_frame_moveable:
  "map_option (\<lambda>r. map fusedTrackIndex (take 1 (detections (fst (snd r)))))
     (processCornerDetections rng solve FrontLeft 1000 exampleCornerFrame emptyDetections moveablePipeline)
   = Some [0]"
proof -
  define st1 where "st1 = snd (updateSensorStatus FrontLeft 1000 moveablePipeline)"
  have st1: "m_tracks st1 = m_tracks moveablePipeline" "m_settings st1 = default_ProcessingSettings"
    "m_motionState st1 = default_VehicleMotionState" "m_hasExternalMotionState st1"
    "m_tracksTimestamp_us st1 = 900"
    by (simp_all add: st1_def updateSensorStatus_def Let_def moveablePipeline_fields)
  define out2 where "out2 = classifyDetections st1 exampleParameters FrontLeft
      (mapCornerDetections exampleCornerFrame emptyDetections)"
  define resized where "resized = resize_detections kCornerReturnCount []"
  have r0: "resized ! 0 = default_EnhancedDetection"
    by (simp add: resized_def resize_detections_def kCornerReturnCount_def)
  have idx: "[0..<kCornerReturnCount] = 0 # [Suc 0..<kCornerReturnCount]"
    by (simp add: kCornerReturnCount_def upt_conv_Cons)
  have dets: "detections out2 =
      classifyDetection default_ProcessingSettings default_VehicleMotionState exampleCalibration
        (mapReturn exampleReturns 0 default_EnhancedDetection)
      # map (\<lambda>i. classifyDetection default_ProcessingSettings default_VehicleMotionState exampleCalibration
                  (mapReturn exampleReturns i (resized ! i))) [Suc 0..<kCornerReturnCount]"
    unfolding out2_def classifyDetections_def mapCornerDetections_def Let_def
    by (subst idx) (simp add: st1 exampleParameters_def exampleCornerFrame_def emptyDetections_def
        resized_def [symmetric] r0 comp_def)
  define a where "a = associateDetections st1 exampleParameters FrontLeft
      (observationTimeOf 1000 (cornerHardwareDelay_s exampleParameters)) out2"
  have tr: "map fusedTrackIndex (take 1 (detections (fst a))) = [0]"
    unfolding a_def associateDetections_def Let_def
    by (simp add: st1 dets classify_first associate_first_moveable Let_def
        exampleParameters_def moveablePipeline_tracks [THEN arg_cong, of "\<lambda>xs. xs = []"])
  have ext: "m_hasExternalMotionState (snd a)"
    by (simp add: a_def associateDetections_def Let_def st1)
  have "processCornerDetections rng solve FrontLeft 1000 exampleCornerFrame emptyDetections moveablePipeline
      = Some ((if fst (updateSensorStatus FrontLeft 1000 moveablePipeline)
               then oe_valid (m_lastOdometry (snd a)) else False), fst a, snd a)"
    using ext
    by (simp add: processCornerDetections_def moveablePipeline_fields Let_def feedOdometry_def
        a_def out2_def st1_def exampleCornerFrame_def zeroHeader_def)
  then show ?thesis
    using tr by simp
qed

lemma corner_uninitialized:
  "processCornerDetections rng solve sensor t input output st = Some (ok, output', st') \<Longrightarrow>
     m_parameters st = None \<Longrightarrow> m_tracks st' = m_tracks st"
  by (simp add: processCornerDetections_def)

lemma front_uninitialized:
  "processFrontDetections rng solve t input outputShort outputLong st = Some (ok, short', long', st') \<Longrightarrow>
     m_parameters st = None \<Longrightarrow> m_tracks st' = m_tracks st"
  by (simp add: processFrontDetections_def)


text \<open>
  Claim C2, amended. A detection frame (corner or front) that returns leaves the cached
  track snapshot as it was except for the vote accumulators \<open>movingVotes\<close>: the number of
  tracks, every other field of every track and the snapshot's timestamp are the same
  before and after, and on a pipeline that was not initialised the votes are the same
  too. On an initialised pipeline holding at most 128 tracks the votes change by the vote
  rule and by nothing else: the track list after the frame is the list before it with the
  returned detections applied in order (for a front frame the short-range detections,
  then the long-range ones), where a detection whose \<open>fusedTrackIndex\<close> is an index of
  the list adds its vote (minus its stationary probability when it is stationary, one
  minus that probability otherwise) to the track at that index, the sum kept within
  \<open>[-100, 100]\<close>, when that track's moveable flag is clear, and changes nothing when the
  flag is set. A track frame replaces the snapshot wholesale: the new track list (at most
  96 tracks) and timestamp are determined by the frame alone, and every vote accumulator
  starts at 0.
\<close>

theorem detection_frame_keeps_tracks_except_votes:
  "(processCornerDetections rng solve sensor t cornerInput output st = Some (ok, output', st') \<longrightarrow>
      sameExceptVotes (m_tracks st) (m_tracks st') \<and>
      m_tracksTimestamp_us st' = m_tracksTimestamp_us st \<and>
      (m_parameters st = None \<longrightarrow> m_tracks st' = m_tracks st) \<and>
      (m_parameters st \<noteq> None \<and> length (m_tracks st) \<le> 128 \<longrightarrow>
         m_tracks st' = applyVotes (detections output') (m_tracks st))) \<and>
   (processFrontDetections rng solve t frontInput outputShort outputLong st
        = Some (ok2, short', long', st'') \<longrightarrow>
      sameExceptVotes (m_tracks st) (m_tracks st'') \<and>
      m_tracksTimestamp_us st'' = m_tracksTimestamp_us st \<and>
      (m_parameters st = None \<longrightarrow> m_tracks st'' = m_tracks st) \<and>
      (m_parameters st \<noteq> None \<and> length (m_tracks st) \<le> 128 \<longrightarrow>
         m_tracks st'' = applyVotes (detections long') (applyVotes (detections short') (m_tracks st)))) \<and>
   m_tracks (snd (processTrackFusion t2 trackInput trackOutput st))
     = map (\<lambda>i. trackStateOf (enhancedTrackOf trackInput i)) (validTrackIndices trackInput) \<and>
   length (m_tracks (snd (processTrackFusion t2 trackInput trackOutput st))) \<le> 96 \<and>
   list_all (\<lambda>track. movingVotes track = 0) (m_tracks (snd (processTrackFusion t2 trackInput trackOutput st))) \<and>
   m_tracksTimestamp_us (snd (processTrackFusion t2 trackInput trackOutput st)) = t2"
proof -
  have tracks: "m_tracks (snd (processTrackFusion t2 trackInput trackOutput st))
      = map (\<lambda>i. trackStateOf (enhancedTrackOf trackInput i)) (validTrackIndices trackInput)"
    by (simp add: processTrackFusion_def Let_def comp_def)
  have count: "length (m_tracks (snd (processTrackFusion t2 trackInput trackOutput st))) \<le> 96"
    by (simp add: tracks validTrackIndices_length)
  have votes: "list_all (\<lambda>track. movingVotes track = 0)
      (m_tracks (snd (processTrackFusion t2 trackInput trackOutput st)))"
    by (simp add: tracks list_all_iff trackStateOf_def)
  have stamp: "m_tracksTimestamp_us (snd (processTrackFusion t2 trackInput trackOutput st)) = t2"
    by (simp add: processTrackFusion_def Let_def)
  have corner: "processCornerDetections rng solve sensor t cornerInput output st = Some (ok, output', st') \<longrightarrow>
      sameExceptVotes (m_tracks st) (m_tracks st') \<and>
      m_tracksTimestamp_us st' = m_tracksTimestamp_us st \<and>
      (m_parameters st = None \<longrightarrow> m_tracks st' = m_tracks st) \<and>
      (m_parameters st \<noteq> None \<and> length (m_tracks st) \<le> 128 \<longrightarrow>
         m_tracks st' = applyVotes (detections output') (m_tracks st))"
  proof (intro impI conjI)
    assume r: "processCornerDetections rng solve sensor t cornerInput output st = Some (ok, output', st')"
    show "sameExceptVotes (m_tracks st) (m_tracks st')"
      "m_tracksTimestamp_us st' = m_tracksTimestamp_us st"
      using corner_frame [OF r] by simp_all
    show "m_tracks st' = m_tracks st" if "m_parameters st = None"
      using r that by (rule corner_uninitialized)
    show "m_tracks st' = applyVotes (detections output') (m_tracks st)"
      if "m_parameters st \<noteq> None \<and> length (m_tracks st) \<le> 128"
      using that by (intro corner_votes [OF r]) simp_all
  qed
  have front: "processFrontDetections rng solve t frontInput outputShort outputLong st
        = Some (ok2, short', long', st'') \<longrightarrow>
      sameExceptVotes (m_tracks st) (m_tracks st'') \<and>
      m_tracksTimestamp_us st'' = m_tracksTimestamp_us st \<and>
      (m_parameters st = None \<longrightarrow> m_tracks st'' = m_tracks st) \<and>
      (m_parameters st \<noteq> None \<and> length (m_tracks st) \<le> 128 \<longrightarrow>
         m_tracks st'' = applyVotes (detections long') (applyVotes (detections short') (m_tracks st)))"
  proof (intro impI conjI)
    assume r: "processFrontDetections rng solve t frontInput outputShort outputLong st
        = Some (ok2, short', long', st'')"
    show "sameExceptVotes (m_tracks st) (m_tracks st'')"
      "m_tracksTimestamp_us st'' = m_tracksTimestamp_us st"
      using front_frame [OF r] by simp_all
    show "m_tracks st'' = m_tracks st" if "m_parameters st = None"
      using r that by (rule front_uninitialized)
    show "m_tracks st'' = applyVotes (detections long') (applyVotes (detections short') (m_tracks st))"
      if "m_parameters st \<noteq> None \<and> length (m_tracks st) \<le> 128"
      using that by (intro front_votes [OF r]) simp_all
  qed
  show ?thesis
    by (intro conjI corner front tracks count votes stamp)
qed

text \<open>
  Two corner frames with the same return inside the box of the one cached track. When the
  track's moveable flag is clear its votes go from 0 to \<open>-1\<close>; when the flag is set the
  detection is associated with the track (index 0) and the track is left as it was.
\<close>

theorem detection_frame_keeps_tracks_except_votes_witness:
  "(\<exists>ok output' st'.
      processCornerDetections cyclingDraws qrSolveExact FrontLeft 1000 exampleCornerFrame
        emptyDetections trackedPipeline = Some (ok, output', st') \<and>
      sameExceptVotes (m_tracks trackedPipeline) (m_tracks st') \<and>
      m_tracksTimestamp_us st' = 900 \<and>
      m_tracks st' = applyVotes (detections output') (m_tracks trackedPipeline) \<and>
      map ts_isMoveable (m_tracks trackedPipeline) = [False] \<and>
      map movingVotes (m_tracks trackedPipeline) = [0] \<and>
      map movingVotes (m_tracks st') = [- 1]) \<and>
   (\<exists>ok output' st'.
      processCornerDetections cyclingDraws qrSolveExact FrontLeft 1000 exampleCornerFrame
        emptyDetections moveablePipeline = Some (ok, output', st') \<and>
      map fusedTrackIndex (take 1 (detections output')) = [0] \<and>
      map ts_isMoveable (m_tracks moveablePipeline) = [True] \<and>
      m_tracks st' = applyVotes (detections output') (m_tracks moveablePipeline) \<and>
      m_tracks st' = m_tracks moveablePipeline)"
proof (intro conjI)
  obtain r where r: "processCornerDetections cyclingDraws qrSolveExact FrontLeft 1000
        exampleCornerFrame emptyDetections trackedPipeline = Some r"
    and tr: "m_tracks (snd (snd r)) = [(hd (m_tracks trackedPipeline))\<lparr>movingVotes := - 1\<rparr>]"
    using corner_frame_tracks [of cyclingDraws qrSolveExact] by (auto simp: map_option_eq_Some)
  obtain ok output' st' where parts: "r = (ok, output', st')"
    by (cases r) auto
  note frame = detection_frame_keeps_tracks_except_votes
      [of cyclingDraws qrSolveExact FrontLeft 1000 exampleCornerFrame emptyDetections
          trackedPipeline ok output' st', THEN conjunct1, THEN mp, OF r [unfolded parts]]
  have small: "m_parameters trackedPipeline \<noteq> None \<and> length (m_tracks trackedPipeline) \<le> 128"
    by (simp add: trackedPipeline_fields trackedPipeline_tracks)
  have "sameExceptVotes (m_tracks trackedPipeline) (m_tracks st') \<and>
      m_tracksTimestamp_us st' = m_tracksTimestamp_us trackedPipeline \<and>
      m_tracks st' = applyVotes (detections output') (m_tracks trackedPipeline)"
    using frame small by blast
  then show "\<exists>ok output' st'.
      processCornerDetections cyclingDraws qrSolveExact FrontLeft 1000 exampleCornerFrame
        emptyDetections trackedPipeline = Some (ok, output', st') \<and>
      sameExceptVotes (m_tracks trackedPipeline) (m_tracks st') \<and>
      m_tracksTimestamp_us st' = 900 \<and>
      m_tracks st' = applyVotes (detections output') (m_tracks trackedPipeline) \<and>
      map ts_isMoveable (m_tracks trackedPipeline) = [False] \<and>
      map movingVotes (m_tracks trackedPipeline) = [0] \<and>
      map movingVotes (m_tracks st') = [- 1]"
    using r parts tr
    by (simp add: trackedPipeline_fields trackedPipeline_tracks sameExceptVotes_def forgetVotes_def)
next
  obtain r where r: "processCornerDetections cyclingDraws qrSolveExact FrontLeft 1000
        exampleCornerFrame emptyDetections moveablePipeline = Some r"
    and idx: "map fusedTrackIndex (take 1 (detections (fst (snd r)))) = [0]"
    using corner_frame_moveable [of cyclingDraws qrSolveExact] by (auto simp: map_option_eq_Some)
  obtain ok output' st' where parts: "r = (ok, output', st')"
    by (cases r) auto
  note frame = detection_frame_keeps_tracks_except_votes
      [of cyclingDraws qrSolveExact FrontLeft 1000 exampleCornerFrame emptyDetections
          moveablePipeline ok output' st', THEN conjunct1, THEN mp, OF r [unfolded parts]]
  have small: "m_parameters moveablePipeline \<noteq> None \<and> length (m_tracks moveablePipeline) \<le> 128"
    by (simp add: moveablePipeline_fields moveablePipeline_tracks)
  have voted: "m_tracks st' = applyVotes (detections output') (m_tracks moveablePipeline)"
    using frame small by blast
  have "applyVotes (detections output') (m_tracks moveablePipeline) = m_tracks moveablePipeline"
    by (intro applyVotes_moveable) (simp add: moveablePipeline_tracks)
  then show "\<exists>ok output' st'.
      processCornerDetections cyclingDraws qrSolveExact FrontLeft 1000 exampleCornerFrame
        emptyDetections moveablePipeline = Some (ok, output', st') \<and>
      map fusedTrackIndex (take 1 (detections output')) = [0] \<and>
      map ts_isMoveable (m_tracks moveablePipeline) = [True] \<and>
      m_tracks st' = applyVotes (detections output') (m_tracks moveablePipeline) \<and>
      m_tracks st' = m_tracks moveablePipeline"
    using r parts idx voted by (simp add: moveablePipeline_tracks)
qed

section \<open>Properties of the odometry estimator\<close>


lemma drawDistinct_hit: "draws k \<noteq> i \<Longrightarrow> drawDistinct draws i k = Some (draws k, Suc k)"
  by (subst drawDistinct.simps) simp

lemma drawDistinct_skip: "draws k = i \<Longrightarrow> drawDistinct draws i k = drawDistinct draws i (Suc k)"
  by (subst drawDistinct.simps) simp

lemma drawDistinct_returns:
  "draws j \<noteq> i \<Longrightarrow> k \<le> j \<Longrightarrow> \<exists>r. drawDistinct draws i k = Some r"
proof (induction "j - k" arbitrary: k)
  case 0
  then have "k = j" by simp
  with 0 show ?case by (simp add: drawDistinct_hit)
next
  case (Suc d)
  show ?case
  proof (cases "draws k = i")
    case True
    from Suc have "d = j - Suc k" "Suc k \<le> j" by linarith+
    with Suc have "\<exists>r. drawDistinct draws i (Suc k) = Some r" by blast
    with True show ?thesis by (simp add: drawDistinct_skip)
  next
    case False
    then show ?thesis by (simp add: drawDistinct_hit)
  qed
qed

lemma drawDistinct_total: "drawsVary draws \<Longrightarrow> \<exists>r. drawDistinct draws i k = Some r"
  unfolding drawsVary_def using drawDistinct_returns by blast

lemma ransacLoop_total:
  "drawsVary draws \<Longrightarrow> \<exists>r. ransacLoop n draws samples threshold k best = Some r"
proof (induction n arbitrary: k best)
  case 0
  show ?case by (cases best) simp
next
  case (Suc n)
  obtain j k' where d: "drawDistinct draws (draws k) (Suc k) = Some (j, k')"
    using drawDistinct_total [OF Suc.prems] by (metis surj_pair)
  show ?case
    using Suc.IH [OF Suc.prems]
    by (simp add: Let_def d split: option.split prod.split)
qed


lemma oddSamples: "collectSamples exampleCalibration (detections oddDetections) = oddSamples"
  by (simp add: collectSamples_def oddDetections_def sampleOf_def exampleCalibration_def
      default_EnhancedDetection_def validMask_def DetectionFlag_Valid_def
      DetectionFlag_SuperResolution_def oddSamples_def Let_def)

lemma cycling_next:
  "drawDistinct (cyclingDraws 3) (cyclingDraws 3 k) (Suc k) = Some (cyclingDraws 3 (Suc k), Suc (Suc k))"
proof -
  have "cyclingDraws 3 (Suc k) \<noteq> cyclingDraws 3 k"
    unfolding cyclingDraws_def by presburger
  then show ?thesis by (rule drawDistinct_hit)
qed

lemma odd_pairs:
  "solvePair (oddSamples ! 0) (oddSamples ! Suc 0) = Some (5, 2)"
  "solvePair (oddSamples ! Suc 0) (oddSamples ! 2) = Some (7, 2)"
  "solvePair (oddSamples ! 2) (oddSamples ! 0) = None"
  by (simp_all add: solvePair_def oddSamples_def Let_def)

lemma odd_inliers:
  assumes "0 \<le> th" "th < 2"
  shows "countInliers oddSamples 5 2 th = 2" "countInliers oddSamples 7 2 th = 2"
  using assms
  by (simp_all add: countInliers_def isInlier_def predictedRangeRate_def oddSamples_def)

lemma odd_step:
  assumes "0 \<le> th" "th < 2"
  shows "ransacLoop (Suc n) (cyclingDraws 3) oddSamples th k (5, 2, 2)
     = ransacLoop n (cyclingDraws 3) oddSamples th (Suc (Suc k)) (5, 2, 2)"
proof -
  have len: "length oddSamples > 1"
    by (simp add: oddSamples_def)
  consider "k mod 3 = 0" | "k mod 3 = 1" | "k mod 3 = 2"
    by linarith
  then show ?thesis
  proof cases
    case 1
    then have "cyclingDraws 3 k = 0" "cyclingDraws 3 (Suc k) = Suc 0"
      by (simp_all add: cyclingDraws_def mod_Suc)
    then show ?thesis
      using cycling_next [of k] by (simp add: len Let_def odd_pairs odd_inliers [OF assms])
  next
    case 2
    then have "cyclingDraws 3 k = Suc 0" "cyclingDraws 3 (Suc k) = 2"
      by (simp_all add: cyclingDraws_def mod_Suc)
    then show ?thesis
      using cycling_next [of k] by (simp add: len Let_def odd_pairs odd_inliers [OF assms])
  next
    case 3
    then have "cyclingDraws 3 k = 2" "cyclingDraws 3 (Suc k) = 0"
      by (simp_all add: cyclingDraws_def mod_Suc)
    then show ?thesis
      using cycling_next [of k] by (simp add: len Let_def odd_pairs odd_inliers [OF assms])
  qed
qed

lemma odd_loop:
  assumes "0 \<le> th" "th < 2"
  shows "ransacLoop n (cyclingDraws 3) oddSamples th k (5, 2, 2) = Some (5, 2, 2)"
proof (induction n arbitrary: k)
  case 0
  show ?case by simp
next
  case (Suc n)
  show ?case
    unfolding odd_step [OF assms] by (rule Suc.IH)
qed

lemma odd_ransac:
  assumes "0 \<le> th" "th < 2"
  shows "ransacLoop (Suc n) (cyclingDraws 3) oddSamples th 0 (0, 0, 0) = Some (5, 2, 2)"
proof -
  have len: "length oddSamples > 1"
    by (simp add: oddSamples_def)
  have "cyclingDraws 3 0 = 0" "cyclingDraws 3 (Suc 0) = Suc 0"
    by (simp_all add: cyclingDraws_def)
  then show ?thesis
    using cycling_next [of 0]
    by (simp add: len Let_def odd_pairs odd_inliers [OF assms] odd_loop [OF assms])
qed


lemma cycling_vary: "drawsVary (cyclingDraws 3)"
  unfolding drawsVary_def cyclingDraws_def
proof (intro allI)
  fix i k :: nat
  have "k mod 3 \<noteq> i \<or> Suc k mod 3 \<noteq> i"
    by presburger
  then show "\<exists>j\<ge>k. j mod 3 \<noteq> i"
    by (metis le_refl le_SucI)
qed

lemma runRansac_total:
  "drawsVary (rng (length samples)) \<Longrightarrow> \<exists>best. runRansac rng est samples = Some best"
  unfolding runRansac_def by (rule ransacLoop_total)

lemma odd_run:
  "runRansac cyclingDraws odometryDefault oddSamples = Some (5, 2, 2)"
  "runRansac cyclingDraws odometryTwo oddSamples = Some (5, 2, 2)"
proof -
  have len: "length oddSamples = 3" by (simp add: oddSamples_def)
  have iters: "nat (max 1 (maxIterations (est_settings odometryDefault))) = Suc 119"
    "nat (max 1 (maxIterations (est_settings odometryTwo))) = Suc 119"
    by (simp_all add: odometryDefault_def odometryTwo_def RadarOdometryEstimator_new_def
        default_OdometrySettings_def)
  have th: "0 \<le> thresholdOf odometryDefault" "thresholdOf odometryDefault < 2"
    "0 \<le> thresholdOf odometryTwo" "thresholdOf odometryTwo < 2"
    by (simp_all add: thresholdOf_def odometryDefault_def odometryTwo_def
        RadarOdometryEstimator_new_def default_OdometrySettings_def)
  show "runRansac cyclingDraws odometryDefault oddSamples = Some (5, 2, 2)"
    unfolding runRansac_def len iters by (rule odd_ransac) (rule th)+
  show "runRansac cyclingDraws odometryTwo oddSamples = Some (5, 2, 2)"
    unfolding runRansac_def len iters by (rule odd_ransac) (rule th)+
qed

lemma odd_fits:
  "qrSolveExact (fitRows oddSamples) (fitRhs oddSamples) = (6, 2)"
  "filter (isInlier 5 2 (thresholdOf odometryTwo)) oddSamples = take 2 oddSamples"
  "qrSolveExact (fitRows (take 2 oddSamples)) (fitRhs (take 2 oddSamples)) = (5, 2)"
  by (simp_all add: qrSolveExact_def fitRows_def fitRhs_def oddSamples_def Let_def isInlier_def
      predictedRangeRate_def thresholdOf_def odometryTwo_def RadarOdometryEstimator_new_def
      default_OdometrySettings_def)


text \<open>
  Claim C1, as stated, fails in its second half: when the best inlier count is below
  \<open>min_inliers\<close> the estimator does not keep the best pair's velocity; it solves the
  least-squares problem over all samples and reports that solution with
  \<open>valid = false\<close>. For the three detections and the default settings
  (\<open>min_inliers = 6\<close>) the best pair gives \<open>(5, 2)\<close> with 2 inliers, and the reported
  velocity is \<open>(6, 2)\<close>.
\<close>

theorem refit_uses_all_samples:
  "runRansac cyclingDraws odometryDefault
     (collectSamples exampleCalibration (detections oddDetections)) = Some (5, 2, 2) \<and>
   minInliersOf odometryDefault = 6 \<and>
   map_option (\<lambda>r. (fst r, oe_valid (m_lastEstimate (snd r)),
                      oe_vLon_mps (m_lastEstimate (snd r)), oe_vLat_mps (m_lastEstimate (snd r)),
                      oe_inlierCount (m_lastEstimate (snd r))))
     (processDetections cyclingDraws qrSolveExact odometryDefault exampleCalibration oddDetections)
     = Some (False, False, 6, 2, 2)"
proof -
  have m: "minInliersOf odometryDefault = 6"
    by (simp add: minInliersOf_def odometryDefault_def RadarOdometryEstimator_new_def
        default_OdometrySettings_def)
  have len: "\<not> length oddSamples < 2"
    by (simp add: oddSamples_def)
  have "processDetections cyclingDraws qrSolveExact odometryDefault exampleCalibration oddDetections
      = Some (False, odometryDefault\<lparr>m_lastEstimate :=
          refitEstimate qrSolveExact 1234 False 2 oddSamples\<rparr>)"
    by (simp add: processDetections_def oddSamples odd_run len finishEstimate_def m Let_def)
      (simp add: oddDetections_def zeroHeader_def)
  then show ?thesis
    by (simp add: oddSamples odd_run m refitEstimate_def odd_fits Let_def)
qed



text \<open>
  Claim C1, amended. For a batch with at least 2 usable samples (and a random sequence
  that lets the pair selection end), \<open>processDetections\<close> returns, and with the best
  triple of the RANSAC loop and the inliers of its velocity: if the best inlier count is at
  least \<open>min_inliers\<close> (as a 32-bit unsigned value) and at least 2 inliers are collected,
  the estimate is the QR solution over the inliers, \<open>valid = true\<close>, the inlier count is
  their number and the call returns \<open>true\<close>; if fewer than 2 inliers are collected the
  call returns \<open>false\<close> and leaves the estimate alone; if the best inlier count is below
  \<open>min_inliers\<close>, the estimate is the QR solution over all samples, \<open>valid = false\<close>,
  the inlier count is the best count and the call returns \<open>false\<close>.
\<close>

theorem refit_after_ransac:
  assumes "2 \<le> length (collectSamples calibration (detections dets))"
    and "drawsVary (rng (length (collectSamples calibration (detections dets))))"
  shows "\<exists>bestVLon bestVLat bestInliers ok est'.
     runRansac rng est (collectSamples calibration (detections dets))
       = Some (bestVLon, bestVLat, bestInliers) \<and>
     processDetections rng solve est calibration dets = Some (ok, est') \<and>
     (let samples = collectSamples calibration (detections dets);
          inliers = filter (isInlier bestVLon bestVLat (thresholdOf est)) samples;
          e = m_lastEstimate est'
      in (minInliersOf est \<le> bestInliers \<and> 2 \<le> length inliers \<longrightarrow>
            ok \<and> oe_valid e \<and>
            (oe_vLon_mps e, oe_vLat_mps e) = solve (fitRows inliers) (fitRhs inliers) \<and>
            oe_inlierCount e = length inliers \<and>
            oe_timestamp_us e = hdr_timestamp_us (header dets) \<and> oe_yawRate_rps e = 0) \<and>
         (minInliersOf est \<le> bestInliers \<and> length inliers < 2 \<longrightarrow> \<not> ok \<and> est' = est) \<and>
         (bestInliers < minInliersOf est \<longrightarrow>
            \<not> ok \<and> \<not> oe_valid e \<and>
            (oe_vLon_mps e, oe_vLat_mps e) = solve (fitRows samples) (fitRhs samples) \<and>
            oe_inlierCount e = bestInliers \<and>
            oe_timestamp_us e = hdr_timestamp_us (header dets) \<and> oe_yawRate_rps e = 0))"
proof -
  define samples where "samples = collectSamples calibration (detections dets)"
  obtain best where run: "runRansac rng est samples = Some best"
    using runRansac_total assms(2) unfolding samples_def by blast
  obtain bestVLon bestVLat bestInliers where best: "best = (bestVLon, bestVLat, bestInliers)"
    by (cases best) auto
  define r where "r = finishEstimate solve est (hdr_timestamp_us (header dets)) samples
      (thresholdOf est) best"
  have len: "\<not> length samples < 2"
    using assms(1) by (simp add: samples_def)
  have proc: "processDetections rng solve est calibration dets = Some (fst r, snd r)"
    using len run by (simp add: processDetections_def Let_def samples_def [symmetric] r_def)
  define inliers where "inliers = filter (isInlier bestVLon bestVLat (thresholdOf est)) samples"
  have valid: "minInliersOf est \<le> bestInliers \<and> 2 \<le> length inliers \<longrightarrow>
      fst r \<and> oe_valid (m_lastEstimate (snd r)) \<and>
      (oe_vLon_mps (m_lastEstimate (snd r)), oe_vLat_mps (m_lastEstimate (snd r)))
        = solve (fitRows inliers) (fitRhs inliers) \<and>
      oe_inlierCount (m_lastEstimate (snd r)) = length inliers \<and>
      oe_timestamp_us (m_lastEstimate (snd r)) = hdr_timestamp_us (header dets) \<and>
      oe_yawRate_rps (m_lastEstimate (snd r)) = 0"
    by (simp add: r_def finishEstimate_def best Let_def inliers_def [symmetric] refitEstimate_def)
  have few: "minInliersOf est \<le> bestInliers \<and> length inliers < 2 \<longrightarrow> \<not> fst r \<and> snd r = est"
    by (simp add: r_def finishEstimate_def best Let_def inliers_def [symmetric])
  have invalid: "bestInliers < minInliersOf est \<longrightarrow>
      \<not> fst r \<and> \<not> oe_valid (m_lastEstimate (snd r)) \<and>
      (oe_vLon_mps (m_lastEstimate (snd r)), oe_vLat_mps (m_lastEstimate (snd r)))
        = solve (fitRows samples) (fitRhs samples) \<and>
      oe_inlierCount (m_lastEstimate (snd r)) = bestInliers \<and>
      oe_timestamp_us (m_lastEstimate (snd r)) = hdr_timestamp_us (header dets) \<and>
      oe_yawRate_rps (m_lastEstimate (snd r)) = 0"
    using len by (simp add: r_def finishEstimate_def best Let_def refitEstimate_def)
  show ?thesis
    apply (rule exI [of _ bestVLon], rule exI [of _ bestVLat], rule exI [of _ bestInliers])
    apply (rule exI [of _ "fst r"], rule exI [of _ "snd r"])
    using run proc valid few invalid
    by (simp add: best Let_def samples_def [symmetric] inliers_def [symmetric])
qed

text \<open>
  The three detections with \<open>minInliers = 2\<close>: the best pair has 2 inliers, the refit
  over them gives \<open>(5, 2)\<close> and the estimate is valid.
\<close>

theorem refit_after_ransac_witness:
  "2 \<le> length (collectSamples exampleCalibration (detections oddDetections)) \<and>
   drawsVary (cyclingDraws (length (collectSamples exampleCalibration (detections oddDetections)))) \<and>
   minInliersOf odometryTwo = 2 \<and>
   (\<exists>ok est'.
      processDetections cyclingDraws qrSolveExact odometryTwo exampleCalibration oddDetections
        = Some (ok, est') \<and>
      ok \<and> oe_valid (m_lastEstimate est') \<and>
      oe_vLon_mps (m_lastEstimate est') = 5 \<and> oe_vLat_mps (m_lastEstimate est') = 2 \<and>
      oe_inlierCount (m_lastEstimate est') = 2)"
proof -
  have len: "length oddSamples = 3"
    by (simp add: oddSamples_def)
  have two: "2 \<le> length (collectSamples exampleCalibration (detections oddDetections))"
    by (simp add: oddSamples len)
  have vary: "drawsVary (cyclingDraws (length (collectSamples exampleCalibration (detections oddDetections))))"
    using cycling_vary by (simp add: oddSamples len)
  have m: "minInliersOf odometryTwo = 2"
    by (simp add: minInliersOf_def odometryTwo_def RadarOdometryEstimator_new_def
        default_OdometrySettings_def)
  from refit_after_ransac [where rng = cyclingDraws and calibration = exampleCalibration
      and dets = oddDetections and est = odometryTwo and solve = qrSolveExact, OF two vary]
  obtain bestVLon bestVLat bestInliers ok est' where
    run: "runRansac cyclingDraws odometryTwo (collectSamples exampleCalibration (detections oddDetections))
       = Some (bestVLon, bestVLat, bestInliers)"
    and proc: "processDetections cyclingDraws qrSolveExact odometryTwo exampleCalibration oddDetections
       = Some (ok, est')"
    and valid: "minInliersOf odometryTwo \<le> bestInliers \<and>
        2 \<le> length (filter (isInlier bestVLon bestVLat (thresholdOf odometryTwo))
                      (collectSamples exampleCalibration (detections oddDetections))) \<longrightarrow>
        ok \<and> oe_valid (m_lastEstimate est') \<and>
        (oe_vLon_mps (m_lastEstimate est'), oe_vLat_mps (m_lastEstimate est'))
          = qrSolveExact
              (fitRows (filter (isInlier bestVLon bestVLat (thresholdOf odometryTwo))
                 (collectSamples exampleCalibration (detections oddDetections))))
              (fitRhs (filter (isInlier bestVLon bestVLat (thresholdOf odometryTwo))
                 (collectSamples exampleCalibration (detections oddDetections)))) \<and>
        oe_inlierCount (m_lastEstimate est')
          = length (filter (isInlier bestVLon bestVLat (thresholdOf odometryTwo))
                      (collectSamples exampleCalibration (detections oddDetections)))"
    unfolding Let_def by blast
  from run have best: "bestVLon = 5" "bestVLat = 2" "bestInliers = 2"
    by (simp_all add: oddSamples odd_run)
  have "ok \<and> oe_valid (m_lastEstimate est') \<and>
      oe_vLon_mps (m_lastEstimate est') = 5 \<and> oe_vLat_mps (m_lastEstimate est') = 2 \<and>
      oe_inlierCount (m_lastEstimate est') = 2"
    using valid by (simp add: best m oddSamples odd_fits) (simp add: oddSamples_def)
  with two vary m proc show ?thesis
    by blast
qed

subsection \<open>Detection frames return\<close>

text \<open>
  With a random source whose sequences never stay at one value for ever, the estimator
  and both detection methods of the pipeline return.
\<close>

lemma processDetections_returns:
  "(\<forall>n. drawsVary (rng n)) \<Longrightarrow> \<exists>r. processDetections rng solve est calibration dets = Some r"
proof -
  assume "\<forall>n. drawsVary (rng n)"
  then obtain best where
    "runRansac rng est (collectSamples calibration (detections dets)) = Some best"
    using runRansac_total by blast
  then show ?thesis
    by (auto simp: processDetections_def Let_def)
qed

lemma feedOdometry_returns:
  "(\<forall>n. drawsVary (rng n)) \<Longrightarrow> \<exists>st'. feedOdometry rng solve calibration dets st = Some st'"
proof -
  assume "\<forall>n. drawsVary (rng n)"
  then obtain r where "processDetections rng solve (m_odometry st) calibration dets = Some r"
    using processDetections_returns by blast
  then show ?thesis
    by (cases r) (simp add: feedOdometry_def Let_def)
qed

lemma detection_frames_return:
  assumes "\<forall>n. drawsVary (rng n)"
  shows "\<exists>r. processCornerDetections rng solve sensor t cornerInput output st = Some r"
    and "\<exists>r. processFrontDetections rng solve t frontInput outputShort outputLong st = Some r"
proof -
  have fed: "feedOdometry rng solve calibration dets s \<noteq> None" for calibration dets s
    using feedOdometry_returns [OF assms, of solve calibration dets s] by auto
  show "\<exists>r. processCornerDetections rng solve sensor t cornerInput output st = Some r"
  proof (cases "m_parameters st")
    case None
    then show ?thesis by (auto simp: processCornerDetections_def)
  next
    case (Some parameters)
    have "processCornerDetections rng solve sensor t cornerInput output st \<noteq> None"
      by (simp add: processCornerDetections_def Some Let_def fed split: option.split)
    then show ?thesis by blast
  qed
  show "\<exists>r. processFrontDetections rng solve t frontInput outputShort outputLong st = Some r"
  proof (cases "m_parameters st")
    case None
    then show ?thesis by (auto simp: processFrontDetections_def)
  next
    case (Some parameters)
    have "processFrontDetections rng solve t frontInput outputShort outputLong st \<noteq> None"
      by (simp add: processFrontDetections_def Some Let_def fed split: option.split)
    then show ?thesis by blast
  qed
qed


section \<open>Properties of the virtual ring\<close>


lemma rebuildStep_fields:
  "m_segmentCount (rebuildStep d i st) = m_segmentCount st"
  "length (m_segmentDirections (rebuildStep d i st)) = length (m_segmentDirections st)"
  "length (m_segmentStartDist (rebuildStep d i st)) = length (m_segmentStartDist st)"
  "m_segmentEndDist (rebuildStep d i st) = m_segmentEndDist st"
  "m_vehicleContour (rebuildStep d i st) = m_vehicleContour st"
  "m_vehicleCenter (rebuildStep d i st) = m_vehicleCenter st"
  "m_ready (rebuildStep d i st) = m_ready st"
  by (simp_all add: rebuildStep_def Let_def)

lemma fold_rebuildStep_fields:
  "m_segmentCount (fold (rebuildStep d) is st) = m_segmentCount st"
  "length (m_segmentDirections (fold (rebuildStep d) is st)) = length (m_segmentDirections st)"
  "length (m_segmentStartDist (fold (rebuildStep d) is st)) = length (m_segmentStartDist st)"
  "m_segmentEndDist (fold (rebuildStep d) is st) = m_segmentEndDist st"
  "m_vehicleContour (fold (rebuildStep d) is st) = m_vehicleContour st"
  "m_vehicleCenter (fold (rebuildStep d) is st) = m_vehicleCenter st"
  "m_ready (fold (rebuildStep d) is st) = m_ready st"
  by (induction "is" arbitrary: st; simp add: rebuildStep_fields)+

lemma rebuildSegments_fields:
  "m_segmentCount (rebuildSegments st) = m_segmentCount st"
  "length (m_segmentDirections (rebuildSegments st)) = length (m_segmentDirections st)"
  "length (m_segmentStartDist (rebuildSegments st)) = length (m_segmentStartDist st)"
  "m_segmentEndDist (rebuildSegments st) = m_segmentEndDist st"
  "m_vehicleContour (rebuildSegments st) = m_vehicleContour st"
  "m_vehicleCenter (rebuildSegments st) = m_vehicleCenter st"
  "m_ready (rebuildSegments st) = m_ready st"
  by (simp_all add: rebuildSegments_def fold_rebuildStep_fields)

lemma startDistStep_fields:
  "m_segmentCount (startDistStep i st) = m_segmentCount st"
  "m_segmentDirections (startDistStep i st) = m_segmentDirections st"
  "length (m_segmentStartDist (startDistStep i st)) = length (m_segmentStartDist st)"
  "m_segmentEndDist (startDistStep i st) = m_segmentEndDist st"
  "m_vehicleContour (startDistStep i st) = m_vehicleContour st"
  "m_vehicleCenter (startDistStep i st) = m_vehicleCenter st"
  "m_ready (startDistStep i st) = m_ready st"
  by (simp_all add: startDistStep_def Let_def)

lemma fold_startDistStep_fields:
  "m_segmentCount (fold startDistStep is st) = m_segmentCount st"
  "m_segmentDirections (fold startDistStep is st) = m_segmentDirections st"
  "length (m_segmentStartDist (fold startDistStep is st)) = length (m_segmentStartDist st)"
  "m_segmentEndDist (fold startDistStep is st) = m_segmentEndDist st"
  "m_vehicleContour (fold startDistStep is st) = m_vehicleContour st"
  "m_vehicleCenter (fold startDistStep is st) = m_vehicleCenter st"
  "m_ready (fold startDistStep is st) = m_ready st"
  by (induction "is" arbitrary: st; simp add: startDistStep_fields)+

lemma setVehicleContour_fields:
  "m_segmentCount (setVehicleContour contour st) = m_segmentCount st"
  "m_segmentDirections (setVehicleContour contour st) = m_segmentDirections st"
  "length (m_segmentStartDist (setVehicleContour contour st)) = length (m_segmentStartDist st)"
  "m_segmentEndDist (setVehicleContour contour st) = m_segmentEndDist st"
  by (simp_all add: setVehicleContour_def Let_def fold_startDistStep_fields)

lemma setSegmentCount_same:
  "max 3 n = m_segmentCount st \<Longrightarrow> m_segmentDirections st \<noteq> [] \<Longrightarrow>
     setSegmentCount n st = (False, st)"
  by (simp add: setSegmentCount_def)

lemma setSegmentCount_changed:
  assumes "max 3 n \<noteq> m_segmentCount st \<or> m_segmentDirections st = []"
  shows "fst (setSegmentCount n st)"
    and "m_segmentCount (snd (setSegmentCount n st)) = max 3 n"
    and "length (m_segmentDirections (snd (setSegmentCount n st))) = max 3 n"
    and "length (m_segmentStartDist (snd (setSegmentCount n st))) = max 3 n"
    and "m_segmentEndDist (snd (setSegmentCount n st)) = replicate (max 3 n) Infinity"
  using assms
  by (auto simp: setSegmentCount_def Let_def rebuildSegments_fields setVehicleContour_fields)

lemma setSegmentCount_count_dirs:
  "m_segmentCount (snd (setSegmentCount n st)) = max 3 n"
  "m_segmentDirections (snd (setSegmentCount n st)) \<noteq> []"
proof -
  show "m_segmentCount (snd (setSegmentCount n st)) = max 3 n"
    using setSegmentCount_changed(2) [of n st] setSegmentCount_same [of n st] by fastforce
  show "m_segmentDirections (snd (setSegmentCount n st)) \<noteq> []"
  proof (cases "max 3 n = m_segmentCount st \<and> m_segmentDirections st \<noteq> []")
    case True
    then show ?thesis by (simp add: setSegmentCount_same)
  next
    case False
    then have "length (m_segmentDirections (snd (setSegmentCount n st))) = max 3 n"
      by (intro setSegmentCount_changed) auto
    then show ?thesis by auto
  qed
qed



lemma fmod_nonneg:
  assumes "0 < y" "0 \<le> x"
  shows "0 \<le> fmod x y \<and> fmod x y < y"
proof -
  have t: "trunc_real (x / y) = \<lfloor>x / y\<rfloor>"
    using assms by (simp add: trunc_real_def)
  have "of_int \<lfloor>x / y\<rfloor> * y \<le> x" "x < (of_int \<lfloor>x / y\<rfloor> + 1) * y"
    using assms(1) by (rule floor_divide_lower, rule floor_divide_upper)
  then show ?thesis
    by (simp add: fmod_def t algebra_simps)
qed

lemma fmod_neg:
  assumes "0 < y" "x < 0"
  shows "- y < fmod x y \<and> fmod x y \<le> 0"
proof -
  have "x / y < 0"
    using assms by (simp add: divide_neg_pos)
  then have t: "trunc_real (x / y) = \<lceil>x / y\<rceil>"
    by (simp add: trunc_real_def)
  have "x \<le> of_int \<lceil>x / y\<rceil> * y" "(of_int \<lceil>x / y\<rceil> - 1) * y < x"
    using assms(1) by (rule ceiling_divide_upper, rule ceiling_divide_lower)
  then show ?thesis
    by (simp add: fmod_def t algebra_simps)
qed

lemma normalizeAngle_range: "0 \<le> normalizeAngle angle \<and> normalizeAngle angle < 2 * pi"
proof (cases "0 \<le> angle")
  case True
  then show ?thesis
    using fmod_nonneg [of "2 * pi" angle] by (simp add: normalizeAngle_def Let_def)
next
  case False
  then show ?thesis
    using fmod_neg [of "2 * pi" angle] by (auto simp: normalizeAngle_def Let_def)
qed

lemma segmentIndex_less: "0 < m_segmentCount st \<Longrightarrow> segmentIndex st angle < m_segmentCount st"
proof -
  assume pos: "0 < m_segmentCount st"
  have "min idx (m_segmentCount st - 1) \<le> m_segmentCount st - 1" for idx
    by simp
  with pos have "min idx (m_segmentCount st - 1) < m_segmentCount st" for idx
    by (metis Suc_pred le_imp_less_Suc One_nat_def)
  with pos show ?thesis
    by (simp add: segmentIndex_def Let_def)
qed

lemma resetSegments_fields:
  "m_segmentCount (resetSegments st) = m_segmentCount st"
  "m_segmentDirections (resetSegments st) = m_segmentDirections st"
  "m_segmentStartDist (resetSegments st) = m_segmentStartDist st"
  "length (m_segmentEndDist (resetSegments st)) = length (m_segmentEndDist st)"
  "m_vehicleCenter (resetSegments st) = m_vehicleCenter st"
  "m_ready (resetSegments st) = m_ready st"
  by (simp_all add: resetSegments_def)

lemma detectionStep_fields:
  "m_segmentCount (detectionStep p st) = m_segmentCount st"
  "m_segmentDirections (detectionStep p st) = m_segmentDirections st"
  "m_segmentStartDist (detectionStep p st) = m_segmentStartDist st"
  "length (m_segmentEndDist (detectionStep p st)) = length (m_segmentEndDist st)"
  by (simp_all add: detectionStep_def Let_def)

lemma footprintStep_fields:
  "m_segmentCount (footprintStep f i st) = m_segmentCount st"
  "m_segmentDirections (footprintStep f i st) = m_segmentDirections st"
  "m_segmentStartDist (footprintStep f i st) = m_segmentStartDist st"
  "length (m_segmentEndDist (footprintStep f i st)) = length (m_segmentEndDist st)"
  by (simp_all add: footprintStep_def split: dist.splits)

lemma ringSized_fold:
  assumes "\<And>x s. ringSized s \<Longrightarrow> ringSized (f x s)"
  shows "ringSized st \<Longrightarrow> ringSized (fold f xs st)"
  by (induction xs arbitrary: st) (simp_all add: assms)

lemma ringSized_detectionStep: "ringSized st \<Longrightarrow> ringSized (detectionStep p st)"
  by (simp add: ringSized_def detectionStep_fields)

lemma ringSized_footprintStep: "ringSized st \<Longrightarrow> ringSized (footprintStep f i st)"
  by (simp add: ringSized_def footprintStep_fields)

lemma ringSized_resetSegments: "ringSized st \<Longrightarrow> ringSized (resetSegments st)"
  by (simp add: ringSized_def resetSegments_fields)

lemma ringSized_update: "ringSized st \<Longrightarrow> ringSized (ring_update dets footprints st)"
  unfolding ring_update_def Let_def
  by (auto intro!: ringSized_fold ringSized_detectionStep ringSized_footprintStep
      ringSized_resetSegments)

lemma ringSized_setVehicleContour: "ringSized st \<Longrightarrow> ringSized (setVehicleContour contour st)"
  by (simp add: ringSized_def setVehicleContour_fields)

lemma ringSized_setSegmentCount: "ringSized st \<Longrightarrow> ringSized (snd (setSegmentCount n st))"
proof (cases "max 3 n = m_segmentCount st \<and> m_segmentDirections st \<noteq> []")
  case True
  then show "ringSized st \<Longrightarrow> ?thesis" by (simp add: setSegmentCount_same)
next
  case False
  then have "max 3 n \<noteq> m_segmentCount st \<or> m_segmentDirections st = []" by auto
  from setSegmentCount_changed(2-5) [OF this] show ?thesis
    by (simp add: ringSized_def)
qed

lemma ringSized_new: "ringSized RadarVirtualSensorMapping_new"
proof -
  let ?st0 = "\<lparr>m_vehicleContour = [], m_vehicleCenter = (0, 0), m_segmentCount = kDefaultSegmentCount,
             m_segmentDirections = [], m_segmentStartDist = [], m_segmentEndDist = [],
             m_ready = False\<rparr>"
  have "max 3 kDefaultSegmentCount \<noteq> m_segmentCount ?st0 \<or> m_segmentDirections ?st0 = []" by simp
  from setSegmentCount_changed(2-5) [OF this] show ?thesis
    by (simp add: ringSized_def RadarVirtualSensorMapping_new_def)
qed

lemma ringReachable_sized: "ringReachable st \<Longrightarrow> ringSized st"
proof (induction rule: ringReachable.induct)
  case ring_new
  show ?case by (rule ringSized_new)
next
  case (ring_setSegmentCount st n)
  then show ?case by (simp add: ringSized_setSegmentCount)
next
  case (ring_setVehicleContour st contour)
  then show ?case by (simp add: ringSized_setVehicleContour)
next
  case (ring_update st dets footprints)
  then show ?case by (simp add: ringSized_update)
next
  case (ring_reset st)
  then show ?case by (simp add: ring_reset_def ringSized_resetSegments)
qed



lemma rebuildStep_nth:
  "m_segmentDirections (rebuildStep d i s) ! j =
     (if j = i \<and> i < length (m_segmentDirections s)
      then (cos ((real i + 1 / 2) * d), sin ((real i + 1 / 2) * d))
      else m_segmentDirections s ! j)"
  by (cases "i < length (m_segmentDirections s)")
    (simp_all add: rebuildStep_def Let_def nth_list_update list_update_beyond)

lemma fold_rebuildStep_nth:
  "j < n \<Longrightarrow> n \<le> length (m_segmentDirections st) \<Longrightarrow>
     m_segmentDirections (fold (rebuildStep d) [0..<n] st) ! j
       = (cos ((real j + 1 / 2) * d), sin ((real j + 1 / 2) * d))"
proof (induction n)
  case 0
  then show ?case by simp
next
  case (Suc n)
  show ?case
  proof (cases "j = n")
    case True
    with Suc.prems show ?thesis
      by (simp add: rebuildStep_nth fold_rebuildStep_fields)
  next
    case False
    with Suc show ?thesis
      by (simp add: rebuildStep_nth)
  qed
qed

lemma startDistStep_nth:
  "m_segmentStartDist (startDistStep i s) ! j =
     (if j = i \<and> i < length (m_segmentStartDist s)
      then max 0 (contourRayDistance (m_vehicleContour s) (m_vehicleCenter s)
                    (m_segmentDirections s ! i))
      else m_segmentStartDist s ! j)"
  by (cases "i < length (m_segmentStartDist s)")
    (simp_all add: startDistStep_def Let_def nth_list_update list_update_beyond)

lemma fold_startDistStep_nth:
  "j < n \<Longrightarrow> n \<le> length (m_segmentStartDist st) \<Longrightarrow>
     m_segmentStartDist (fold startDistStep [0..<n] st) ! j
       = max 0 (contourRayDistance (m_vehicleContour st) (m_vehicleCenter st)
                  (m_segmentDirections st ! j))"
proof (induction n)
  case 0
  then show ?case by simp
next
  case (Suc n)
  show ?case
  proof (cases "j = n")
    case True
    with Suc.prems show ?thesis
      by (simp add: startDistStep_nth fold_startDistStep_fields)
  next
    case False
    with Suc show ?thesis
      by (simp add: startDistStep_nth)
  qed
qed

lemma setSegmentCount_changed_dirs:
  assumes "max 3 n \<noteq> m_segmentCount st \<or> m_segmentDirections st = []" and "j < max 3 n"
  shows "m_segmentDirections (snd (setSegmentCount n st)) ! j
           = (cos ((real j + 1 / 2) * (2 * pi / real (max 3 n))),
              sin ((real j + 1 / 2) * (2 * pi / real (max 3 n))))"
proof -
  define st1 where "st1 = st\<lparr>m_segmentCount := max 3 n,
      m_segmentDirections := replicate (max 3 n) (0, 0),
      m_segmentStartDist := replicate (max 3 n) 0,
      m_segmentEndDist := replicate (max 3 n) Infinity\<rparr>"
  have st1: "m_segmentCount st1 = max 3 n" "length (m_segmentDirections st1) = max 3 n"
    by (simp_all add: st1_def)
  have "m_segmentDirections (rebuildSegments st1) ! j
      = (cos ((real j + 1 / 2) * (2 * pi / real (max 3 n))),
         sin ((real j + 1 / 2) * (2 * pi / real (max 3 n))))"
    using assms(2) unfolding rebuildSegments_def st1(1)
    by (simp add: fold_rebuildStep_nth st1(2) del: upt_Suc)
  moreover have "m_segmentDirections (snd (setSegmentCount n st))
      = m_segmentDirections (rebuildSegments st1)"
    using assms(1) by (auto simp: setSegmentCount_def Let_def st1_def setVehicleContour_fields)
  ultimately show ?thesis by simp
qed

lemma setSegmentCount_contour:
  "m_vehicleContour (snd (setSegmentCount n st)) = m_vehicleContour st"
  by (simp add: setSegmentCount_def Let_def rebuildSegments_fields setVehicleContour_def
      fold_startDistStep_fields)

lemma setVehicleContour_set:
  assumes "3 \<le> length contour"
  shows "m_vehicleCenter (setVehicleContour contour st) = contourCenter contour"
    and "m_ready (setVehicleContour contour st)"
    and "j < m_segmentCount st \<Longrightarrow> m_segmentCount st \<le> length (m_segmentStartDist st) \<Longrightarrow>
           m_segmentStartDist (setVehicleContour contour st) ! j
             = max 0 (contourRayDistance contour (contourCenter contour) (m_segmentDirections st ! j))"
proof -
  define st1 where "st1 = st\<lparr>m_vehicleContour := contour, m_vehicleCenter := contourCenter contour\<rparr>"
  have eq: "setVehicleContour contour st = (fold startDistStep [0..<m_segmentCount st] st1)\<lparr>m_ready := True\<rparr>"
    using assms by (simp add: setVehicleContour_def Let_def st1_def)
  show "m_vehicleCenter (setVehicleContour contour st) = contourCenter contour"
    "m_ready (setVehicleContour contour st)"
    by (simp_all add: eq fold_startDistStep_fields st1_def)
  assume "j < m_segmentCount st" "m_segmentCount st \<le> length (m_segmentStartDist st)"
  then have "m_segmentStartDist (fold startDistStep [0..<m_segmentCount st] st1) ! j
      = max 0 (contourRayDistance (m_vehicleContour st1) (m_vehicleCenter st1)
                 (m_segmentDirections st1 ! j))"
    by (intro fold_startDistStep_nth) (simp_all add: st1_def)
  then show "m_segmentStartDist (setVehicleContour contour st) ! j
      = max 0 (contourRayDistance contour (contourCenter contour) (m_segmentDirections st ! j))"
    by (simp add: eq st1_def)
qed

lemma new_fields:
  "m_segmentCount RadarVirtualSensorMapping_new = 72"
  "m_vehicleContour RadarVirtualSensorMapping_new = []"
  by (simp_all add: RadarVirtualSensorMapping_new_def setSegmentCount_count_dirs
      setSegmentCount_contour kDefaultSegmentCount_def)

lemma ringBase_fields:
  "m_segmentCount ringBase = 3"
  "m_vehicleContour ringBase = []"
  "length (m_segmentDirections ringBase) = 3"
  "length (m_segmentStartDist ringBase) = 3"
  "m_segmentEndDist ringBase = replicate 3 Infinity"
  "m_segmentDirections ringBase ! Suc 0 = (- 1, 0)"
proof -
  have changed: "max 3 3 \<noteq> m_segmentCount RadarVirtualSensorMapping_new
      \<or> m_segmentDirections RadarVirtualSensorMapping_new = []"
    by (simp add: new_fields)
  from setSegmentCount_changed(2-5) [OF changed]
  show "m_segmentCount ringBase = 3" "length (m_segmentDirections ringBase) = 3"
    "length (m_segmentStartDist ringBase) = 3" "m_segmentEndDist ringBase = replicate 3 Infinity"
    by (simp_all add: ringBase_def)
  show "m_vehicleContour ringBase = []"
    by (simp add: ringBase_def setSegmentCount_contour new_fields)
  have "(real (Suc 0) + 1 / 2) * (2 * pi / real (max 3 (3::nat))) = pi"
    by simp
  with setSegmentCount_changed_dirs [OF changed, of "Suc 0"]
  show "m_segmentDirections ringBase ! Suc 0 = (- 1, 0)"
    by (simp add: ringBase_def)
qed

lemma square_ray: "contourRayDistance squareContour (0, 0) (- 1, 0) = 1"
proof -
  have idx: "[0..<4] = [0, 1, 2, 3]"
    by code_simp
  show ?thesis
    by (simp add: contourRayDistance_def squareContour_def idx edgeStep_def
        raySegmentIntersection_def vec_sub_def cross2_def kEpsilon_def Let_def)
qed

lemma ringSquare_fields:
  "m_segmentCount ringSquare = 3"
  "m_segmentDirections ringSquare \<noteq> []"
  "length (m_segmentEndDist ringSquare) = 3"
  "m_vehicleCenter ringSquare = (0, 0)"
  "m_ready ringSquare"
  "m_segmentStartDist ringSquare ! Suc 0 = 1"
proof -
  show "m_segmentCount ringSquare = 3" "length (m_segmentEndDist ringSquare) = 3"
    by (simp_all add: ringSquare_def setVehicleContour_fields ringBase_fields)
  show "m_segmentDirections ringSquare \<noteq> []"
    using ringBase_fields(3) by (auto simp: ringSquare_def setVehicleContour_fields)
  have center: "contourCenter squareContour = (0, 0)"
    by (simp add: contourCenter_def squareContour_def vec_add_def)
  have len: "3 \<le> length squareContour"
    by (simp add: squareContour_def)
  show "m_vehicleCenter ringSquare = (0, 0)" "m_ready ringSquare"
    by (simp_all add: ringSquare_def setVehicleContour_set [OF len] center)
  have "m_segmentStartDist ringSquare ! Suc 0
      = max 0 (contourRayDistance squareContour (contourCenter squareContour)
                 (m_segmentDirections ringBase ! Suc 0))"
    unfolding ringSquare_def
    by (rule setVehicleContour_set(3) [OF len]) (simp_all add: ringBase_fields)
  then show "m_segmentStartDist ringSquare ! Suc 0 = 1"
    by (simp add: center ringBase_fields square_ray)
qed

lemma ringHit_fields:
  "m_segmentCount ringHit = 3"
  "m_segmentDirections ringHit \<noteq> []"
  "m_segmentEndDist ringHit ! Suc 0 = Finite 5"
proof -
  have idx: "segmentIndex (resetSegments ringSquare) pi = Suc 0"
  proof -
    have "fmod pi (2 * pi) = pi"
      by (simp add: fmod_def trunc_real_def)
    then show ?thesis
      by (simp add: segmentIndex_def resetSegments_fields ringSquare_fields normalizeAngle_def
          Let_def trunc_real_def)
  qed
  have len: "vec_length (- 5, 0) = 5"
    by (simp add: vec_length_def)
  have inf: "m_segmentEndDist (resetSegments ringSquare) ! Suc 0 = Infinity"
    by (simp add: resetSegments_def ringSquare_fields)
  have step: "detectionStep (- 5, 0) (resetSegments ringSquare)
      = (resetSegments ringSquare)
          \<lparr>m_segmentEndDist := (m_segmentEndDist (resetSegments ringSquare))[Suc 0 := Finite 5]\<rparr>"
    by (simp add: detectionStep_def resetSegments_fields ringSquare_fields vec_sub_def len
        kEpsilon_def atan2_def idx inf Let_def)
  have hit: "ringHit = (resetSegments ringSquare)
          \<lparr>m_segmentEndDist := (m_segmentEndDist (resetSegments ringSquare))[Suc 0 := Finite 5]\<rparr>"
    by (simp add: ringHit_def ring_update_def Let_def resetSegments_fields ringSquare_fields step)
  show "m_segmentCount ringHit = 3" "m_segmentDirections ringHit \<noteq> []"
    by (simp_all add: hit resetSegments_fields ringSquare_fields)
  show "m_segmentEndDist ringHit ! Suc 0 = Finite 5"
    by (simp add: hit resetSegments_fields ringSquare_fields)
qed


subsection \<open>Repeating \<open>setSegmentCount\<close>\<close>

text \<open>
  Claim C9. After \<open>setSegmentCount(S); setVehicleContour(C)\<close>, a second
  \<open>setSegmentCount(S)\<close> returns \<open>false\<close> and changes nothing, so the start distances
  are those that \<open>setVehicleContour(C)\<close> left. This holds from every prior state, for
  every \<open>S\<close> and every contour; the claim's \<open>S \<ge> 3\<close> and contours of at least 3 points
  are among them.
\<close>

theorem repeated_count_keeps_start:
  "setSegmentCount S (setVehicleContour C (snd (setSegmentCount S st)))
     = (False, setVehicleContour C (snd (setSegmentCount S st))) \<and>
   m_segmentStartDist (snd (setSegmentCount S (setVehicleContour C (snd (setSegmentCount S st)))))
     = m_segmentStartDist (setVehicleContour C (snd (setSegmentCount S st)))"
proof -
  have "setSegmentCount S (setVehicleContour C (snd (setSegmentCount S st)))
       = (False, setVehicleContour C (snd (setSegmentCount S st)))"
    by (rule setSegmentCount_same) (simp_all add: setVehicleContour_fields setSegmentCount_count_dirs)
  then show ?thesis by simp
qed

theorem repeated_count_keeps_start_witness:
  "3 \<le> length squareContour \<and>
   m_segmentStartDist
     (snd (setSegmentCount 8 (setVehicleContour squareContour
        (snd (setSegmentCount 8 RadarVirtualSensorMapping_new)))))
     = m_segmentStartDist (setVehicleContour squareContour
        (snd (setSegmentCount 8 RadarVirtualSensorMapping_new)))"
  using repeated_count_keeps_start [of 8 squareContour RadarVirtualSensorMapping_new]
  by (simp add: squareContour_def)

subsection \<open>\<open>setSegmentCount\<close> and the end distances\<close>

text \<open>
  Claim C4, as stated, fails: \<open>setSegmentCount\<close> returns early when the clamped count is
  the current one and the directions are built, and then resets nothing. \<open>ringHit\<close> is
  the three-segment ring with the square contour after \<open>update\<close> with one detection at
  \<open>(-5, 0)\<close>: its segment 1 ends at distance 5, and still does after
  \<open>setSegmentCount(3)\<close>.
\<close>

theorem same_count_keeps_end_distances:
  "ringReachable ringHit \<and>
   m_segmentEndDist ringHit ! 1 = Finite 5 \<and>
   setSegmentCount 3 ringHit = (False, ringHit) \<and>
   m_segmentEndDist (snd (setSegmentCount 3 ringHit)) ! 1 = Finite 5"
proof -
  have reach: "ringReachable ringHit"
    unfolding ringHit_def ringSquare_def ringBase_def
    by (intro ringReachable.intros)
  have same: "setSegmentCount 3 ringHit = (False, ringHit)"
    by (rule setSegmentCount_same) (simp_all add: ringHit_fields)
  show ?thesis
    by (simp add: reach same ringHit_fields)
qed

text \<open>
  Claim C4, amended. When the requested count, raised to at least 3, differs from the
  current count (or the directions are not built yet, as in the constructor),
  \<open>setSegmentCount\<close> returns \<open>true\<close> and leaves that many end distances, all
  \<open>+infinity\<close>. Otherwise it returns \<open>false\<close> and leaves the whole state, the end
  distances included, as it was.
\<close>

theorem segment_count_resets_end_distances:
  "(max 3 n = m_segmentCount st \<and> m_segmentDirections st \<noteq> [] \<longrightarrow>
      setSegmentCount n st = (False, st)) \<and>
   (max 3 n \<noteq> m_segmentCount st \<or> m_segmentDirections st = [] \<longrightarrow>
      fst (setSegmentCount n st) \<and>
      m_segmentCount (snd (setSegmentCount n st)) = max 3 n \<and>
      m_segmentEndDist (snd (setSegmentCount n st)) = replicate (max 3 n) Infinity)"
  using setSegmentCount_same [of n st] setSegmentCount_changed(1,2,5) [of n st]
  by blast

theorem segment_count_resets_end_distances_witness:
  "m_segmentEndDist (snd (setSegmentCount 8 ringHit)) = replicate 8 Infinity \<and>
   setSegmentCount 3 ringHit = (False, ringHit)"
  using segment_count_resets_end_distances [of 8 ringHit]
    segment_count_resets_end_distances [of 3 ringHit]
  by (simp add: ringHit_fields)

subsection \<open>The angular bin of a detection\<close>

text \<open>
  Claim C10. In every ring state that the public operations produce, the segment count
  is at least 3 and is the length of the direction, start-distance and end-distance
  arrays. For every angle, \<open>normalizeAngle\<close> lies in \<open>[0, 2 pi)\<close> (in real arithmetic)
  and \<open>segmentIndex\<close> is below the segment count, by its final \<open>min\<close> alone. The same
  holds inside \<open>update\<close>, after the reset and any number of detections, so every read
  and write of \<open>m_segmentStartDist\<close> and \<open>m_segmentEndDist\<close> at a segment index is in
  bounds.
\<close>

theorem segment_index_in_bounds:
  "ringReachable st \<Longrightarrow>
     0 \<le> normalizeAngle angle \<and> normalizeAngle angle < 2 * pi \<and>
     3 \<le> m_segmentCount st \<and>
     segmentIndex st angle < m_segmentCount st \<and>
     length (m_segmentDirections st) = m_segmentCount st \<and>
     length (m_segmentStartDist st) = m_segmentCount st \<and>
     length (m_segmentEndDist st) = m_segmentCount st \<and>
     segmentIndex (fold detectionStep ps (resetSegments st)) angle
       < length (m_segmentStartDist (fold detectionStep ps (resetSegments st))) \<and>
     segmentIndex (fold detectionStep ps (resetSegments st)) angle
       < length (m_segmentEndDist (fold detectionStep ps (resetSegments st)))"
proof -
  assume "ringReachable st"
  then have sized: "ringSized st" by (rule ringReachable_sized)
  then have idx: "segmentIndex st angle < m_segmentCount st"
    by (intro segmentIndex_less) (simp add: ringSized_def)
  define s where "s = fold detectionStep ps (resetSegments st)"
  have inner: "ringSized s"
    unfolding s_def
    by (intro ringSized_fold ringSized_detectionStep ringSized_resetSegments sized)
  then have "segmentIndex s angle < m_segmentCount s"
    by (intro segmentIndex_less) (simp add: ringSized_def)
  with inner have "segmentIndex s angle < length (m_segmentStartDist s)"
    "segmentIndex s angle < length (m_segmentEndDist s)"
    by (simp_all add: ringSized_def)
  with sized idx normalizeAngle_range [of angle] show ?thesis
    by (simp add: ringSized_def s_def)
qed

theorem segment_index_in_bounds_witness:
  "ringReachable ringHit \<and> m_segmentCount ringHit = 3 \<and>
   segmentIndex ringHit (- 7) < 3 \<and> length (m_segmentEndDist ringHit) = 3"
proof -
  have reach: "ringReachable ringHit"
    unfolding ringHit_def ringSquare_def ringBase_def
    by (intro ringReachable.intros)
  show ?thesis
    using reach segment_index_in_bounds [OF reach, of "- 7" "[]"]
    by (simp add: ringHit_fields)
qed

section \<open>Properties of the occupancy grid\<close>


lemma std_clamp_bounds: "lo \<le> hi \<Longrightarrow> lo \<le> std_clamp v lo hi \<and> std_clamp v lo hi \<le> hi"
  by (simp add: std_clamp_def)

lemma list_all_update: "list_all P xs \<Longrightarrow> P v \<Longrightarrow> list_all P (xs[k := v])"
  by (metis insert_iff list_all_iff set_update_subset_insert subsetD)

lemma gridInv_updateCell: "gridInv st \<Longrightarrow> gridInv (updateCell ix iy delta st)"
  by (auto simp: gridInv_def updateCell_def Let_def cellOk_def std_clamp_bounds intro!: list_all_update)

lemma gridInv_fold:
  assumes "\<And>x s. gridInv s \<Longrightarrow> gridInv (f x s)"
  shows "gridInv st \<Longrightarrow> gridInv (fold f xs st)"
  by (induction xs arbitrary: st) (simp_all add: assms)

lemma gridInv_if:
  "(c \<Longrightarrow> gridInv a) \<Longrightarrow> (\<not> c \<Longrightarrow> gridInv b) \<Longrightarrow> gridInv (if c then a else b)"
  by simp

lemma gridInv_gaussianCell:
  "gridInv st \<Longrightarrow> gridInv (gaussianCell p fw rt a b sc iy ix st)"
  unfolding gaussianCell_def Let_def by (rule gridInv_updateCell)

lemma gridInv_addGaussian:
  "gridInv st \<Longrightarrow> gridInv (addGaussian p rel r az ra aa pl st)"
  unfolding addGaussian_def Let_def
  by (intro gridInv_if gridInv_fold gridInv_gaussianCell)

lemma gridInv_addHit: "gridInv st \<Longrightarrow> gridInv (addHit p pl st)"
  unfolding addHit_def Let_def
  by (intro gridInv_if gridInv_updateCell)

lemma gridInv_freespaceCell:
  "gridInv st \<Longrightarrow> gridInv (freespaceCell sp l r d iy ix st)"
  unfolding freespaceCell_def
  by (intro gridInv_if gridInv_updateCell)

lemma gridInv_addFreespaceCone:
  "gridInv st \<Longrightarrow> gridInv (addFreespaceCone sp az r ra amp st)"
  unfolding addFreespaceCone_def Let_def
  by (intro gridInv_if gridInv_fold gridInv_freespaceCell)

lemma gridInv_updatePoint: "gridInv st \<Longrightarrow> gridInv (updatePoint point st)"
  unfolding updatePoint_def Let_def
  by (intro gridInv_if gridInv_addFreespaceCone gridInv_addGaussian gridInv_addHit)

lemma gridInv_update: "gridInv st \<Longrightarrow> gridInv (fm_update points st)"
  unfolding fm_update_def by (rule gridInv_fold) (rule gridInv_updatePoint)

lemma gridInv_reset: "gridInv st \<Longrightarrow> gridInv (fm_reset st)"
  by (simp add: gridInv_def fm_reset_def list_all_iff cellOk_def)

lemma gridInv_init: "gridInv (initializeGrid (updatePlausibilityCache st))"
  by (simp add: gridInv_def initializeGrid_def updatePlausibilityCache_def Let_def list_all_iff cellOk_def)

lemma gridReachable_inv: "gridReachable st \<Longrightarrow> gridInv st"
proof (induction rule: gridReachable.induct)
  case (grid_new settings)
  show ?case unfolding FusedRadarMapping_new_def by (rule gridInv_init)
next
  case (grid_update st points)
  then show ?case by (simp add: gridInv_update)
next
  case (grid_reset st)
  then show ?case by (simp add: gridInv_reset)
next
  case (grid_applySettings st settings)
  show ?case unfolding applySettings_def by (rule gridInv_init)
qed


text \<open>An update leaves the settings as they are.\<close>

lemma settings_updateCell: "fm_settings st = S \<Longrightarrow> fm_settings (updateCell ix iy delta st) = S"
  by (simp add: updateCell_def Let_def)

lemma settings_fold:
  assumes "\<And>x s. fm_settings s = S \<Longrightarrow> fm_settings (f x s) = S"
  shows "fm_settings st = S \<Longrightarrow> fm_settings (fold f xs st) = S"
  by (induction xs arbitrary: st) (simp_all add: assms)

lemma settings_if:
  "(c \<Longrightarrow> fm_settings a = S) \<Longrightarrow> (\<not> c \<Longrightarrow> fm_settings b = S) \<Longrightarrow> fm_settings (if c then a else b) = S"
  by simp

lemma settings_gaussianCell:
  "fm_settings st = S \<Longrightarrow> fm_settings (gaussianCell p fw rt a b sc iy ix st) = S"
  unfolding gaussianCell_def Let_def by (rule settings_updateCell)

lemma settings_addGaussian:
  "fm_settings st = S \<Longrightarrow> fm_settings (addGaussian p rel r az ra aa pl st) = S"
  unfolding addGaussian_def Let_def
  by (intro settings_if settings_fold settings_gaussianCell)

lemma settings_addHit: "fm_settings st = S \<Longrightarrow> fm_settings (addHit p pl st) = S"
  unfolding addHit_def Let_def
  by (intro settings_if settings_updateCell)

lemma settings_freespaceCell:
  "fm_settings st = S \<Longrightarrow> fm_settings (freespaceCell sp l r d iy ix st) = S"
  unfolding freespaceCell_def
  by (intro settings_if settings_updateCell)

lemma settings_addFreespaceCone:
  "fm_settings st = S \<Longrightarrow> fm_settings (addFreespaceCone sp az r ra amp st) = S"
  unfolding addFreespaceCone_def Let_def
  by (intro settings_if settings_fold settings_freespaceCell)

lemma settings_updatePoint: "fm_settings st = S \<Longrightarrow> fm_settings (updatePoint point st) = S"
  unfolding updatePoint_def Let_def
  by (intro settings_if settings_addFreespaceCone settings_addGaussian settings_addHit)

lemma fm_update_settings: "fm_settings (fm_update points st) = fm_settings st"
  unfolding fm_update_def by (rule settings_fold) (simp_all add: settings_updatePoint)


subsection \<open>Plausibility\<close>

lemma std_clamp_unit: "std_clamp x 0 1 = spec_clamp01 x"
  by (simp add: std_clamp_def spec_clamp01_def)

text \<open>
  \<open>wrapTo180\<close>, written with \<open>fmod\<close> and a correction of negative remainders, is the
  wrap of the specification: its value lies in \<open>[-180, 180)\<close> and differs from the
  argument by a multiple of 360, and there is only one such value.
\<close>

lemma spec_wrapDegTo180_range: "- 180 \<le> spec_wrapDegTo180 d \<and> spec_wrapDegTo180 d < 180"
proof -
  have "of_int \<lfloor>(d + 180) / 360\<rfloor> * 360 \<le> d + 180"
    "d + 180 < (of_int \<lfloor>(d + 180) / 360\<rfloor> + 1) * 360"
    by (rule floor_divide_lower, simp, rule floor_divide_upper, simp)
  then show ?thesis
    by (simp add: spec_wrapDegTo180_def algebra_simps)
qed

lemma spec_wrapDegTo180_congruent: "\<exists>k :: int. spec_wrapDegTo180 d = d + 360 * of_int k"
  by (rule exI [of _ "- \<lfloor>(d + 180) / 360\<rfloor>"]) (simp add: spec_wrapDegTo180_def)

lemma spec_wrapDegTo180_unique:
  assumes "- 180 \<le> w" "w < 180" "w = d + 360 * of_int k"
  shows "w = spec_wrapDegTo180 d"
proof -
  have d: "d = w - 360 * of_int k"
    using assms(3) by simp
  have "(d + 180) / 360 = (w + 180) / 360 - of_int k"
    unfolding d by (simp add: diff_divide_distrib add_divide_distrib)
  then have "\<lfloor>(d + 180) / 360\<rfloor> = \<lfloor>(w + 180) / 360\<rfloor> - k"
    by (simp only: floor_diff_of_int)
  moreover have "\<lfloor>(w + 180) / 360\<rfloor> = 0"
    using assms(1,2) by (simp add: floor_eq_iff)
  ultimately have "\<lfloor>(d + 180) / 360\<rfloor> = - k"
    by simp
  then show ?thesis
    by (simp add: spec_wrapDegTo180_def d)
qed

lemma wrapTo180_spec: "wrapTo180 d = spec_wrapDegTo180 d"
proof (cases "0 \<le> d + 180")
  case True
  then have t: "trunc_real ((d + 180) / 360) = \<lfloor>(d + 180) / 360\<rfloor>"
    by (simp add: trunc_real_def)
  have "of_int \<lfloor>(d + 180) / 360\<rfloor> * 360 \<le> d + 180"
    by (rule floor_divide_lower) simp
  then have "\<not> fmod (d + 180) 360 < 0"
    by (simp add: fmod_def t algebra_simps)
  then show ?thesis
    by (simp add: wrapTo180_def Let_def spec_wrapDegTo180_def) (simp add: fmod_def t)
next
  case False
  then have "(d + 180) / 360 < 0"
    by simp
  then have t: "trunc_real ((d + 180) / 360) = \<lceil>(d + 180) / 360\<rceil>"
    by (simp add: trunc_real_def)
  show ?thesis
  proof (cases "(d + 180) / 360 = of_int \<lfloor>(d + 180) / 360\<rfloor>")
    case True
    then have c: "\<lceil>(d + 180) / 360\<rceil> = \<lfloor>(d + 180) / 360\<rfloor>"
      by (simp add: ceiling_altdef)
    have whole: "360 * of_int \<lfloor>(d + 180) / 360\<rfloor> = d + 180"
      using True by (simp add: field_simps)
    have "fmod (d + 180) 360 = 0"
      by (simp add: fmod_def t c whole)
    then show ?thesis
      using whole by (simp add: wrapTo180_def Let_def spec_wrapDegTo180_def)
  next
    case part: False
    then have c: "\<lceil>(d + 180) / 360\<rceil> = \<lfloor>(d + 180) / 360\<rfloor> + 1"
      by (simp add: ceiling_altdef)
    have "d + 180 < (of_int \<lfloor>(d + 180) / 360\<rfloor> + 1) * 360"
      by (rule floor_divide_upper) simp
    then have "fmod (d + 180) 360 < 0"
      by (simp add: fmod_def t c algebra_simps)
    then show ?thesis
      by (simp add: wrapTo180_def Let_def spec_wrapDegTo180_def) (simp add: fmod_def t c algebra_simps)
  qed
qed

text \<open>
  \<open>rad2deg\<close> against \<open>180 / pi\<close>. The bounds on \<open>pi\<close> come from Machin's formula and the
  alternating series of the arc tangent.
\<close>

lemma arctan_bounds:
  fixes x :: real
  assumes "0 \<le> x" "x \<le> 1"
  shows "(\<Sum>k<2 * n. (- 1) ^ k * (1 / real (k * 2 + 1) * x ^ (k * 2 + 1))) \<le> arctan x"
    and "arctan x \<le> (\<Sum>k<2 * n + 1. (- 1) ^ k * (1 / real (k * 2 + 1) * x ^ (k * 2 + 1)))"
proof -
  let ?a = "\<lambda>n. 1 / real (n * 2 + 1) * x ^ (n * 2 + 1)"
  have ax: "\<bar>x\<bar> \<le> 1" using assms by simp
  have z: "?a \<longlonglongrightarrow> 0" using ax by (rule zeroseq_arctan_series)
  have p: "0 \<le> ?a m" for m using assms by simp
  have m: "?a (Suc m) \<le> ?a m" for m
  proof -
    have "x ^ (Suc m * 2 + 1) \<le> x ^ (m * 2 + 1)"
      using assms by (intro power_decreasing) simp_all
    moreover have "1 / real (Suc m * 2 + 1) \<le> 1 / real (m * 2 + 1)"
      by (intro divide_left_mono) simp_all
    ultimately show ?thesis
      using assms by (intro mult_mono) simp_all
  qed
  have s: "arctan x = (\<Sum>k. (- 1) ^ k * ?a k)" using ax by (rule arctan_series)
  show "(\<Sum>k<2 * n. (- 1) ^ k * ?a k) \<le> arctan x"
    using summable_Leibniz'(2) [of ?a n, OF z p m] by (simp only: s)
  show "arctan x \<le> (\<Sum>k<2 * n + 1. (- 1) ^ k * ?a k)"
    using summable_Leibniz'(4) [of ?a n, OF z p m] by (simp only: s)
qed

lemma pi_bounds: "3141592653 / 1000000000 < pi" "pi < 3141592654 / 1000000000"
proof -
  have m: "pi = 16 * arctan (1 / 5) - 4 * arctan (1 / 239)"
    using machin by simp
  have a_lo: "(\<Sum>k<2 * 4. (- 1) ^ k * (1 / real (k * 2 + 1) * (1 / 5) ^ (k * 2 + 1))) \<le> arctan (1 / 5 :: real)"
    by (rule arctan_bounds) simp_all
  have a_hi: "arctan (1 / 5 :: real) \<le> (\<Sum>k<2 * 3 + 1. (- 1) ^ k * (1 / real (k * 2 + 1) * (1 / 5) ^ (k * 2 + 1)))"
    by (rule arctan_bounds) simp_all
  have b_lo: "(\<Sum>k<2 * 1. (- 1) ^ k * (1 / real (k * 2 + 1) * (1 / 239) ^ (k * 2 + 1))) \<le> arctan (1 / 239 :: real)"
    by (rule arctan_bounds) simp_all
  have b_hi: "arctan (1 / 239 :: real) \<le> (\<Sum>k<2 * 1 + 1. (- 1) ^ k * (1 / real (k * 2 + 1) * (1 / 239) ^ (k * 2 + 1)))"
    by (rule arctan_bounds) simp_all
  have e8: "{..<2 * 4 :: nat} = {0, 1, 2, 3, 4, 5, 6, 7}" by auto
  have e7: "{..<2 * 3 + 1 :: nat} = {0, 1, 2, 3, 4, 5, 6}" by auto
  have e2: "{..<2 * 1 :: nat} = {0, 1}" by auto
  have e3: "{..<2 * 1 + 1 :: nat} = {0, 1, 2}" by auto
  have a_lo': "19739555984 / 100000000000 \<le> arctan (1 / 5 :: real)"
    using a_lo unfolding e8 by (simp add: power_divide)
  have a_hi': "arctan (1 / 5 :: real) \<le> 19739555986 / 100000000000"
    using a_hi unfolding e7 by (simp add: power_divide)
  have b_lo': "41840760018 / 10000000000000 \<le> arctan (1 / 239 :: real)"
    using b_lo unfolding e2 by (simp add: power_divide)
  have b_hi': "arctan (1 / 239 :: real) \<le> 41840760021 / 10000000000000"
    using b_hi unfolding e3 by (simp add: power_divide)
  show "3141592653 / 1000000000 < pi"
    unfolding m using a_lo' b_hi' by simp
  show "pi < 3141592654 / 1000000000"
    unfolding m using a_hi' b_lo' by simp
qed

lemma spec_rad2deg_pi: "\<bar>spec_rad2deg - 180 / pi\<bar> < 1 / 10 ^ 7"
proof -
  have lo: "180 / (3141592654 / 1000000000) < 180 / pi"
    using pi_bounds(2) by (intro divide_strict_left_mono) (simp_all add: pi_gt_zero)
  have hi: "180 / pi < 180 / (3141592653 / 1000000000)"
    using pi_bounds(1) by (intro divide_strict_left_mono) (simp_all add: pi_gt_zero)
  show ?thesis
    using lo hi by (simp add: spec_rad2deg_def abs_less_iff)
qed

lemma spec_rad2deg_binary32:
  "\<bar>spec_rad2deg - 15019745 / 2 ^ 18\<bar> < 1 / 2 ^ 19"
  "\<bar>180 / pi - 15019745 / 2 ^ 18\<bar> < 1 / 2 ^ 19"
proof -
  have lo: "180 / (3141592654 / 1000000000) < 180 / pi"
    using pi_bounds(2) by (intro divide_strict_left_mono) (simp_all add: pi_gt_zero)
  have hi: "180 / pi < 180 / (3141592653 / 1000000000)"
    using pi_bounds(1) by (intro divide_strict_left_mono) (simp_all add: pi_gt_zero)
  show "\<bar>spec_rad2deg - 15019745 / 2 ^ 18\<bar> < 1 / 2 ^ 19"
    by (simp add: spec_rad2deg_def abs_less_iff)
  show "\<bar>180 / pi - 15019745 / 2 ^ 18\<bar> < 1 / 2 ^ 19"
    using lo hi by (simp add: abs_less_iff)
qed

lemma kRadToDeg_spec: "kRadToDeg = spec_rad2deg"
  by (simp add: kRadToDeg_def spec_rad2deg_def)

text \<open>
  Claim C8. In every grid state that the public operations produce: with plausibility
  scaling disabled, \<open>computePlausibility\<close> returns exactly 1; with scaling enabled, the
  Custom method and the range threshold 10, it returns the specification's value: the
  clamp to \<open>[0, 1]\<close> of \<open>min(sigma_range, sigma_azimuth) * sigma_amplitude\<close> when the
  range exceeds 10 and of \<open>sigma_range * sigma_amplitude\<close> otherwise. The sigmoids are
  those of the specification, the azimuth one taken at \<open>|wrapDegTo180(azimuth * rad2deg)|\<close>,
  where \<open>wrapDegTo180\<close> yields the angle in \<open>[-180, 180)\<close> that differs from its argument
  by a multiple of 360, and \<open>rad2deg\<close> is within \<open>1e-7\<close> of \<open>180 / pi\<close>: both are closer
  than half a unit in the last place to the same single-precision number,
  \<open>15019745 / 2^18\<close>.
\<close>

theorem plausibility_custom:
  "gridReachable st \<Longrightarrow>
     (\<not> enablePlausibilityScaling (fm_settings st) \<longrightarrow> computePlausibility st r azimuth amplitude = 1) \<and>
     (enablePlausibilityScaling (fm_settings st) \<and> plausibilityMethod (fm_settings st) = Custom
        \<and> customCombinationRangeThreshold (fm_settings st) = 10 \<longrightarrow>
      computePlausibility st r azimuth amplitude
        = spec_plausibility_custom (fm_settings st) r azimuth amplitude) \<and>
     - 180 \<le> spec_wrapDegTo180 d \<and> spec_wrapDegTo180 d < 180 \<and>
     (\<exists>k :: int. spec_wrapDegTo180 d = d + 360 * of_int k) \<and>
     \<bar>spec_rad2deg - 180 / pi\<bar> < 1 / 10 ^ 7 \<and>
     \<bar>spec_rad2deg - 15019745 / 2 ^ 18\<bar> < 1 / 2 ^ 19 \<and>
     \<bar>180 / pi - 15019745 / 2 ^ 18\<bar> < 1 / 2 ^ 19"
proof -
  assume "gridReachable st"
  then have inv: "gridInv st" by (rule gridReachable_inv)
  then have cache:
    "m_rangeGrowthRate st = - spec_growthRate (plausibilityRangeBandwidth (fm_settings st))"
    "m_azimuthGrowthRate st = - spec_growthRate (plausibilityAzimuthBandwidth (fm_settings st))"
    "m_amplitudeGrowthRate st = spec_growthRate (plausibilityAmplitudeBandwidth (fm_settings st))"
    by (simp_all add: gridInv_def spec_growthRate_def computeGrowthRate_def)
  have off: "\<not> enablePlausibilityScaling (fm_settings st) \<longrightarrow> computePlausibility st r azimuth amplitude = 1"
    by (simp add: computePlausibility_def)
  have on: "enablePlausibilityScaling (fm_settings st) \<and> plausibilityMethod (fm_settings st) = Custom
        \<and> customCombinationRangeThreshold (fm_settings st) = 10 \<longrightarrow>
      computePlausibility st r azimuth amplitude
        = spec_plausibility_custom (fm_settings st) r azimuth amplitude"
    by (simp add: computePlausibility_def Let_def cache std_clamp_unit spec_plausibility_custom_def
        spec_sigma_range_def spec_sigma_azimuth_def spec_sigma_amplitude_def spec_sigmoid_def
        computeIndividualPlausibility_def wrapTo180_spec kRadToDeg_spec)
  have wrap: "- 180 \<le> spec_wrapDegTo180 d" "spec_wrapDegTo180 d < 180"
    using spec_wrapDegTo180_range [of d] by simp_all
  show ?thesis
    by (intro conjI off on wrap spec_wrapDegTo180_congruent spec_rad2deg_pi spec_rad2deg_binary32)
qed

text \<open>
  The default settings at range 20 and azimuth 4 rad, which is 229.183118 degrees and
  wraps to \<open>-130.816882\<close>; the same with the range 5, below the threshold, and with
  scaling disabled.
\<close>

theorem plausibility_custom_witness:
  "computePlausibility (FusedRadarMapping_new default_Settings) 20 4 0
     = spec_plausibility_custom default_Settings 20 4 0 \<and>
   computePlausibility (FusedRadarMapping_new default_Settings) 5 4 0
     = spec_plausibility_custom default_Settings 5 4 0 \<and>
   wrapTo180 (4 * kRadToDeg) = - (130816882 / 1000000) \<and>
   spec_wrapDegTo180 (4 * spec_rad2deg) = - (130816882 / 1000000) \<and>
   computePlausibility (FusedRadarMapping_new (default_Settings\<lparr>enablePlausibilityScaling := False\<rparr>)) 20 4 0
     = 1"
proof -
  have s: "fm_settings (FusedRadarMapping_new settings) = settings" for settings
    by (simp add: FusedRadarMapping_new_def initializeGrid_def updatePlausibilityCache_def Let_def)
  have w: "spec_wrapDegTo180 (4 * spec_rad2deg) = - (130816882 / 1000000)"
    by (simp add: spec_wrapDegTo180_def spec_rad2deg_def)
  have w': "wrapTo180 (4 * kRadToDeg) = - (130816882 / 1000000)"
    by (simp add: wrapTo180_def kRadToDeg_def fmod_def trunc_real_def Let_def)
  have c20: "computePlausibility (FusedRadarMapping_new default_Settings) 20 4 0
     = spec_plausibility_custom default_Settings 20 4 0"
    using plausibility_custom [OF grid_new, of default_Settings 20 4 0]
    by (simp add: s) (simp add: default_Settings_def)
  have c5: "computePlausibility (FusedRadarMapping_new default_Settings) 5 4 0
     = spec_plausibility_custom default_Settings 5 4 0"
    using plausibility_custom [OF grid_new, of default_Settings 5 4 0]
    by (simp add: s) (simp add: default_Settings_def)
  have off: "computePlausibility (FusedRadarMapping_new (default_Settings\<lparr>enablePlausibilityScaling := False\<rparr>)) 20 4 0
     = 1"
    using plausibility_custom [OF grid_new, of "default_Settings\<lparr>enablePlausibilityScaling := False\<rparr>" 20 4 0]
    by (simp add: s)
  show ?thesis
    by (intro conjI c20 c5 w' w off)
qed


subsection \<open>Bounds of the log-odds\<close>



lemma hit_new:
  "FusedRadarMapping_new (hitSettings lo) =
     \<lparr>fm_settings = hitSettings lo, m_gridSize = 8, m_gridCenter = 7 / 2, m_logOdds = replicate 64 0,
      m_rangeGrowthRate = - computeGrowthRate (105 / 10),
      m_azimuthGrowthRate = - computeGrowthRate (1465 / 100),
      m_amplitudeGrowthRate = computeGrowthRate (879 / 100)\<rparr>"
  by (simp add: FusedRadarMapping_new_def initializeGrid_def updatePlausibilityCache_def Let_def
      hitSettings_def default_Settings_def)


lemma hit_update:
  "fm_update [hitPoint] (FusedRadarMapping_new (hitSettings lo))
      = (FusedRadarMapping_new (hitSettings lo))\<lparr>m_logOdds := (replicate 64 0)[27 := std_clamp (1 / 2) lo 5]\<rparr>"
proof -
  define st where "st = FusedRadarMapping_new (hitSettings lo)"
  have st: "fm_settings st = hitSettings lo" "m_gridSize st = 8" "m_gridCenter st = 7 / 2"
    "m_logOdds st = replicate 64 0"
    by (simp_all add: st_def hit_new)
  have cell: "worldToCell st (0, 0) = (True, 3, 3)"
    by (simp add: worldToCell_def st hitSettings_def Let_def)
  have pl: "computePlausibility st r az amp = 1" for r az amp
    by (simp add: computePlausibility_def st hitSettings_def)
  have hit: "addHit (0, 0) 1 st = st\<lparr>m_logOdds := (replicate 64 0)[27 := std_clamp (1 / 2) lo 5]\<rparr>"
    by (simp add: addHit_def cell updateCell_def st Let_def std_clamp_def hitSettings_def
        default_Settings_def)
  have "updatePoint hitPoint st = st\<lparr>m_logOdds := (replicate 64 0)[27 := std_clamp (1 / 2) lo 5]\<rparr>"
    by (simp add: updatePoint_def hitPoint_def default_RadarPoint_def vec_sub_def vec_length_def
        Let_def pl hit st)
      (simp add: hitSettings_def default_Settings_def)
  then show ?thesis
    by (simp add: fm_update_def st_def)
qed

text \<open>
  Under settings that are in the model's range the grid has at least 3 by 3 cells and its
  cell count fits a 32-bit \<open>int\<close>, and both sigmas of \<open>addGaussian\<close> are positive.
\<close>

lemma gridSettingsOk_size:
  assumes "gridInv st" "gridSettingsOk (fm_settings st)"
  shows "3 \<le> m_gridSize st" "m_gridSize st \<le> 46340" "m_gridSize st * m_gridSize st < 2 ^ 31"
proof -
  have n: "m_gridSize st = max 3 \<lceil>(mapRadius (fm_settings st) * 2) / cellSize (fm_settings st)\<rceil>"
    using assms(1) by (simp add: gridInv_def)
  show lo: "3 \<le> m_gridSize st"
    by (simp add: n)
  show hi: "m_gridSize st \<le> 46340"
    using assms(2) by (simp add: n gridSettingsOk_def)
  have "m_gridSize st * m_gridSize st \<le> 46340 * 46340"
    using lo hi by (intro mult_mono) simp_all
  then show "m_gridSize st * m_gridSize st < 2 ^ 31"
    by simp
qed

lemma gridSettingsOk_sigma:
  assumes "gridSettingsOk settings"
  shows "0 < max (rangeM * tan angleAccuracy) (cellSize settings * (1 / 2))"
    "0 < max rangeAccuracy (cellSize settings * (1 / 2))"
  using assms by (simp_all add: gridSettingsOk_def less_max_iff_disj)

lemma hitSettings_ok: "gridSettingsOk (hitSettings lo)"
  by (simp add: gridSettingsOk_def hitSettings_def default_Settings_def)

text \<open>
  Claim C5, as stated, fails for settings whose interval excludes 0: the cells start at
  0, and \<open>update\<close> clamps only the cells it writes. With \<open>min_log_odds = 1\<close> and
  \<open>max_log_odds = 5\<close> (cell size 0.5, an 8 by 8 grid), after one update that writes
  cell 27 (clamped up to 1), cell 0 is still 0, below the minimum.
\<close>

theorem log_odds_below_minimum:
  "minLogOdds (fm_settings (fm_update [hitPoint] (FusedRadarMapping_new (hitSettings 1)))) = 1 \<and>
   maxLogOdds (fm_settings (fm_update [hitPoint] (FusedRadarMapping_new (hitSettings 1)))) = 5 \<and>
   m_logOdds (fm_update [hitPoint] (FusedRadarMapping_new (hitSettings 1))) ! 27 = 1 \<and>
   m_logOdds (fm_update [hitPoint] (FusedRadarMapping_new (hitSettings 1))) ! 0 = 0 \<and>
   m_logOdds (FusedRadarMapping_new (hitSettings 1)) ! 0 = 0 \<and>
   gridSettingsOk (hitSettings 1) \<and>
   m_gridSize (FusedRadarMapping_new (hitSettings 1)) = 8"
  unfolding hit_update
  by (simp add: hit_new std_clamp_def hitSettings_ok) (simp add: hitSettings_def default_Settings_def)

text \<open>
  Claim C5, amended. Take a grid state that construction, \<open>update\<close>, \<open>reset\<close> and
  \<open>applySettings\<close> produce, in any order and with any points, whose settings in force
  have a positive cell size and a grid side \<open>ceil(2 * map_radius / cell_size)\<close> within the
  range of an \<open>int\<close> and at most 46340, all values being finite reals and the arithmetic
  exact. Then the grid has at least 3 by 3 cells, its cell count fits an \<open>int\<close> and is the
  length of the cell array; if \<open>min_log_odds \<le> 0 \<le> max_log_odds\<close>, every cell lies in
  \<open>[min_log_odds, max_log_odds]\<close>; and if \<open>min_log_odds \<le> max_log_odds\<close>, every cell is
  0 (not written since the grid was zeroed) or lies in that interval.
\<close>

theorem log_odds_bounded:
  "gridReachable st \<Longrightarrow> gridSettingsOk (fm_settings st) \<Longrightarrow>
     3 \<le> m_gridSize st \<and> m_gridSize st * m_gridSize st < 2 ^ 31 \<and>
     length (m_logOdds st) = nat (m_gridSize st * m_gridSize st) \<and>
     (minLogOdds (fm_settings st) \<le> 0 \<and> 0 \<le> maxLogOdds (fm_settings st) \<longrightarrow>
        list_all (\<lambda>c. minLogOdds (fm_settings st) \<le> c \<and> c \<le> maxLogOdds (fm_settings st))
          (m_logOdds st)) \<and>
     (minLogOdds (fm_settings st) \<le> maxLogOdds (fm_settings st) \<longrightarrow>
        list_all (\<lambda>c. c = 0 \<or> (minLogOdds (fm_settings st) \<le> c \<and> c \<le> maxLogOdds (fm_settings st)))
          (m_logOdds st))"
proof -
  assume "gridReachable st" and ok: "gridSettingsOk (fm_settings st)"
  then have inv: "gridInv st" by (simp add: gridReachable_inv)
  have size: "3 \<le> m_gridSize st" "m_gridSize st * m_gridSize st < 2 ^ 31"
    using gridSettingsOk_size [OF inv ok] by simp_all
  have len: "length (m_logOdds st) = nat (m_gridSize st * m_gridSize st)"
    using inv by (simp add: gridInv_def)
  have inside: "minLogOdds (fm_settings st) \<le> 0 \<and> 0 \<le> maxLogOdds (fm_settings st) \<longrightarrow>
        list_all (\<lambda>c. minLogOdds (fm_settings st) \<le> c \<and> c \<le> maxLogOdds (fm_settings st))
          (m_logOdds st)"
    using inv by (auto simp: gridInv_def cellOk_def list_all_iff)
  have zero: "minLogOdds (fm_settings st) \<le> maxLogOdds (fm_settings st) \<longrightarrow>
        list_all (\<lambda>c. c = 0 \<or> (minLogOdds (fm_settings st) \<le> c \<and> c \<le> maxLogOdds (fm_settings st)))
          (m_logOdds st)"
    using inv by (auto simp: gridInv_def cellOk_def list_all_iff)
  show ?thesis
    by (intro conjI size len inside zero)
qed

text \<open>
  The hit-model grid with bounds \<open>[-5, 5]\<close> after one update, and the default grid (the
  Gaussian model, cell size 0.5, 240 by 240 cells) after an update with the same point.
\<close>

theorem log_odds_bounded_witness:
  "gridReachable (fm_update [hitPoint] (FusedRadarMapping_new (hitSettings (- 5)))) \<and>
   gridSettingsOk (hitSettings (- 5)) \<and>
   m_logOdds (fm_update [hitPoint] (FusedRadarMapping_new (hitSettings (- 5)))) ! 27 = 1 / 2 \<and>
   list_all (\<lambda>c. - 5 \<le> c \<and> c \<le> 5)
     (m_logOdds (fm_update [hitPoint] (FusedRadarMapping_new (hitSettings (- 5))))) \<and>
   gridReachable (fm_update [hitPoint] (FusedRadarMapping_new default_Settings)) \<and>
   gridSettingsOk default_Settings \<and>
   m_gridSize (fm_update [hitPoint] (FusedRadarMapping_new default_Settings)) = 240 \<and>
   length (m_logOdds (fm_update [hitPoint] (FusedRadarMapping_new default_Settings))) = 57600 \<and>
   list_all (\<lambda>c. - 5 \<le> c \<and> c \<le> 5)
     (m_logOdds (fm_update [hitPoint] (FusedRadarMapping_new default_Settings)))"
proof -
  have reach: "gridReachable (fm_update [hitPoint] (FusedRadarMapping_new (hitSettings (- 5))))"
    by (intro gridReachable.intros)
  have s: "fm_settings (fm_update [hitPoint] (FusedRadarMapping_new (hitSettings (- 5)))) = hitSettings (- 5)"
    unfolding hit_update by (simp add: hit_new)
  have lo: "minLogOdds (hitSettings (- 5)) = - 5" "maxLogOdds (hitSettings (- 5)) = 5"
    by (simp_all add: hitSettings_def default_Settings_def)
  have cell: "m_logOdds (fm_update [hitPoint] (FusedRadarMapping_new (hitSettings (- 5)))) ! 27 = 1 / 2"
    unfolding hit_update by (simp add: std_clamp_def)
  have hit: "list_all (\<lambda>c. - 5 \<le> c \<and> c \<le> 5)
     (m_logOdds (fm_update [hitPoint] (FusedRadarMapping_new (hitSettings (- 5)))))"
    using log_odds_bounded [OF reach] by (simp add: s lo hitSettings_ok)
  have reach': "gridReachable (fm_update [hitPoint] (FusedRadarMapping_new default_Settings))"
    by (intro gridReachable.intros)
  have inv': "gridInv (fm_update [hitPoint] (FusedRadarMapping_new default_Settings))"
    using reach' by (rule gridReachable_inv)
  have s': "fm_settings (fm_update [hitPoint] (FusedRadarMapping_new default_Settings)) = default_Settings"
    by (simp add: fm_update_settings FusedRadarMapping_new_def initializeGrid_def
        updatePlausibilityCache_def Let_def)
  have ok': "gridSettingsOk default_Settings"
    by (simp add: gridSettingsOk_def default_Settings_def)
  have n': "m_gridSize (fm_update [hitPoint] (FusedRadarMapping_new default_Settings)) = 240"
    using inv' by (simp add: gridInv_def s') (simp add: default_Settings_def)
  have lo': "minLogOdds default_Settings = - 5" "maxLogOdds default_Settings = 5"
    by (simp_all add: default_Settings_def)
  have gauss: "length (m_logOdds (fm_update [hitPoint] (FusedRadarMapping_new default_Settings))) = 57600 \<and>
     list_all (\<lambda>c. - 5 \<le> c \<and> c \<le> 5)
       (m_logOdds (fm_update [hitPoint] (FusedRadarMapping_new default_Settings)))"
    using log_odds_bounded [OF reach'] by (simp add: s' lo' ok' n')
  show ?thesis
    using reach cell hit reach' ok' n' gauss by (simp add: hitSettings_ok)
qed

end
